theory Spec2Isabelle
  imports Complex_Main "HOL-Library.Word"
begin

section \<open>Cross-chain statistics engine of poly-bridge (package crosschainstats)\<close>

text \<open>
  A shallow embedding of \<^verbatim>\<open>src/crosschainstats/crosschainstats.go\<close>. The database access
  object (\<^verbatim>\<open>bridgedao\<close>), the chain RPC client (\<^verbatim>\<open>common.GetBalance\<close>,
  \<^verbatim>\<open>common.GetTotalSupply\<close>), the HTTP client and the alert sink are collaborators whose
  code is not part of the sources; every call to them is a parameter of the model. A call
  whose pointer is used after an error, or may be nil without an error, returns what the
  Go signature allows: a pointer that may be nil (\<open>option\<close>) together with an error that
  may be nil (\<open>option\<close>).
\<close>

subsection \<open>Panics and results\<close>

text \<open>
  A Go function of this package either returns normally, returns an error
  (\<open>Error\<close> with its message) or panics (nil pointer dereference, decimal division by
  zero); a panic is not recovered anywhere in the package. \<open>Error\<close> carries the message of
  the underlying error; the prefix that \<^verbatim>\<open>fmt.Errorf\<close> puts before it is left out.
\<close>

datatype fault = NilPointerDereference | DivisionByZero | Error string

subsection \<open>Machine integers\<close>

text \<open>Go's conversion \<^verbatim>\<open>int32(x)\<close> of a \<^verbatim>\<open>uint64\<close> keeps the low 32 bits, read signed.\<close>

definition int32 :: "nat \<Rightarrow> int" where
  "int32 n = sint (word_of_nat n :: 32 word)"

text \<open>\<^verbatim>\<open>big.Int.Int64()\<close>: the low 64 bits, read signed.\<close>

definition Int64 :: "int \<Rightarrow> int" where
  "Int64 i = sint (word_of_int i :: 64 word)"

subsection \<open>The decimal library (github.com/shopspring/decimal)\<close>

text \<open>
  A \<^verbatim>\<open>decimal.Decimal\<close> is an exact number \<open>value * 10 ^ exp\<close>; it is modelled by the
  rational it denotes. \<^verbatim>\<open>Add\<close> and \<^verbatim>\<open>Mul\<close> are exact (\<open>+\<close> and \<open>*\<close> on \<open>rat\<close>).
  \<^verbatim>\<open>Div\<close> rounds the quotient to \<^verbatim>\<open>DivisionPrecision = 16\<close> decimal places, half away
  from zero, and panics on a zero divisor (the callers below check the divisor where it
  can be zero). \<^verbatim>\<open>BigInt\<close> truncates towards zero. \<^verbatim>\<open>StringFixed(0)\<close> rounds to an
  integer, half away from zero.
\<close>

definition round_half_away :: "rat \<Rightarrow> int" where
  "round_half_away x = (if 0 \<le> x then \<lfloor>x + 1 / 2\<rfloor> else - \<lfloor>- x + 1 / 2\<rfloor>)"

definition dec_New :: "int \<Rightarrow> int \<Rightarrow> rat" where
  "dec_New v e = (if 0 \<le> e then of_int v * 10 ^ nat e else of_int v / 10 ^ nat (- e))"

definition dec_Div :: "rat \<Rightarrow> rat \<Rightarrow> rat" where
  "dec_Div d d2 = of_int (round_half_away (d / d2 * 10 ^ 16)) / 10 ^ 16"

definition dec_BigInt :: "rat \<Rightarrow> int" where
  "dec_BigInt d = (if 0 \<le> d then \<lfloor>d\<rfloor> else - \<lfloor>- d\<rfloor>)"

definition dec_IntPart :: "rat \<Rightarrow> int" where
  "dec_IntPart d = Int64 (dec_BigInt d)"

definition dec_StringFixed0 :: "rat \<Rightarrow> int" where
  "dec_StringFixed0 d = round_half_away d"

subsection \<open>Constants of package basedef (mainnet build)\<close>

definition PRICE_PRECISION :: int where "PRICE_PRECISION = 100000000"

definition POLY_CROSSCHAIN_ID :: nat where "POLY_CROSSCHAIN_ID = 0"
definition ETHEREUM_CROSSCHAIN_ID :: nat where "ETHEREUM_CROSSCHAIN_ID = 2"
definition BSC_CROSSCHAIN_ID :: nat where "BSC_CROSSCHAIN_ID = 6"
definition HECO_CROSSCHAIN_ID :: nat where "HECO_CROSSCHAIN_ID = 7"
definition O3_CROSSCHAIN_ID :: nat where "O3_CROSSCHAIN_ID = 10"
definition OK_CROSSCHAIN_ID :: nat where "OK_CROSSCHAIN_ID = 12"

text \<open>
  \<^verbatim>\<open>basedef.MATIC_CROSSCHAIN_ID\<close> is used by \<^verbatim>\<open>specialBasic\<close> but its declaration is not
  in the sources: it is a parameter (\<open>MATIC\<close>) of every definition that reads it.
\<close>

subsection \<open>Catalog entities (package models)\<close>

text \<open>
  The declarations of package \<^verbatim>\<open>models\<close> are not part of the sources. The records below
  have the fields that \<^verbatim>\<open>crosschainstats.go\<close> reads and writes, with the types of their
  uses: chain ids and precisions are \<^verbatim>\<open>uint64\<close> (natural numbers), prices are \<^verbatim>\<open>int64\<close>
  that are only converted to decimals (integers), \<^verbatim>\<open>*big.Int\<close> amounts are integers.
\<close>

record TokenBasic =
  tb_Name :: string
  tb_Precision :: nat
  tb_Price :: int
  tb_ChainId :: nat
  tb_Standard :: nat

record Token =
  t_Hash :: string
  t_ChainId :: nat
  t_Precision :: nat
  t_TokenBasicName :: string
  t_Property :: int
  t_Standard :: nat
  t_TokenBasic :: "TokenBasic option"

text \<open>A token basic loaded together with its tokens (\<^verbatim>\<open>basic.Tokens\<close>).\<close>

record TokenBasicT = TokenBasic +
  tb_Tokens :: "Token list"

subsection \<open>Reserve reconciler: override table and exclusion list\<close>

definition extraBasics :: "string list" where
  "extraBasics = [''BLES'', ''GOF'', ''LEV'', ''mBTM'', ''MOZ'', ''O3'', ''USDT'', ''STN'', ''XMPT'']"

definition inExtraBasic :: "string \<Rightarrow> bool" where
  "inExtraBasic name = (name \<in> set extraBasics)"

definition presion :: "Token \<Rightarrow> int" where
  "presion token = dec_BigInt (dec_New 1 (int32 (t_Precision token)))"

text \<open>
  \<^verbatim>\<open>specialBasic\<close> returns a fresh number or the pointer it was given, which is nil when
  the caller's was.
\<close>

definition specialBasic :: "nat \<Rightarrow> Token \<Rightarrow> int option \<Rightarrow> int option" where
  "specialBasic MATIC token totalSupply =
    (let name = t_TokenBasicName token; chain = t_ChainId token in
     if name = ''YNI'' \<and> chain = ETHEREUM_CROSSCHAIN_ID then Some 0
     else if name = ''YNI'' \<and> chain = HECO_CROSSCHAIN_ID then Some (1 * presion token)
     else if name = ''DAO'' \<and> chain = ETHEREUM_CROSSCHAIN_ID then Some (1000 * presion token)
     else if name = ''DAO'' \<and> chain = HECO_CROSSCHAIN_ID then Some (1000 * presion token)
     else if name = ''COPR'' \<and> chain = BSC_CROSSCHAIN_ID then Some (274400000 * presion token)
     else if name = ''COPR'' \<and> chain = HECO_CROSSCHAIN_ID then Some 0
     else if name = ''DigiCol ERC-721'' \<and> chain = ETHEREUM_CROSSCHAIN_ID then Some 0
     else if name = ''DigiCol ERC-721'' \<and> chain = HECO_CROSSCHAIN_ID then Some 0
     else if name = ''DMOD'' \<and> chain = ETHEREUM_CROSSCHAIN_ID then Some 0
     else if name = ''DMOD'' \<and> chain = BSC_CROSSCHAIN_ID then Some (15000000 * presion token)
     else if name = ''SIL'' \<and> chain = ETHEREUM_CROSSCHAIN_ID then Some 1487520675265330391631
     else if name = ''SIL'' \<and> chain = BSC_CROSSCHAIN_ID then Some (5001 * presion token)
     else if name = ''DOGK'' \<and> chain = BSC_CROSSCHAIN_ID then Some 0
     else if name = ''DOGK'' \<and> chain = HECO_CROSSCHAIN_ID then Some (285000000000 * presion token)
     else if name = ''SXC'' \<and> chain = OK_CROSSCHAIN_ID then Some 0
     else if name = ''SXC'' \<and> chain = MATIC then Some 0
     else if name = ''OOE'' \<and> chain = MATIC then Some 0
     else totalSupply)"

text \<open>The (asset name, chain) pairs that \<^verbatim>\<open>specialBasic\<close> tests, in its order.\<close>

definition overridePairs :: "nat \<Rightarrow> (string \<times> nat) list" where
  "overridePairs MATIC =
    [(''YNI'', ETHEREUM_CROSSCHAIN_ID), (''YNI'', HECO_CROSSCHAIN_ID),
     (''DAO'', ETHEREUM_CROSSCHAIN_ID), (''DAO'', HECO_CROSSCHAIN_ID),
     (''COPR'', BSC_CROSSCHAIN_ID), (''COPR'', HECO_CROSSCHAIN_ID),
     (''DigiCol ERC-721'', ETHEREUM_CROSSCHAIN_ID), (''DigiCol ERC-721'', HECO_CROSSCHAIN_ID),
     (''DMOD'', ETHEREUM_CROSSCHAIN_ID), (''DMOD'', BSC_CROSSCHAIN_ID),
     (''SIL'', ETHEREUM_CROSSCHAIN_ID), (''SIL'', BSC_CROSSCHAIN_ID),
     (''DOGK'', BSC_CROSSCHAIN_ID), (''DOGK'', HECO_CROSSCHAIN_ID),
     (''SXC'', OK_CROSSCHAIN_ID), (''SXC'', MATIC), (''OOE'', MATIC)]"

definition notToken :: "Token \<Rightarrow> bool" where
  "notToken token = (t_TokenBasicName token = ''USDT'' \<and> t_Precision token \<noteq> 6)"

subsection \<open>Chain queries with bounded retry\<close>

text \<open>
  One call of \<^verbatim>\<open>common.GetBalance\<close> or \<^verbatim>\<open>common.GetTotalSupply\<close> returns a pointer and
  an error. The environment is a function from the chain id, the asset hash and the number
  of the attempt (0 for the first call) to that pair. The retry functions return the pair
  of the last attempt and the number of \<^verbatim>\<open>time.Sleep(time.Second)\<close> calls they made.
\<close>

type_synonym rpc_result = "int option \<times> string option"
type_synonym rpc = "nat \<Rightarrow> string \<Rightarrow> nat \<Rightarrow> rpc_result"

function retryLoop :: "(nat \<Rightarrow> rpc_result) \<Rightarrow> nat \<Rightarrow> nat \<Rightarrow> rpc_result \<Rightarrow> rpc_result \<times> nat" where
  "retryLoop call bound i prev =
    (if i < bound then
       (let r = call (Suc i) in
        if snd r = None then (r, Suc i) else retryLoop call bound (Suc i) r)
     else (prev, i))"
  by pat_completeness auto
termination
  by (relation "measure (\<lambda>(call, bound, i, prev). bound - i)") auto

declare retryLoop.simps [simp del]

definition getAndRetryBalance :: "rpc \<Rightarrow> nat \<Rightarrow> string \<Rightarrow> rpc_result \<times> nat" where
  "getAndRetryBalance GetBalance chainId hash =
    (let r = GetBalance chainId hash 0 in
     if snd r \<noteq> None then retryLoop (GetBalance chainId hash) 4 0 r else (r, 0))"

definition getAndRetryTotalSupply :: "rpc \<Rightarrow> nat \<Rightarrow> string \<Rightarrow> rpc_result \<times> nat" where
  "getAndRetryTotalSupply GetTotalSupply chainId hash =
    (let r = GetTotalSupply chainId hash 0 in
     if snd r \<noteq> None then retryLoop (GetTotalSupply chainId hash) 2 0 r else (r, 0))"


text \<open>The chain client (\<^verbatim>\<open>common.GetBalance\<close>, \<^verbatim>\<open>common.GetTotalSupply\<close>).\<close>

record chain_rpc =
  GetBalance :: rpc
  GetTotalSupply :: rpc

subsection \<open>Reserve reconciler: \<^verbatim>\<open>startCheckAssetAlarm\<close>\<close>

record DstChainAsset =
  dca_ChainId :: nat
  dca_Hash :: string
  dca_TotalSupply :: "int option"
  dca_Balance :: "int option"
  dca_Flow :: "int option"

text \<open>
  \<open>ad_Amount_usd\<close> is the string field \<^verbatim>\<open>Amount_usd\<close>: \<open>None\<close> is the empty string it
  starts with, \<open>Some n\<close> the digits of the integer \<open>n\<close> that \<^verbatim>\<open>StringFixed(0)\<close> prints.
\<close>

record AssetDetail =
  ad_BasicName :: string
  ad_TokenAsset :: "DstChainAsset list"
  ad_Difference :: int
  ad_Precision :: nat
  ad_Price :: int
  ad_Amount_usd :: "int option"
  ad_Reason :: string

text \<open>
  The answer of \<^verbatim>\<open>http.Get\<close>: \<open>HttpFailed\<close> is a nil response with an error,
  \<open>HttpStatus code b\<close> a response with that status code whose body unmarshals to the
  \<^verbatim>\<open>Balance\<close> pointer \<open>b\<close>.
\<close>

datatype http_response = HttpFailed | HttpStatus nat "int option"

record reconciler_env = chain_rpc +
  GetPropertytokenBasic :: "string + TokenBasicT list"
  MATIC_CROSSCHAIN_ID :: nat
  WBTCIP :: http_response
  USDTIP :: http_response

text \<open>
  \<^verbatim>\<open>getO3Data\<close>. \<^verbatim>\<open>defer response.Body.Close()\<close> stands before the error check, so a nil
  response panics; \<^verbatim>\<open>Difference.Add\<close> of a nil balance panics.
\<close>

definition getO3Data :: "reconciler_env \<Rightarrow> AssetDetail \<Rightarrow> fault + AssetDetail" where
  "getO3Data env assetDetail =
    (if ad_BasicName assetDetail = ''WBTC'' then
       (case WBTCIP env of
          HttpFailed \<Rightarrow> Inl NilPointerDereference
        | HttpStatus code o3WBTC \<Rightarrow>
            if code \<noteq> 200 then Inr assetDetail
            else (case o3WBTC of
                None \<Rightarrow> Inl NilPointerDereference
              | Some b \<Rightarrow> Inr (assetDetail
                  \<lparr>ad_TokenAsset := ad_TokenAsset assetDetail @
                     [\<lparr>dca_ChainId = O3_CROSSCHAIN_ID, dca_Hash = [], dca_TotalSupply = Some 0,
                       dca_Balance = Some 0, dca_Flow = Some b\<rparr>],
                   ad_Difference := ad_Difference assetDetail + b\<rparr>)))
     else if ad_BasicName assetDetail = ''USDT'' then
       (case USDTIP env of
          HttpFailed \<Rightarrow> Inl NilPointerDereference
        | HttpStatus code o3USDT \<Rightarrow>
            if code \<noteq> 200 then Inr assetDetail
            else Inr (assetDetail
                  \<lparr>ad_TokenAsset := ad_TokenAsset assetDetail @
                     [\<lparr>dca_ChainId = O3_CROSSCHAIN_ID, dca_Hash = [], dca_TotalSupply = Some 0,
                       dca_Balance = o3USDT, dca_Flow = Some 0\<rparr>]\<rparr>))
     else Inr assetDetail)"

text \<open>
  The two fetches of the loop over \<^verbatim>\<open>basic.Tokens\<close>: the figure used (zero after a
  failure) and the value of \<^verbatim>\<open>assetDetail.Reason\<close> afterwards.
\<close>

definition fetchBalance :: "reconciler_env \<Rightarrow> Token \<Rightarrow> string \<Rightarrow> int option \<times> string" where
  "fetchBalance env token reason =
    (let (balance, err) = fst (getAndRetryBalance (GetBalance env) (t_ChainId token) (t_Hash token))
     in case err of Some e \<Rightarrow> (Some 0, e) | None \<Rightarrow> (balance, reason))"

definition fetchTotalSupply :: "reconciler_env \<Rightarrow> Token \<Rightarrow> string \<Rightarrow> int option \<times> string" where
  "fetchTotalSupply env token reason =
    (let (totalSupply, err) =
           fst (getAndRetryTotalSupply (GetTotalSupply env) (t_ChainId token) (t_Hash token))
     in case err of Some e \<Rightarrow> (Some 0, e) | None \<Rightarrow> (totalSupply, reason))"

text \<open>
  The body of the loop over \<^verbatim>\<open>basic.Tokens\<close>. Its state is \<^verbatim>\<open>assetDetail.Reason\<close>,
  \<^verbatim>\<open>dstChainAssets\<close> and \<^verbatim>\<open>totalFlow\<close>. \<^verbatim>\<open>big.Int.Sub\<close> of a nil pointer panics. The
  one-second sleep between the two fetches has no effect on the state and is left out.
\<close>

definition checkToken ::
  "reconciler_env \<Rightarrow> TokenBasicT \<Rightarrow> Token \<Rightarrow> string \<times> DstChainAsset list \<times> int
     \<Rightarrow> fault + string \<times> DstChainAsset list \<times> int" where
  "checkToken env basic token st =
    (case st of (reason, dstChainAssets, totalFlow) \<Rightarrow>
     if notToken token then Inr st
     else if t_Property token \<noteq> 1 then Inr st
     else
       (let (balance, reason1) = fetchBalance env token reason;
            (totalSupply1, reason2) = fetchTotalSupply env token reason1;
            totalSupply2 = specialBasic (MATIC_CROSSCHAIN_ID env) token totalSupply1;
            totalSupply =
              (if \<not> inExtraBasic (t_TokenBasicName token) \<and> tb_ChainId basic = t_ChainId token
               then Some 0 else totalSupply2)
        in case (totalSupply, balance) of
             (Some ts, Some b) \<Rightarrow>
               Inr (reason2,
                    dstChainAssets @
                      [\<lparr>dca_ChainId = t_ChainId token, dca_Hash = t_Hash token,
                        dca_TotalSupply = Some ts, dca_Balance = Some b, dca_Flow = Some (ts - b)\<rparr>],
                    totalFlow + (ts - b))
           | _ \<Rightarrow> Inl NilPointerDereference))"

fun checkTokens ::
  "reconciler_env \<Rightarrow> TokenBasicT \<Rightarrow> Token list \<Rightarrow> string \<times> DstChainAsset list \<times> int
     \<Rightarrow> fault + string \<times> DstChainAsset list \<times> int" where
  "checkTokens env basic [] st = Inr st"
| "checkTokens env basic (token # tokens) st =
    (case checkToken env basic token st of
       Inl f \<Rightarrow> Inl f
     | Inr st' \<Rightarrow> checkTokens env basic tokens st')"

definition amountUsd :: "AssetDetail \<Rightarrow> int" where
  "amountUsd assetDetail =
    dec_StringFixed0
      (dec_Div (of_int (ad_Difference assetDetail)) (dec_New 1 (int32 (ad_Precision assetDetail)))
        * dec_New (ad_Price assetDetail) (- 8))"

text \<open>
  The body of the loop over the token basics: the asset detail it builds, and whether the
  detail goes to \<^verbatim>\<open>extraAssetDetails\<close> (\<open>True\<close>) or to \<^verbatim>\<open>resAssetDetails\<close>.
\<close>

definition checkBasic :: "reconciler_env \<Rightarrow> TokenBasicT \<Rightarrow> fault + AssetDetail \<times> bool" where
  "checkBasic env basic =
    (case checkTokens env basic (tb_Tokens basic) ([], [], 0) of
       Inl f \<Rightarrow> Inl f
     | Inr (reason, dstChainAssets, totalFlow) \<Rightarrow>
        (case getO3Data env
                \<lparr>ad_BasicName = tb_Name basic, ad_TokenAsset = dstChainAssets,
                 ad_Difference = totalFlow, ad_Precision = tb_Precision basic,
                 ad_Price = tb_Price basic, ad_Amount_usd = None, ad_Reason = reason\<rparr> of
           Inl f \<Rightarrow> Inl f
         | Inr assetDetail \<Rightarrow>
             if inExtraBasic (ad_BasicName assetDetail) then Inr (assetDetail, True)
             else if 0 < ad_Difference assetDetail
               then Inr (assetDetail\<lparr>ad_Amount_usd := Some (amountUsd assetDetail)\<rparr>, False)
               else Inr (assetDetail, False)))"

fun checkBasics ::
  "reconciler_env \<Rightarrow> TokenBasicT list \<Rightarrow> AssetDetail list \<times> AssetDetail list
     \<Rightarrow> fault + AssetDetail list \<times> AssetDetail list" where
  "checkBasics env [] acc = Inr acc"
| "checkBasics env (basic # basics) acc =
    (case checkBasic env basic of
       Inl f \<Rightarrow> Inl f
     | Inr (assetDetail, extra) \<Rightarrow>
         checkBasics env basics
           (if extra then (fst acc, snd acc @ [assetDetail]) else (fst acc @ [assetDetail], snd acc)))"

text \<open>
  \<^verbatim>\<open>sendDing\<close>. The message \<^verbatim>\<open>ss\<close> is modelled by the list of the asset names it reports.
  Printing a chain entry dereferences its three numbers. The result is the message handed
  to \<^verbatim>\<open>common.PostDingtext\<close>, if any.
\<close>

definition printable :: "DstChainAsset \<Rightarrow> bool" where
  "printable x = (dca_TotalSupply x \<noteq> None \<and> dca_Balance x \<noteq> None \<and> dca_Flow x \<noteq> None)"

fun sendDingLoop :: "AssetDetail list \<Rightarrow> string list \<times> bool \<Rightarrow> fault + string list \<times> bool" where
  "sendDingLoop [] st = Inr st"
| "sendDingLoop (assetDetail # assetDetails) st =
    (if ad_Reason assetDetail = ''all node is not working'' then sendDingLoop assetDetails st
     else if 0 < ad_Difference assetDetail then
       (let usd = (case ad_Amount_usd assetDetail of None \<Rightarrow> 0 | Some n \<Rightarrow> n) in
        if 10000 < usd then
          (if list_all printable (ad_TokenAsset assetDetail)
           then sendDingLoop assetDetails (fst st @ [ad_BasicName assetDetail], True)
           else Inl NilPointerDereference)
        else sendDingLoop assetDetails st)
     else sendDingLoop assetDetails st)"

definition sendDing :: "AssetDetail list \<Rightarrow> fault + string list option" where
  "sendDing assetDetails =
    (case sendDingLoop assetDetails ([], False) of
       Inl f \<Rightarrow> Inl f
     | Inr (ss, flag) \<Rightarrow> if flag then Inr (Some ss) else Inr None)"

record reconciler_result =
  resAssetDetails :: "AssetDetail list"
  extraAssetDetails :: "AssetDetail list"
  alert :: "string list option"

definition startCheckAssetAlarm :: "reconciler_env \<Rightarrow> fault + reconciler_result" where
  "startCheckAssetAlarm env =
    (case GetPropertytokenBasic env of
       Inl err \<Rightarrow> Inl (Error err)
     | Inr tokenBasics \<Rightarrow>
        (case checkBasics env tokenBasics ([], []) of
           Inl f \<Rightarrow> Inl f
         | Inr (res, extra) \<Rightarrow>
            (case sendDing res of
               Inl f \<Rightarrow> Inl f
             | Inr posted \<Rightarrow>
                 Inr \<lparr>resAssetDetails = res, extraAssetDetails = extra, alert = posted\<rparr>)))"

text \<open>
  Notions for stating the reconciler's properties. A token is tracked when the loop over
  \<^verbatim>\<open>basic.Tokens\<close> builds a chain entry for it. The balance the pass uses for a token is
  the fetched one, or zero after a fetch that ended in an error; likewise the fetched
  total supply, to which the override table and the home-chain rule are then applied. The
  fetch errors of a token are the messages of its two fetches, in the order of the
  fetches; the last reason of a token list is the last message of all, or the empty
  string the asset detail starts with.
\<close>

definition tracked :: "Token \<Rightarrow> bool" where
  "tracked token = (\<not> notToken token \<and> t_Property token = 1)"

definition usedBalance :: "reconciler_env \<Rightarrow> Token \<Rightarrow> int option" where
  "usedBalance env token =
    (case fst (getAndRetryBalance (GetBalance env) (t_ChainId token) (t_Hash token)) of
       (balance, None) \<Rightarrow> balance
     | (balance, Some e) \<Rightarrow> Some 0)"

definition fetchedTotalSupply :: "reconciler_env \<Rightarrow> Token \<Rightarrow> int option" where
  "fetchedTotalSupply env token =
    (case fst (getAndRetryTotalSupply (GetTotalSupply env) (t_ChainId token) (t_Hash token)) of
       (totalSupply, None) \<Rightarrow> totalSupply
     | (totalSupply, Some e) \<Rightarrow> Some 0)"

definition usedTotalSupply :: "reconciler_env \<Rightarrow> TokenBasicT \<Rightarrow> Token \<Rightarrow> int option" where
  "usedTotalSupply env basic token =
    (if \<not> inExtraBasic (t_TokenBasicName token) \<and> tb_ChainId basic = t_ChainId token then Some 0
     else specialBasic (MATIC_CROSSCHAIN_ID env) token (fetchedTotalSupply env token))"

definition fetchErrors :: "reconciler_env \<Rightarrow> Token \<Rightarrow> string list" where
  "fetchErrors env token =
    (case snd (fst (getAndRetryBalance (GetBalance env) (t_ChainId token) (t_Hash token))) of
       None \<Rightarrow> [] | Some e \<Rightarrow> [e]) @
    (case snd (fst (getAndRetryTotalSupply (GetTotalSupply env) (t_ChainId token) (t_Hash token))) of
       None \<Rightarrow> [] | Some e \<Rightarrow> [e])"

definition reasonStep :: "reconciler_env \<Rightarrow> string \<Rightarrow> Token \<Rightarrow> string" where
  "reasonStep env r token = (if fetchErrors env token = [] then r else last (fetchErrors env token))"

definition lastReason :: "reconciler_env \<Rightarrow> Token list \<Rightarrow> string" where
  "lastReason env tokens =
    (let errors = concat (map (fetchErrors env) (filter tracked tokens))
     in if errors = [] then [] else last errors)"

text \<open>
  The sum of the flows of a list of chain entries; a chain entry whose flow is its total
  supply minus its balance; the chain entry of a tracked token: it carries the chain id
  and the hash of the token, the balance and the total supply the pass uses, and their
  difference as its flow.
\<close>

definition sumFlows :: "DstChainAsset list \<Rightarrow> int" where
  "sumFlows xs = sum_list (map (\<lambda>x. case dca_Flow x of Some f \<Rightarrow> f | None \<Rightarrow> 0) xs)"

definition flowEntry :: "DstChainAsset \<Rightarrow> bool" where
  "flowEntry x =
    (case (dca_TotalSupply x, dca_Balance x) of
       (Some ts, Some b) \<Rightarrow> dca_Flow x = Some (ts - b)
     | _ \<Rightarrow> False)"

definition entryOf :: "reconciler_env \<Rightarrow> TokenBasicT \<Rightarrow> Token \<Rightarrow> DstChainAsset \<Rightarrow> bool" where
  "entryOf env basic token x =
    (dca_ChainId x = t_ChainId token \<and> dca_Hash x = t_Hash token \<and>
     dca_Balance x = usedBalance env token \<and> dca_TotalSupply x = usedTotalSupply env basic token \<and>
     flowEntry x)"

text \<open>
  The chain entries that the O3 lookup adds to the asset detail of a name: none unless
  the name is WBTC or USDT and the lookup answers with status 200; for WBTC one entry
  whose flow is the balance of the answer, for USDT one entry whose balance is the
  balance of the answer and whose flow is zero. The lookup answers when it does not end
  in a panic.
\<close>

definition o3Entries :: "reconciler_env \<Rightarrow> string \<Rightarrow> DstChainAsset list \<Rightarrow> bool" where
  "o3Entries env name xs =
    (if name = ''WBTC'' then
       (case WBTCIP env of
          HttpFailed \<Rightarrow> False
        | HttpStatus code body \<Rightarrow>
            if code \<noteq> 200 then xs = []
            else (case body of
                    None \<Rightarrow> False
                  | Some b \<Rightarrow>
                      xs = [\<lparr>dca_ChainId = O3_CROSSCHAIN_ID, dca_Hash = [], dca_TotalSupply = Some 0,
                             dca_Balance = Some 0, dca_Flow = Some b\<rparr>]))
     else if name = ''USDT'' then
       (case USDTIP env of
          HttpFailed \<Rightarrow> False
        | HttpStatus code body \<Rightarrow>
            if code \<noteq> 200 then xs = []
            else xs = [\<lparr>dca_ChainId = O3_CROSSCHAIN_ID, dca_Hash = [], dca_TotalSupply = Some 0,
                        dca_Balance = body, dca_Flow = Some 0\<rparr>])
     else xs = [])"

definition o3Answers :: "reconciler_env \<Rightarrow> string \<Rightarrow> bool" where
  "o3Answers env name =
    (if name = ''WBTC'' then
       (case WBTCIP env of
          HttpFailed \<Rightarrow> False
        | HttpStatus code body \<Rightarrow> code = 200 \<longrightarrow> body \<noteq> None)
     else if name = ''USDT'' then USDTIP env \<noteq> HttpFailed
     else True)"

text \<open>
  The asset detail of a token basic: name, precision and price of the basic; one chain
  entry for each tracked token of the basic, in their order, followed by the entries of
  the O3 lookup; the aggregate difference is the sum of the flows of all entries; the
  reason is the last fetch error; the USD valuation is set for an asset outside the
  exclusion list with a positive difference.
\<close>

definition amountUsdOf :: "AssetDetail \<Rightarrow> int option" where
  "amountUsdOf d =
    (if \<not> inExtraBasic (ad_BasicName d) \<and> 0 < ad_Difference d then Some (amountUsd d) else None)"

definition detailOf :: "reconciler_env \<Rightarrow> TokenBasicT \<Rightarrow> AssetDetail \<Rightarrow> bool" where
  "detailOf env basic d =
    (let tokens = filter tracked (tb_Tokens basic); n = length tokens in
     ad_BasicName d = tb_Name basic \<and> ad_Precision d = tb_Precision basic \<and>
     ad_Price d = tb_Price basic \<and>
     list_all2 (entryOf env basic) tokens (take n (ad_TokenAsset d)) \<and>
     o3Entries env (tb_Name basic) (drop n (ad_TokenAsset d)) \<and>
     ad_Difference d = sumFlows (ad_TokenAsset d) \<and>
     ad_Reason d = lastReason env (tb_Tokens basic) \<and>
     ad_Amount_usd d = amountUsdOf d)"

text \<open>
  A token basic is answered when the figures the pass uses for its tracked tokens are
  not nil and its O3 lookup answers. An asset detail is reported by \<^verbatim>\<open>sendDing\<close> when its
  reason is not \<open>all node is not working\<close>, its difference is positive and its USD
  valuation, rounded to a whole number, exceeds 10000.
\<close>

definition answers :: "reconciler_env \<Rightarrow> TokenBasicT \<Rightarrow> bool" where
  "answers env basic =
    (list_all (\<lambda>token. usedBalance env token \<noteq> None \<and> usedTotalSupply env basic token \<noteq> None)
       (filter tracked (tb_Tokens basic)) \<and>
     o3Answers env (tb_Name basic))"

definition reported :: "AssetDetail \<Rightarrow> bool" where
  "reported assetDetail =
    (ad_Reason assetDetail \<noteq> ''all node is not working'' \<and> 0 < ad_Difference assetDetail \<and>
     10000 < amountUsd assetDetail)"

text \<open>What \<^verbatim>\<open>sendDing\<close> needs of an asset detail on \<^verbatim>\<open>resAssetDetails\<close>.\<close>

definition okRes :: "AssetDetail \<Rightarrow> bool" where
  "okRes ad = (list_all printable (ad_TokenAsset ad) \<and>
      ad_Amount_usd ad = (if 0 < ad_Difference ad then Some (amountUsd ad) else None))"

subsection \<open>The scheduler: \<^verbatim>\<open>run\<close> and \<^verbatim>\<open>Stop\<close>\<close>

text \<open>
  One iteration of the \<^verbatim>\<open>for\<close> loop of \<^verbatim>\<open>run\<close> executes a \<^verbatim>\<open>select\<close> over the ticker
  channel and the context's \<^verbatim>\<open>Done\<close> channel. Which case the \<open>i\<close>-th \<^verbatim>\<open>select\<close> takes is
  given by the environment (\<open>sel i\<close>); after cancellation the \<^verbatim>\<open>Done\<close> case is always
  ready and the ticker case is ready at every tick. The \<^verbatim>\<open>break\<close> of the \<^verbatim>\<open>Done\<close> case
  leaves the \<^verbatim>\<open>select\<close> statement, after which the \<^verbatim>\<open>for\<close> loop iterates again. The loop
  state is the number of passes (calls of \<^verbatim>\<open>f\<close>) started so far; the loop returns it when
  it ends.
\<close>

datatype select_case = Tick | Done

partial_function (option) runLoop :: "(nat \<Rightarrow> select_case) \<Rightarrow> nat \<Rightarrow> nat \<Rightarrow> nat option" where
  "runLoop sel i passes =
    (case sel i of
       Tick \<Rightarrow> runLoop sel (Suc i) (Suc passes)
     | Done \<Rightarrow> runLoop sel (Suc i) passes)"

text \<open>
  \<^verbatim>\<open>run\<close> adds one to the wait group, loops, and calls \<^verbatim>\<open>wg.Done()\<close> after the loop; its
  result is the wait group's counter when it returns.
\<close>

definition run :: "(nat \<Rightarrow> select_case) \<Rightarrow> int \<Rightarrow> int option" where
  "run sel wg =
    (case runLoop sel 0 0 of
       None \<Rightarrow> None
     | Some passes \<Rightarrow> Some (wg + 1 - 1))"

text \<open>
  \<^verbatim>\<open>Stop\<close> cancels the context and waits for the wait group: it returns when every
  goroutine that has added itself to the wait group has returned from \<^verbatim>\<open>run\<close>. Its
  argument lists the schedules of these goroutines.
\<close>

definition Stop :: "(nat \<Rightarrow> select_case) list \<Rightarrow> unit option" where
  "Stop goroutines =
    (if list_all (\<lambda>sel. run sel 0 \<noteq> None) goroutines then Some () else None)"

text \<open>The first \<open>n\<close> iterations of the loop of \<^verbatim>\<open>run\<close>: the number of passes started.\<close>

fun runIter :: "(nat \<Rightarrow> select_case) \<Rightarrow> nat \<Rightarrow> nat \<Rightarrow> nat \<Rightarrow> nat" where
  "runIter sel i passes 0 = passes"
| "runIter sel i passes (Suc n) =
    (case sel i of
       Tick \<Rightarrow> runIter sel (Suc i) (Suc passes) n
     | Done \<Rightarrow> runIter sel (Suc i) passes n)"

text \<open>A schedule after cancellation: the \<^verbatim>\<open>Done\<close> case first, then the ticker case.\<close>

definition cancelledThenTick :: "nat \<Rightarrow> select_case" where
  "cancelledThenTick i = (if i = 0 then Done else Tick)"

subsection \<open>The data access object (\<^verbatim>\<open>bridgedao.BridgeDao\<close>) and the statistic rows\<close>

text \<open>
  Counters are \<^verbatim>\<open>int64\<close>. Record identifiers are \<^verbatim>\<open>int64\<close> too, but they are only
  compared and copied, so they are integers here. The \<^verbatim>\<open>*models.BigInt\<close> amounts of a row
  are taken to be non-nil.
\<close>

type_synonym int64 = "64 word"

record TokenStatistic =
  ts_ChainId :: nat
  ts_Hash :: string
  ts_InAmount :: int
  ts_InAmountUsd :: int
  ts_InAmountBtc :: int
  ts_InCounter :: int64
  ts_OutAmount :: int
  ts_OutAmountUsd :: int
  ts_OutAmountBtc :: int
  ts_OutCounter :: int64
  ts_LastInCheckId :: int
  ts_LastOutCheckId :: int
  ts_Token :: "Token option"

record ChainStatistic =
  cs_ChainId :: nat
  cs_Addresses :: int64
  cs_In :: int64
  cs_Out :: int64
  cs_LastInCheckId :: int
  cs_LastOutCheckId :: int

record AssetStatistic =
  as_TokenBasicName :: string
  as_Amount :: int
  as_Txnum :: int64
  as_Addressnum :: int64
  as_AmountUsd :: int
  as_AmountBtc :: int
  as_LastCheckId :: int

record AssetInfo =
  ai_Amount :: int
  ai_Txnum :: int64
  ai_Price :: int
  ai_Precision :: nat

text \<open>
  The methods of the data access object that the three aggregation passes call, with the
  chain client that the token pass reads balances from. A method that returns a pointer
  and an error is a pair of options; a method whose value is only used when the error is
  nil is a sum with the error message on the left.
\<close>

record BridgeDao = chain_rpc +
  GetNewDstTransfer :: "string + int"
  GetNewSrcTransfer :: "string + int"
  GetTokenStatistics :: "string + TokenStatistic list"
  GetTokens :: "string + Token list"
  GetBTCPrice :: "string + TokenBasic"
  GetTokenBasicByHash :: "nat \<Rightarrow> string \<Rightarrow> Token option \<times> string option"
  CalculateInTokenStatistics :: "nat \<Rightarrow> string \<Rightarrow> int \<Rightarrow> int \<Rightarrow> TokenStatistic option \<times> string option"
  CalculateOutTokenStatistics :: "nat \<Rightarrow> string \<Rightarrow> int \<Rightarrow> int \<Rightarrow> TokenStatistic option \<times> string option"
  SaveTokenStatistic :: "TokenStatistic \<Rightarrow> string option"
  GetNewChainSta :: "string + ChainStatistic"
  GetNewDstTransaction :: "string + int"
  GetNewSrcTransaction :: "string + int"
  CalculateInChainStatistics :: "int \<Rightarrow> int \<Rightarrow> ChainStatistic list \<times> string option"
  CalculateOutChainStatistics :: "int \<Rightarrow> int \<Rightarrow> ChainStatistic list \<times> string option"
  GetPolyTransaction :: "string + int"
  GetChainStatistic :: "string + ChainStatistic list"
  GetChains :: "string + nat list"
  CalculatePolyChainStatistic :: "int \<Rightarrow> int \<Rightarrow> int64 \<times> string option"
  SaveChainStatistics :: "ChainStatistic list \<Rightarrow> string option"
  GetTokenBasics :: "string + TokenBasic list"
  GetAssetStatistic :: "string + AssetStatistic list"
  CalculateAssets :: "string \<Rightarrow> int \<Rightarrow> int \<Rightarrow> AssetInfo list \<times> string option"
  SaveAssetStatistic :: "AssetStatistic \<Rightarrow> string option"

definition addDecimalBigInt :: "int \<Rightarrow> int \<Rightarrow> int" where
  "addDecimalBigInt a b = dec_BigInt (dec_New a 0 + dec_New b 0)"

definition addDecimalInt64 :: "int64 \<Rightarrow> int64 \<Rightarrow> int64" where
  "addDecimalInt64 a b = word_of_int (dec_IntPart (dec_New (sint a) 0 + dec_New (sint b) 0))"

subsection \<open>Token statistics: \<^verbatim>\<open>computeTokenStatistics\<close>\<close>

text \<open>
  The rows created for the catalog tokens of standard 0 that have no statistic row. Go
  ranges over \<^verbatim>\<open>tokensMap\<close> in an unspecified order; here the new rows come in the order
  of the catalog.
\<close>

definition newTokenStatistic :: "nat \<times> string \<Rightarrow> TokenStatistic" where
  "newTokenStatistic k =
    \<lparr>ts_ChainId = fst k, ts_Hash = snd k, ts_InAmount = 0, ts_InAmountUsd = 0,
     ts_InAmountBtc = 0, ts_InCounter = 0, ts_OutAmount = 0, ts_OutAmountUsd = 0,
     ts_OutAmountBtc = 0, ts_OutCounter = 0, ts_LastInCheckId = 0, ts_LastOutCheckId = 0,
     ts_Token = None\<rparr>"

definition missingTokenKeys :: "Token list \<Rightarrow> TokenStatistic list \<Rightarrow> (nat \<times> string) list" where
  "missingTokenKeys tokens tokenStatistics =
    remdups
      (filter (\<lambda>k. k \<notin> set (map (\<lambda>s. (ts_ChainId s, ts_Hash s)) tokenStatistics))
        (map (\<lambda>t. (t_ChainId t, t_Hash t)) (filter (\<lambda>t. t_Standard t = 0) tokens)))"

text \<open>\<^verbatim>\<open>amount_new.Div(precision_new).Mul(decimal.NewFromInt32(100)).BigInt()\<close>\<close>

definition scaleAmount :: "int \<Rightarrow> rat \<Rightarrow> int" where
  "scaleAmount amount precision_new = dec_BigInt (dec_Div (dec_New amount 0) precision_new * 100)"

text \<open>
  Whether the result of \<^verbatim>\<open>CalculateInTokenStatistics\<close> or \<^verbatim>\<open>CalculateOutTokenStatistics\<close>
  is folded: \<^verbatim>\<open>x != nil && x.Token != nil && x.Token.TokenBasic != nil\<close>; the token basic
  of the result if so.
\<close>

definition deltaBasic :: "TokenStatistic option \<Rightarrow> TokenBasic option" where
  "deltaBasic x =
    (case x of
       None \<Rightarrow> None
     | Some s \<Rightarrow> (case ts_Token s of None \<Rightarrow> None | Some t \<Rightarrow> t_TokenBasic t))"

text \<open>
  The body of the loop over the statistic rows after the catalog lookup (lines 255 to
  301), for the token that the lookup returned. \<^verbatim>\<open>token.TokenBasic.Price\<close> panics on a nil
  token basic, \<^verbatim>\<open>decimal.NewFromBigInt\<close> on a nil balance, \<^verbatim>\<open>Div\<close> on a BTC price of zero.
\<close>

definition foldIn ::
  "'a BridgeDao_scheme \<Rightarrow> int \<Rightarrow> Token \<Rightarrow> TokenBasic \<Rightarrow> TokenStatistic \<Rightarrow> fault + TokenStatistic" where
  "foldIn dao nowInId token tokenBasic statistic =
    (let precision_new = dec_New 1 (int32 (t_Precision token)) in
     if tb_ChainId tokenBasic = ts_ChainId statistic then
       (case fst (getAndRetryBalance (GetBalance dao) (ts_ChainId statistic) (ts_Hash statistic)) of
          (balance, Some err) \<Rightarrow> Inr statistic
        | (None, None) \<Rightarrow> Inl NilPointerDereference
        | (Some balance, None) \<Rightarrow>
            Inr (statistic\<lparr>ts_InAmount := scaleAmount balance precision_new\<rparr>))
     else
       (let (in', err) = CalculateInTokenStatistics dao (ts_ChainId statistic) (ts_Hash statistic)
                           (ts_LastInCheckId statistic) nowInId
        in case (in', deltaBasic in') of
             (Some inSta, Some b) \<Rightarrow>
               Inr (statistic
                 \<lparr>ts_InAmount :=
                    addDecimalBigInt (ts_InAmount statistic)
                      (scaleAmount (ts_InAmount inSta) precision_new),
                  ts_InCounter := addDecimalInt64 (ts_InCounter statistic) (ts_InCounter inSta)\<rparr>)
           | _ \<Rightarrow> Inr statistic))"

definition foldOut ::
  "'a BridgeDao_scheme \<Rightarrow> rat \<Rightarrow> int \<Rightarrow> Token \<Rightarrow> TokenBasic \<Rightarrow> TokenStatistic \<Rightarrow> TokenStatistic" where
  "foldOut dao BTCPrice nowInId token tokenBasic statistic =
    (let price_new = dec_Div (dec_New (tb_Price tokenBasic) 0) (of_int PRICE_PRECISION);
         precision_new = dec_New 1 (int32 (t_Precision token));
         (out, err) = CalculateOutTokenStatistics dao (ts_ChainId statistic) (ts_Hash statistic)
                        (ts_LastInCheckId statistic) nowInId
     in case (out, deltaBasic out) of
          (Some outSta, Some outBasic) \<Rightarrow>
            (let statistic1 =
                   (if ts_ChainId statistic = tb_ChainId outBasic
                    then statistic\<lparr>ts_OutAmount := 0\<rparr>
                    else statistic
                      \<lparr>ts_OutAmount :=
                         addDecimalBigInt (ts_OutAmount statistic)
                           (scaleAmount (ts_OutAmount outSta) precision_new)\<rparr>);
                 amount_usd = dec_New (ts_OutAmount statistic1) 0 * price_new;
                 amount_btc = dec_Div amount_usd BTCPrice
             in statistic1
                 \<lparr>ts_OutCounter := addDecimalInt64 (ts_OutCounter statistic) (ts_OutCounter outSta),
                  ts_OutAmountUsd := dec_BigInt (amount_usd * 100),
                  ts_OutAmountBtc := dec_BigInt (amount_btc * 100)\<rparr>)
        | _ \<Rightarrow> statistic)"

definition foldTokenStatistic ::
  "'a BridgeDao_scheme \<Rightarrow> rat \<Rightarrow> int \<Rightarrow> int \<Rightarrow> Token \<Rightarrow> TokenStatistic \<Rightarrow> fault + TokenStatistic" where
  "foldTokenStatistic dao BTCPrice nowInId nowOutId token statistic =
    (case t_TokenBasic token of
       None \<Rightarrow> Inl NilPointerDereference
     | Some tokenBasic \<Rightarrow>
        (case foldIn dao nowInId token tokenBasic statistic of
           Inl f \<Rightarrow> Inl f
         | Inr statistic1 \<Rightarrow>
            if BTCPrice = 0 then Inl DivisionByZero
            else
              (let price_new = dec_Div (dec_New (tb_Price tokenBasic) 0) (of_int PRICE_PRECISION);
                   amount_usd = dec_New (ts_InAmount statistic1) 0 * price_new;
                   amount_btc = dec_Div amount_usd BTCPrice;
                   statistic2 = statistic1
                     \<lparr>ts_InAmountUsd := dec_BigInt (amount_usd * 100),
                      ts_InAmountBtc := dec_BigInt (amount_btc * 100)\<rparr>;
                   statistic3 = foldOut dao BTCPrice nowInId token tokenBasic statistic2
               in Inr (statistic3\<lparr>ts_LastInCheckId := nowInId, ts_LastOutCheckId := nowOutId\<rparr>))))"

text \<open>
  The loop over the statistic rows. The result is the list of the rows saved so far, in
  order, and the fault that ended the pass, if any. A row whose lookup returns no error
  is skipped (\<^verbatim>\<open>if err == nil { ...; continue }\<close>); after an error the returned token is
  dereferenced.
\<close>

fun tokenLoop ::
  "'a BridgeDao_scheme \<Rightarrow> rat \<Rightarrow> int \<Rightarrow> int \<Rightarrow> TokenStatistic list \<Rightarrow> TokenStatistic list
     \<Rightarrow> TokenStatistic list \<times> fault option" where
  "tokenLoop dao BTCPrice nowInId nowOutId [] saved = (saved, None)"
| "tokenLoop dao BTCPrice nowInId nowOutId (statistic # rest) saved =
    (case GetTokenBasicByHash dao (ts_ChainId statistic) (ts_Hash statistic) of
       (token, None) \<Rightarrow> tokenLoop dao BTCPrice nowInId nowOutId rest saved
     | (None, Some err) \<Rightarrow> (saved, Some NilPointerDereference)
     | (Some token, Some err) \<Rightarrow>
        (case foldTokenStatistic dao BTCPrice nowInId nowOutId token statistic of
           Inl f \<Rightarrow> (saved, Some f)
         | Inr statistic' \<Rightarrow>
            (case SaveTokenStatistic dao statistic' of
               Some e \<Rightarrow> (saved, Some (Error e))
             | None \<Rightarrow> tokenLoop dao BTCPrice nowInId nowOutId rest (saved @ [statistic']))))"

definition computeTokenStatistics :: "'a BridgeDao_scheme \<Rightarrow> TokenStatistic list \<times> fault option" where
  "computeTokenStatistics dao =
    (case GetNewDstTransfer dao of
       Inl e \<Rightarrow> ([], Some (Error e))
     | Inr nowInId \<Rightarrow>
    (case GetNewSrcTransfer dao of
       Inl e \<Rightarrow> ([], Some (Error e))
     | Inr nowOutId \<Rightarrow>
    (case GetTokenStatistics dao of
       Inl e \<Rightarrow> ([], Some (Error e))
     | Inr tokenStatistics \<Rightarrow>
    (case GetTokens dao of
       Inl e \<Rightarrow> ([], Some (Error e))
     | Inr tokens \<Rightarrow>
    (case GetBTCPrice dao of
       Inl e \<Rightarrow> ([], Some (Error e))
     | Inr tokenBasicBTC \<Rightarrow>
        tokenLoop dao (dec_Div (dec_New (tb_Price tokenBasicBTC) 0) (of_int PRICE_PRECISION))
          nowInId nowOutId
          (tokenStatistics @ map newTokenStatistic (missingTokenKeys tokens tokenStatistics))
          [])))))"

subsection \<open>Chain statistics: \<^verbatim>\<open>computeChainStatistics\<close>\<close>

text \<open>
  The rows created for the catalog chains that have no statistic row (in the order of the
  catalog; Go ranges over \<^verbatim>\<open>chainMap\<close> in an unspecified order).
\<close>

definition newChainStatistic :: "int \<Rightarrow> int \<Rightarrow> nat \<Rightarrow> ChainStatistic" where
  "newChainStatistic nowInId nowOutId k =
    \<lparr>cs_ChainId = k, cs_Addresses = 0, cs_In = 0, cs_Out = 0,
     cs_LastInCheckId = nowInId, cs_LastOutCheckId = nowOutId\<rparr>"

definition missingChains :: "nat list \<Rightarrow> ChainStatistic list \<Rightarrow> nat list" where
  "missingChains chainIds chainStatistics =
    remdups (filter (\<lambda>k. k \<notin> set (map cs_ChainId chainStatistics)) chainIds)"

text \<open>
  The body of the first loop over the rows: the first inbound and the first outbound
  delta of the row's chain are added, and the checkpoints advance, unless the row is the
  relay chain's.
\<close>

definition foldChain ::
  "int \<Rightarrow> int \<Rightarrow> ChainStatistic list \<Rightarrow> ChainStatistic list \<Rightarrow> ChainStatistic \<Rightarrow> ChainStatistic" where
  "foldChain nowInId nowOutId inChainStatistics outChainStatistics chainStatistic =
    (if cs_ChainId chainStatistic \<noteq> POLY_CROSSCHAIN_ID then
       (let cs1 =
              (case find (\<lambda>in'. cs_ChainId chainStatistic = cs_ChainId in') inChainStatistics of
                 Some in' \<Rightarrow>
                   chainStatistic\<lparr>cs_In := addDecimalInt64 (cs_In chainStatistic) (cs_In in')\<rparr>
               | None \<Rightarrow> chainStatistic);
            cs2 =
              (case find (\<lambda>out. cs_ChainId chainStatistic = cs_ChainId out) outChainStatistics of
                 Some out \<Rightarrow> cs1\<lparr>cs_Out := addDecimalInt64 (cs_Out cs1) (cs_Out out)\<rparr>
               | None \<Rightarrow> cs1)
        in cs2\<lparr>cs_LastInCheckId := nowInId, cs_LastOutCheckId := nowOutId\<rparr>)
     else chainStatistic)"

text \<open>
  The second loop: the first row of the relay chain gets the relay counter, if the
  counter query returns no error; the loop ends at that row.
\<close>

fun foldPoly ::
  "(int \<Rightarrow> int \<Rightarrow> int64 \<times> string option) \<Rightarrow> int \<Rightarrow> ChainStatistic list \<Rightarrow> ChainStatistic list" where
  "foldPoly calc polyCheckId [] = []"
| "foldPoly calc polyCheckId (chainStatistic # rest) =
    (if cs_ChainId chainStatistic = POLY_CROSSCHAIN_ID then
       (case calc (cs_LastInCheckId chainStatistic) polyCheckId of
          (counter, None) \<Rightarrow>
            chainStatistic
              \<lparr>cs_In := addDecimalInt64 counter (cs_In chainStatistic),
               cs_Out := addDecimalInt64 counter (cs_Out chainStatistic),
               cs_LastInCheckId := polyCheckId, cs_LastOutCheckId := polyCheckId\<rparr> # rest
        | (counter, Some err) \<Rightarrow> chainStatistic # rest)
     else chainStatistic # foldPoly calc polyCheckId rest)"

text \<open>
  The pass returns the list it hands to \<^verbatim>\<open>SaveChainStatistics\<close>, or \<open>None\<close> when it saves
  nothing. An error of the two delta queries or of the save is logged only.
\<close>

definition computeChainStatistics :: "'a BridgeDao_scheme \<Rightarrow> fault + ChainStatistic list option" where
  "computeChainStatistics dao =
    (case GetNewChainSta dao of
       Inl e \<Rightarrow> Inl (Error e)
     | Inr nowChainStatistic \<Rightarrow>
    (case GetNewDstTransaction dao of
       Inl e \<Rightarrow> Inl (Error e)
     | Inr nowInId \<Rightarrow>
    (case GetNewSrcTransaction dao of
       Inl e \<Rightarrow> Inl (Error e)
     | Inr nowOutId \<Rightarrow>
       (let inChainStatistics =
              (if cs_LastInCheckId nowChainStatistic < nowInId
               then fst (CalculateInChainStatistics dao (cs_LastInCheckId nowChainStatistic) nowInId)
               else []);
            outChainStatistics =
              (if cs_LastOutCheckId nowChainStatistic < nowOutId
               then fst (CalculateOutChainStatistics dao (cs_LastOutCheckId nowChainStatistic) nowOutId)
               else [])
        in case GetPolyTransaction dao of
             Inl e \<Rightarrow> Inl (Error e)
           | Inr polyCheckId \<Rightarrow>
               if cs_LastInCheckId nowChainStatistic < nowInId \<or>
                  cs_LastOutCheckId nowChainStatistic < nowOutId
               then
                 (case GetChainStatistic dao of
                    Inl e \<Rightarrow> Inl (Error e)
                  | Inr chainStatistics \<Rightarrow>
                 (case GetChains dao of
                    Inl e \<Rightarrow> Inl (Error e)
                  | Inr chainIds \<Rightarrow>
                      Inr (Some
                        (foldPoly (CalculatePolyChainStatistic dao) polyCheckId
                          (map (foldChain nowInId nowOutId inChainStatistics outChainStatistics)
                            (chainStatistics @
                               map (newChainStatistic nowInId nowOutId)
                                 (missingChains chainIds chainStatistics)))))))
               else Inr None))))"

subsection \<open>Asset statistics: \<^verbatim>\<open>computeAssetStatistics\<close>\<close>

definition newAssetStatistic :: "string \<Rightarrow> AssetStatistic" where
  "newAssetStatistic k =
    \<lparr>as_TokenBasicName = k, as_Amount = 0, as_Txnum = 0, as_Addressnum = 0, as_AmountUsd = 0,
     as_AmountBtc = 0, as_LastCheckId = 0\<rparr>"

definition missingNames :: "TokenBasic list \<Rightarrow> AssetStatistic list \<Rightarrow> string list" where
  "missingNames tokenBasics assetStatistics =
    remdups
      (filter (\<lambda>k. k \<notin> set (map as_TokenBasicName assetStatistics))
        (map tb_Name (filter (\<lambda>v. tb_Standard v = 0) tokenBasics)))"

text \<open>The body of the loop over the asset infos of one row.\<close>

definition foldAssetInfo :: "rat \<Rightarrow> AssetStatistic \<Rightarrow> AssetInfo \<Rightarrow> AssetStatistic" where
  "foldAssetInfo BTCPrice old assetInfo =
    (let amount_new = dec_New (ai_Amount assetInfo) 0;
         precision_new = dec_New 1 (int32 (ai_Precision assetInfo));
         real_amount = dec_Div amount_new precision_new;
         price_new = dec_Div (dec_New (ai_Price assetInfo) 0) (of_int PRICE_PRECISION);
         amount_usd = real_amount * price_new;
         amount_btc = dec_Div amount_usd BTCPrice
     in old
         \<lparr>as_Amount := dec_BigInt (real_amount * dec_New 100 0 + dec_New (as_Amount old) 0),
          as_AmountUsd := dec_BigInt (amount_usd * dec_New 10000 0 + dec_New (as_AmountUsd old) 0),
          as_AmountBtc := dec_BigInt (amount_btc * dec_New 10000 0 + dec_New (as_AmountBtc old) 0),
          as_Txnum := as_Txnum old + ai_Txnum assetInfo\<rparr>)"

text \<open>
  One row: the asset infos of the range from the row's checkpoint to the high-water mark
  are folded (an error of the query is logged only), the checkpoint advances.
  \<^verbatim>\<open>amount_usd.Div(BTCPrice)\<close> panics on a BTC price of zero.
\<close>

definition foldAssetStatistic ::
  "'a BridgeDao_scheme \<Rightarrow> rat \<Rightarrow> int \<Rightarrow> AssetStatistic \<Rightarrow> fault + AssetStatistic" where
  "foldAssetStatistic dao BTCPrice nowId old =
    (let assetInfos = fst (CalculateAssets dao (as_TokenBasicName old) (as_LastCheckId old) nowId)
     in if assetInfos \<noteq> [] \<and> BTCPrice = 0 then Inl DivisionByZero
        else Inr ((foldl (foldAssetInfo BTCPrice) old assetInfos)\<lparr>as_LastCheckId := nowId\<rparr>))"

text \<open>
  The loop over the rows: the rows saved so far, in order, and the fault that ended the
  pass, if any. An error of \<^verbatim>\<open>SaveAssetStatistic\<close> is returned at once.
\<close>

fun assetLoop ::
  "'a BridgeDao_scheme \<Rightarrow> rat \<Rightarrow> int \<Rightarrow> AssetStatistic list \<Rightarrow> AssetStatistic list
     \<Rightarrow> AssetStatistic list \<times> fault option" where
  "assetLoop dao BTCPrice nowId [] saved = (saved, None)"
| "assetLoop dao BTCPrice nowId (old # rest) saved =
    (case foldAssetStatistic dao BTCPrice nowId old of
       Inl f \<Rightarrow> (saved, Some f)
     | Inr old' \<Rightarrow>
        (case SaveAssetStatistic dao old' of
           Some e \<Rightarrow> (saved, Some (Error e))
         | None \<Rightarrow> assetLoop dao BTCPrice nowId rest (saved @ [old'])))"

definition computeAssetStatistics :: "'a BridgeDao_scheme \<Rightarrow> AssetStatistic list \<times> fault option" where
  "computeAssetStatistics dao =
    (case GetNewSrcTransfer dao of
       Inl e \<Rightarrow> ([], Some (Error e))
     | Inr nowId \<Rightarrow>
    (case GetTokenBasics dao of
       Inl e \<Rightarrow> ([], Some (Error e))
     | Inr tokenBasics \<Rightarrow>
    (case GetAssetStatistic dao of
       Inl e \<Rightarrow> ([], Some (Error e))
     | Inr assetStatistics \<Rightarrow>
    (case GetBTCPrice dao of
       Inl e \<Rightarrow> ([], Some (Error e))
     | Inr tokenBasicBTC \<Rightarrow>
        assetLoop dao (dec_Div (dec_New (tb_Price tokenBasicBTC) 0) (of_int PRICE_PRECISION)) nowId
          (assetStatistics @ map newAssetStatistic (missingNames tokenBasics assetStatistics))
          []))))"

subsection \<open>Concrete catalogs and chain states\<close>

text \<open>
  A catalog whose only reserve-tracked asset is DAO with one token, on Ethereum, with 18
  decimals; the chain reports a balance of 0 and a total supply of 5. In \<open>daoHome\<close> the
  home chain of DAO is Ethereum, in \<open>daoAway\<close> it is Heco.
\<close>

definition daoToken :: Token where
  "daoToken =
    \<lparr>t_Hash = ''dao'', t_ChainId = ETHEREUM_CROSSCHAIN_ID, t_Precision = 18,
     t_TokenBasicName = ''DAO'', t_Property = 1, t_Standard = 0, t_TokenBasic = None\<rparr>"

definition daoHome :: TokenBasicT where
  "daoHome =
    \<lparr>tb_Name = ''DAO'', tb_Precision = 18, tb_Price = 100000000,
     tb_ChainId = ETHEREUM_CROSSCHAIN_ID, tb_Standard = 0, tb_Tokens = [daoToken]\<rparr>"

definition daoAway :: TokenBasicT where
  "daoAway =
    \<lparr>tb_Name = ''DAO'', tb_Precision = 18, tb_Price = 100000000,
     tb_ChainId = HECO_CROSSCHAIN_ID, tb_Standard = 0, tb_Tokens = [daoToken]\<rparr>"

definition daoEnv :: reconciler_env where
  "daoEnv =
    \<lparr>GetBalance = (\<lambda>chainId hash attempt. (Some 0, None)),
     GetTotalSupply = (\<lambda>chainId hash attempt. (Some 5, None)),
     GetPropertytokenBasic = Inr [daoHome],
     MATIC_CROSSCHAIN_ID = 17, WBTCIP = HttpFailed, USDTIP = HttpFailed\<rparr>"

text \<open>
  A catalog whose only reserve-tracked asset is FOO (8 decimals, price 1 USD, home chain 3)
  with a token on Ethereum (hash \<open>a\<close>) and a token on BSC (hash \<open>b\<close>).
\<close>

definition fooEth :: Token where
  "fooEth =
    \<lparr>t_Hash = ''a'', t_ChainId = ETHEREUM_CROSSCHAIN_ID, t_Precision = 8,
     t_TokenBasicName = ''FOO'', t_Property = 1, t_Standard = 0, t_TokenBasic = None\<rparr>"

definition fooBsc :: Token where
  "fooBsc =
    \<lparr>t_Hash = ''b'', t_ChainId = BSC_CROSSCHAIN_ID, t_Precision = 8,
     t_TokenBasicName = ''FOO'', t_Property = 1, t_Standard = 0, t_TokenBasic = None\<rparr>"

definition fooBasic :: TokenBasicT where
  "fooBasic =
    \<lparr>tb_Name = ''FOO'', tb_Precision = 8, tb_Price = 100000000, tb_ChainId = 3,
     tb_Standard = 0, tb_Tokens = [fooEth, fooBsc]\<rparr>"

text \<open>Every chain query fails at every attempt.\<close>

definition downEnv :: reconciler_env where
  "downEnv =
    \<lparr>GetBalance = (\<lambda>chainId hash attempt. (None, Some ''no balance'')),
     GetTotalSupply = (\<lambda>chainId hash attempt. (None, Some ''no supply'')),
     GetPropertytokenBasic = Inr [fooBasic],
     MATIC_CROSSCHAIN_ID = 17, WBTCIP = HttpFailed, USDTIP = HttpFailed\<rparr>"

text \<open>
  The Ethereum token reports a total supply of 20000 FOO and a balance of zero. In
  \<open>flowEnv\<close> the BSC token reports zero for both; in \<open>partEnv\<close> its balance query fails
  at every attempt with the message \<open>all node is not working\<close>.
\<close>

definition flowEnv :: reconciler_env where
  "flowEnv =
    \<lparr>GetBalance = (\<lambda>chainId hash attempt. (Some 0, None)),
     GetTotalSupply =
       (\<lambda>chainId hash attempt. if hash = ''a'' then (Some 2000000000000, None) else (Some 0, None)),
     GetPropertytokenBasic = Inr [fooBasic],
     MATIC_CROSSCHAIN_ID = 17, WBTCIP = HttpFailed, USDTIP = HttpFailed\<rparr>"

definition partEnv :: reconciler_env where
  "partEnv =
    \<lparr>GetBalance =
       (\<lambda>chainId hash attempt.
          if hash = ''b'' then (None, Some ''all node is not working'') else (Some 0, None)),
     GetTotalSupply =
       (\<lambda>chainId hash attempt. if hash = ''a'' then (Some 2000000000000, None) else (Some 0, None)),
     GetPropertytokenBasic = Inr [fooBasic],
     MATIC_CROSSCHAIN_ID = 17, WBTCIP = HttpFailed, USDTIP = HttpFailed\<rparr>"

text \<open>
  A catalog whose only reserve-tracked asset is WBTC (8 decimals, price 30000 USD, home
  chain 1) with one token on Ethereum, whose balance and total supply are both 5; the O3
  lookup answers with a balance of 2 WBTC.
\<close>

definition wbtcEth :: Token where
  "wbtcEth =
    \<lparr>t_Hash = ''w'', t_ChainId = ETHEREUM_CROSSCHAIN_ID, t_Precision = 8,
     t_TokenBasicName = ''WBTC'', t_Property = 1, t_Standard = 0, t_TokenBasic = None\<rparr>"

definition wbtcBasic :: TokenBasicT where
  "wbtcBasic =
    \<lparr>tb_Name = ''WBTC'', tb_Precision = 8, tb_Price = 3000000000000, tb_ChainId = 1,
     tb_Standard = 0, tb_Tokens = [wbtcEth]\<rparr>"

definition wbtcEnv :: reconciler_env where
  "wbtcEnv =
    \<lparr>GetBalance = (\<lambda>chainId hash attempt. (Some 5, None)),
     GetTotalSupply = (\<lambda>chainId hash attempt. (Some 5, None)),
     GetPropertytokenBasic = Inr [wbtcBasic],
     MATIC_CROSSCHAIN_ID = 17, WBTCIP = HttpStatus 200 (Some 200000000), USDTIP = HttpFailed\<rparr>"

text \<open>The catalog FOO when every token reports a total supply and a balance of 5.\<close>

definition evenEnv :: reconciler_env where
  "evenEnv = wbtcEnv\<lparr>GetPropertytokenBasic := Inr [fooBasic]\<rparr>"

text \<open>
  The catalog FOO, WBTC when the O3 lookup of WBTC gets no answer.
\<close>

definition o3DownEnv :: reconciler_env where
  "o3DownEnv = flowEnv\<lparr>GetPropertytokenBasic := Inr [fooBasic, wbtcBasic]\<rparr>"

text \<open>
  A second asset BAR (8 decimals, price 1 USD, home chain 3) with one token on Ethereum
  (hash \<open>c\<close>). In \<open>mixedEnv\<close> the balance query of \<open>a\<close> fails twice and then reports 3, the
  balance query of \<open>b\<close> fails at every attempt, every other balance is 3; the total supply
  query of \<open>c\<close> fails at every attempt, every other total supply is 5.
\<close>

definition barEth :: Token where
  "barEth =
    \<lparr>t_Hash = ''c'', t_ChainId = ETHEREUM_CROSSCHAIN_ID, t_Precision = 8,
     t_TokenBasicName = ''BAR'', t_Property = 1, t_Standard = 0, t_TokenBasic = None\<rparr>"

definition barBasic :: TokenBasicT where
  "barBasic =
    \<lparr>tb_Name = ''BAR'', tb_Precision = 8, tb_Price = 100000000, tb_ChainId = 3,
     tb_Standard = 0, tb_Tokens = [barEth]\<rparr>"

definition mixedEnv :: reconciler_env where
  "mixedEnv =
    \<lparr>GetBalance =
       (\<lambda>chainId hash attempt.
          if hash = ''b'' then (None, Some ''timeout'')
          else if hash = ''a'' \<and> attempt < 2 then (None, Some ''busy'')
          else (Some 3, None)),
     GetTotalSupply =
       (\<lambda>chainId hash attempt. if hash = ''c'' then (None, Some ''no supply'') else (Some 5, None)),
     GetPropertytokenBasic = Inr [fooBasic, barBasic],
     MATIC_CROSSCHAIN_ID = 17, WBTCIP = HttpFailed, USDTIP = HttpFailed\<rparr>"

subsection \<open>A ledger and data access objects over it\<close>

text \<open>
  Modelled from the spec: the ledger query \<^verbatim>\<open>sumAndCountInRange(stream, dimensionFilter,
  fromIdExclusive, toIdInclusive) -> (amount, count)\<close> of the ledger query interface
  (section 6), over a stream of transfer records with increasing identifiers. The data
  access object of the repository is not part of the sources; concrete data access objects
  below answer their delta queries with it.
\<close>

record Transfer =
  tr_Id :: int
  tr_ChainId :: nat
  tr_Hash :: string
  tr_Amount :: int

definition sumAndCountInRange :: "Transfer list \<Rightarrow> nat \<Rightarrow> string \<Rightarrow> int \<Rightarrow> int \<Rightarrow> int \<times> nat" where
  "sumAndCountInRange stream chainId hash fromId toId =
    (let xs = filter (\<lambda>t. tr_ChainId t = chainId \<and> tr_Hash t = hash \<and>
                          fromId < tr_Id t \<and> tr_Id t \<le> toId) stream
     in (sum_list (map tr_Amount xs), length xs))"

text \<open>
  A delta query of the token pass over a stream: the sum and the count of the range with
  the token attached, or no row and an error when the range holds no record.
\<close>

definition ledgerDelta ::
  "Transfer list \<Rightarrow> Token \<Rightarrow> nat \<Rightarrow> string \<Rightarrow> int \<Rightarrow> int \<Rightarrow> TokenStatistic option \<times> string option" where
  "ledgerDelta stream token chainId hash fromId toId =
    (let (amount, n) = sumAndCountInRange stream chainId hash fromId toId
     in if n = 0 then (None, Some ''record not found'')
        else (Some ((newTokenStatistic (chainId, hash))
                \<lparr>ts_InAmount := amount, ts_InCounter := of_nat n, ts_OutAmount := amount,
                 ts_OutCounter := of_nat n, ts_Token := Some token\<rparr>), None))"

text \<open>A data access object whose every query fails and whose every save succeeds.\<close>

definition emptyDao :: BridgeDao where
  "emptyDao =
    \<lparr>GetBalance = (\<lambda>chainId hash attempt. (None, Some ''unreachable'')),
     GetTotalSupply = (\<lambda>chainId hash attempt. (None, Some ''unreachable'')),
     GetNewDstTransfer = Inl ''record not found'',
     GetNewSrcTransfer = Inl ''record not found'',
     GetTokenStatistics = Inl ''record not found'',
     GetTokens = Inl ''record not found'',
     GetBTCPrice = Inl ''record not found'',
     GetTokenBasicByHash = (\<lambda>chainId hash. (None, Some ''record not found'')),
     CalculateInTokenStatistics = (\<lambda>chainId hash fromId toId. (None, Some ''record not found'')),
     CalculateOutTokenStatistics = (\<lambda>chainId hash fromId toId. (None, Some ''record not found'')),
     SaveTokenStatistic = (\<lambda>statistic. None),
     GetNewChainSta = Inl ''record not found'',
     GetNewDstTransaction = Inl ''record not found'',
     GetNewSrcTransaction = Inl ''record not found'',
     CalculateInChainStatistics = (\<lambda>fromId toId. ([], Some ''record not found'')),
     CalculateOutChainStatistics = (\<lambda>fromId toId. ([], Some ''record not found'')),
     GetPolyTransaction = Inl ''record not found'',
     GetChainStatistic = Inl ''record not found'',
     GetChains = Inl ''record not found'',
     CalculatePolyChainStatistic = (\<lambda>fromId toId. (0, Some ''record not found'')),
     SaveChainStatistics = (\<lambda>chainStatistics. None),
     GetTokenBasics = Inl ''record not found'',
     GetAssetStatistic = Inl ''record not found'',
     CalculateAssets = (\<lambda>name fromId toId. ([], Some ''record not found'')),
     SaveAssetStatistic = (\<lambda>assetStatistic. None)\<rparr>"

text \<open>
  The asset XTK (8 decimals, price 1 USD, home chain Ethereum) with the token \<open>x\<close> on
  Ethereum and the token \<open>y\<close> on BSC, and BTC at 30000 USD.
\<close>

definition xtk :: TokenBasic where
  "xtk = \<lparr>tb_Name = ''XTK'', tb_Precision = 8, tb_Price = 100000000,
          tb_ChainId = ETHEREUM_CROSSCHAIN_ID, tb_Standard = 0\<rparr>"

definition btc :: TokenBasic where
  "btc = \<lparr>tb_Name = ''BTC'', tb_Precision = 8, tb_Price = 3000000000000, tb_ChainId = 1,
          tb_Standard = 0\<rparr>"

definition tokenX :: Token where
  "tokenX =
    \<lparr>t_Hash = ''x'', t_ChainId = ETHEREUM_CROSSCHAIN_ID, t_Precision = 8,
     t_TokenBasicName = ''XTK'', t_Property = 0, t_Standard = 0, t_TokenBasic = Some xtk\<rparr>"

definition tokenY :: Token where
  "tokenY =
    \<lparr>t_Hash = ''y'', t_ChainId = BSC_CROSSCHAIN_ID, t_Precision = 8,
     t_TokenBasicName = ''XTK'', t_Property = 0, t_Standard = 0, t_TokenBasic = Some xtk\<rparr>"

text \<open>
  The destination stream holds two transfers of 1 XTK to the token \<open>y\<close> (identifiers 6 and
  7), the source stream three transfers of 3 XTK from it (identifiers 10 to 12).
\<close>

definition dstStream :: "Transfer list" where
  "dstStream =
    [\<lparr>tr_Id = 6, tr_ChainId = BSC_CROSSCHAIN_ID, tr_Hash = ''y'', tr_Amount = 100000000\<rparr>,
     \<lparr>tr_Id = 7, tr_ChainId = BSC_CROSSCHAIN_ID, tr_Hash = ''y'', tr_Amount = 100000000\<rparr>]"

definition srcStream :: "Transfer list" where
  "srcStream =
    [\<lparr>tr_Id = 10, tr_ChainId = BSC_CROSSCHAIN_ID, tr_Hash = ''y'', tr_Amount = 300000000\<rparr>,
     \<lparr>tr_Id = 11, tr_ChainId = BSC_CROSSCHAIN_ID, tr_Hash = ''y'', tr_Amount = 300000000\<rparr>,
     \<lparr>tr_Id = 12, tr_ChainId = BSC_CROSSCHAIN_ID, tr_Hash = ''y'', tr_Amount = 300000000\<rparr>]"

text \<open>
  The row of \<open>x\<close> is up to date with both streams (checkpoints 7 and 12) and holds an
  inbound amount of 7 XTK; the row of \<open>y\<close> has the checkpoints 5 and 9.
\<close>

definition rowX :: TokenStatistic where
  "rowX =
    \<lparr>ts_ChainId = ETHEREUM_CROSSCHAIN_ID, ts_Hash = ''x'', ts_InAmount = 700,
     ts_InAmountUsd = 70000, ts_InAmountBtc = 2, ts_InCounter = 4, ts_OutAmount = 0,
     ts_OutAmountUsd = 0, ts_OutAmountBtc = 0, ts_OutCounter = 0, ts_LastInCheckId = 7,
     ts_LastOutCheckId = 12, ts_Token = None\<rparr>"

definition rowY :: TokenStatistic where
  "rowY =
    \<lparr>ts_ChainId = BSC_CROSSCHAIN_ID, ts_Hash = ''y'', ts_InAmount = 0,
     ts_InAmountUsd = 0, ts_InAmountBtc = 0, ts_InCounter = 0, ts_OutAmount = 0,
     ts_OutAmountUsd = 0, ts_OutAmountBtc = 0, ts_OutCounter = 0, ts_LastInCheckId = 5,
     ts_LastOutCheckId = 9, ts_Token = None\<rparr>"

text \<open>
  The catalog lookup returns the token together with an error, so that the pass folds the
  row; the live balance of every token is 5 XTK.
\<close>

definition tokenDao :: BridgeDao where
  "tokenDao = emptyDao
    \<lparr>GetBalance := (\<lambda>chainId hash attempt. (Some 500000000, None)),
     GetNewDstTransfer := Inr 7,
     GetNewSrcTransfer := Inr 12,
     GetTokenStatistics := Inr [rowX, rowY],
     GetTokens := Inr [tokenX, tokenY],
     GetBTCPrice := Inr btc,
     GetTokenBasicByHash :=
       (\<lambda>chainId hash. if hash = ''x'' then (Some tokenX, Some ''warning'')
                        else (Some tokenY, Some ''warning'')),
     CalculateInTokenStatistics := ledgerDelta dstStream tokenY,
     CalculateOutTokenStatistics := ledgerDelta srcStream tokenY\<rparr>"

text \<open>The same as \<open>tokenDao\<close> with a store that fails to save the row of \<open>x\<close>.\<close>

definition failDao :: BridgeDao where
  "failDao = tokenDao
    \<lparr>SaveTokenStatistic := (\<lambda>statistic. if ts_Hash statistic = ''x'' then Some ''db down'' else None)\<rparr>"

text \<open>The same as \<open>tokenDao\<close> with a catalog lookup that succeeds, and one that finds nothing.\<close>

definition foundDao :: BridgeDao where
  "foundDao = tokenDao
    \<lparr>GetTokenBasicByHash :=
       (\<lambda>chainId hash. if hash = ''x'' then (Some tokenX, None) else (Some tokenY, None))\<rparr>"

definition notFoundDao :: BridgeDao where
  "notFoundDao = tokenDao\<lparr>GetTokenBasicByHash := (\<lambda>chainId hash. (None, Some ''record not found''))\<rparr>"


text \<open>
  The asset rows of XTK (checkpoint 9) and BTC (checkpoint 12) when the source stream ends
  at 12; the delta query reports the three transfers of XTK in the range from 9 to 12 and
  nothing for an empty range.
\<close>

definition assetXtk :: AssetStatistic where
  "assetXtk =
    \<lparr>as_TokenBasicName = ''XTK'', as_Amount = 0, as_Txnum = 0, as_Addressnum = 0,
     as_AmountUsd = 0, as_AmountBtc = 0, as_LastCheckId = 9\<rparr>"

definition assetBtc :: AssetStatistic where
  "assetBtc =
    \<lparr>as_TokenBasicName = ''BTC'', as_Amount = 100, as_Txnum = 1, as_Addressnum = 1,
     as_AmountUsd = 300000000, as_AmountBtc = 10000, as_LastCheckId = 12\<rparr>"

definition assetDao :: BridgeDao where
  "assetDao = emptyDao
    \<lparr>GetNewSrcTransfer := Inr 12,
     GetBTCPrice := Inr btc,
     GetTokenBasics := Inr [xtk, btc],
     GetAssetStatistic := Inr [assetXtk, assetBtc],
     CalculateAssets :=
       (\<lambda>name fromId toId.
          if name = ''XTK'' \<and> fromId \<le> 9 \<and> 12 \<le> toId
          then ([\<lparr>ai_Amount = 900000000, ai_Txnum = 3, ai_Price = 100000000, ai_Precision = 8\<rparr>],
                None)
          else ([], None))\<rparr>"

text \<open>The same with a store that fails to save the row of XTK.\<close>

definition assetFailDao :: BridgeDao where
  "assetFailDao = assetDao
    \<lparr>SaveAssetStatistic :=
       (\<lambda>assetStatistic. if as_TokenBasicName assetStatistic = ''XTK'' then Some ''db down''
                          else None)\<rparr>"


text \<open>
  Modelled from the spec: the count of the records of a stream in the range
  \<^verbatim>\<open>(fromIdExclusive, toIdInclusive]\<close> (ledger query interface, section 6); it answers the
  relay counter query of the concrete data access objects below.
\<close>

definition countInRange :: "int list \<Rightarrow> int \<Rightarrow> int \<Rightarrow> nat" where
  "countInRange ids fromId toId = length (filter (\<lambda>i. fromId < i \<and> i \<le> toId) ids)"

text \<open>
  The chain rows of the relay chain (checkpoints 100) and of Ethereum (checkpoints 5 and
  9); BSC is in the catalog without a row. The destination stream ends at 7, the source
  stream at 12, the relay stream at 100.
\<close>

definition polyRow :: ChainStatistic where
  "polyRow =
    \<lparr>cs_ChainId = POLY_CROSSCHAIN_ID, cs_Addresses = 0, cs_In = 40, cs_Out = 40,
     cs_LastInCheckId = 100, cs_LastOutCheckId = 100\<rparr>"

definition ethRow :: ChainStatistic where
  "ethRow =
    \<lparr>cs_ChainId = ETHEREUM_CROSSCHAIN_ID, cs_Addresses = 0, cs_In = 1, cs_Out = 2,
     cs_LastInCheckId = 5, cs_LastOutCheckId = 9\<rparr>"

definition chainDao :: BridgeDao where
  "chainDao = emptyDao
    \<lparr>GetNewChainSta := Inr ethRow,
     GetNewDstTransaction := Inr 7,
     GetNewSrcTransaction := Inr 12,
     CalculateInChainStatistics :=
       (\<lambda>fromId toId. ([ethRow\<lparr>cs_In := of_nat (countInRange [6, 7] fromId toId)\<rparr>], None)),
     CalculateOutChainStatistics :=
       (\<lambda>fromId toId. ([ethRow\<lparr>cs_Out := of_nat (countInRange [10, 11, 12] fromId toId)\<rparr>], None)),
     GetPolyTransaction := Inr 100,
     GetChainStatistic := Inr [polyRow, ethRow],
     GetChains := Inr [POLY_CROSSCHAIN_ID, ETHEREUM_CROSSCHAIN_ID, BSC_CROSSCHAIN_ID],
     CalculatePolyChainStatistic :=
       (\<lambda>fromId toId. (of_nat (countInRange [98, 99, 100, 101, 102, 103] fromId toId), None))\<rparr>"

text \<open>The same when the relay stream has reached 103.\<close>

definition chainRelayDao :: BridgeDao where
  "chainRelayDao = chainDao\<lparr>GetPolyTransaction := Inr 103\<rparr>"


section \<open>Properties\<close>

subsection \<open>Integers and decimals\<close>

lemma int32_small: "n < 2 ^ 31 \<Longrightarrow> int32 n = int n"
proof -
  assume a: "n < 2 ^ 31"
  have "(word_of_nat n :: 32 word) = word_of_int (int n)" by simp
  then have "int32 n = signed_take_bit 31 (int n)"
    unfolding int32_def by (simp only: sint_sbintrunc') simp
  also have "\<dots> = int n"
    using a by (intro signed_take_bit_int_eq_self) auto
  finally show ?thesis .
qed

lemma dec_BigInt_of_int: "dec_BigInt (of_int i) = i"
  by (simp add: dec_BigInt_def)

lemma presion_small: "t_Precision token < 2 ^ 31 \<Longrightarrow> presion token = 10 ^ t_Precision token"
proof -
  assume "t_Precision token < 2 ^ 31"
  then have "presion token = dec_BigInt (of_int (10 ^ t_Precision token))"
    by (simp add: presion_def dec_New_def int32_small)
  then show ?thesis by (simp only: dec_BigInt_of_int)
qed

subsection \<open>The override table\<close>

lemma specialBasic_not_in_table:
  assumes "(t_TokenBasicName token, t_ChainId token) \<notin> set (overridePairs M)"
  shows "specialBasic M token s = s"
proof -
  have "list_all (\<lambda>p. \<not> (t_TokenBasicName token = fst p \<and> t_ChainId token = snd p)) (overridePairs M)"
    using assms by (auto simp: list_all_iff)
  then show ?thesis
    unfolding overridePairs_def specialBasic_def Let_def
    by (simp only: list.pred_inject fst_conv snd_conv if_False)
qed

subsection \<open>Bounded retry\<close>

lemma retryLoop_char:
  "i \<le> bound \<Longrightarrow> snd prev \<noteq> None \<Longrightarrow>
   \<exists>k. i \<le> k \<and> k \<le> bound \<and>
       retryLoop call bound i prev = ((if k = i then prev else call k), k) \<and>
       (\<forall>j. i < j \<and> j < k \<longrightarrow> snd (call j) \<noteq> None) \<and>
       (k < bound \<longrightarrow> i < k \<and> snd (call k) = None)"
proof (induction call bound i prev rule: retryLoop.induct)
  case (1 call bound i prev)
  show ?case
  proof (cases "i < bound")
    case False
    with "1.prems" have "i = bound" by simp
    then show ?thesis by (intro exI[of _ i]) (auto simp: retryLoop.simps[of call bound bound prev])
  next
    case True
    show ?thesis
    proof (cases "snd (call (Suc i)) = None")
      case ok: True
      show ?thesis
        using True ok by (intro exI[of _ "Suc i"]) (auto simp: Let_def retryLoop.simps[of call bound i prev])
    next
      case fail: False
      from "1.IH"[OF True refl fail] True fail
      obtain k where k: "Suc i \<le> k" "k \<le> bound"
        "retryLoop call bound (Suc i) (call (Suc i)) = ((if k = Suc i then call (Suc i) else call k), k)"
        "\<forall>j. Suc i < j \<and> j < k \<longrightarrow> snd (call j) \<noteq> None"
        "k < bound \<longrightarrow> snd (call k) = None"
        by auto
      have step: "retryLoop call bound i prev = retryLoop call bound (Suc i) (call (Suc i))"
        using True fail by (subst retryLoop.simps) (auto simp: Let_def)
      have res: "retryLoop call bound i prev = (call k, k)"
        using step k(3) by (simp split: if_splits)
      have mid: "\<forall>j. i < j \<and> j < k \<longrightarrow> snd (call j) \<noteq> None"
      proof (intro allI impI)
        fix j assume "i < j \<and> j < k"
        then have "j = Suc i \<or> (Suc i < j \<and> j < k)" by auto
        then show "snd (call j) \<noteq> None" using fail k(4) by auto
      qed
      show ?thesis
        apply (intro exI[of _ k])
        using k(1,2,5) res mid fail by auto
    qed
  qed
qed

lemma getAndRetry_char:
  assumes def: "f = (let r = call 0 in if snd r \<noteq> None then retryLoop call bound 0 r else (r, 0))"
  shows "\<exists>k\<le>bound. f = (call k, k) \<and> (\<forall>j<k. snd (call j) \<noteq> None) \<and>
           (k < bound \<longrightarrow> snd (call k) = None)"
proof (cases "snd (call 0) = None")
  case True
  then show ?thesis using def by (intro exI[of _ 0]) (simp add: Let_def)
next
  case False
  from retryLoop_char[of 0 bound "call 0" call] False
  obtain k where k: "k \<le> bound"
     "retryLoop call bound 0 (call 0) = ((if k = 0 then call 0 else call k), k)"
     "\<forall>j. 0 < j \<and> j < k \<longrightarrow> snd (call j) \<noteq> None"
     "k < bound \<longrightarrow> 0 < k \<and> snd (call k) = None"
    by auto
  have "f = (call k, k)" using def False k(2) by (simp add: Let_def split: if_splits)
  moreover have "\<forall>j<k. snd (call j) \<noteq> None"
  proof (intro allI impI)
    fix j assume "j < k"
    then show "snd (call j) \<noteq> None" using False k(3) by (cases "j = 0") auto
  qed
  ultimately show ?thesis using k(1,4) by (intro exI[of _ k]) auto
qed

lemma getAndRetryBalance_char:
  "\<exists>k\<le>4. getAndRetryBalance G c h = (G c h k, k) \<and> (\<forall>j<k. snd (G c h j) \<noteq> None) \<and>
           (k < 4 \<longrightarrow> snd (G c h k) = None)"
  by (rule getAndRetry_char) (simp add: getAndRetryBalance_def)

lemma getAndRetryTotalSupply_char:
  "\<exists>k\<le>2. getAndRetryTotalSupply G c h = (G c h k, k) \<and> (\<forall>j<k. snd (G c h j) \<noteq> None) \<and>
           (k < 2 \<longrightarrow> snd (G c h k) = None)"
  by (rule getAndRetry_char) (simp add: getAndRetryTotalSupply_def)

lemma getAndRetryBalance_all_fail:
  assumes "\<forall>j\<le>4. snd (G c h j) \<noteq> None"
  shows "getAndRetryBalance G c h = (G c h 4, 4)"
proof -
  from getAndRetryBalance_char[of G c h] obtain k where
    k: "k \<le> 4" "getAndRetryBalance G c h = (G c h k, k)" "k < 4 \<longrightarrow> snd (G c h k) = None"
    by blast
  have "k = 4" using k(1,3) assms by (cases "k < 4") auto
  then show ?thesis using k(2) by simp
qed

lemma getAndRetryTotalSupply_all_fail:
  assumes "\<forall>j\<le>2. snd (G c h j) \<noteq> None"
  shows "getAndRetryTotalSupply G c h = (G c h 2, 2)"
proof -
  from getAndRetryTotalSupply_char[of G c h] obtain k where
    k: "k \<le> 2" "getAndRetryTotalSupply G c h = (G c h k, k)" "k < 2 \<longrightarrow> snd (G c h k) = None"
    by blast
  have "k = 2" using k(1,3) assms by (cases "k < 2") auto
  then show ?thesis using k(2) by simp
qed

subsection \<open>Manual overrides of the total supply\<close>

lemma fetchBalance_ok: "fetchBalance daoEnv daoToken r = (Some 0, r)"
  by (simp add: fetchBalance_def daoEnv_def getAndRetryBalance_def)

lemma fetchTotalSupply_ok: "fetchTotalSupply daoEnv daoToken r = (Some 5, r)"
  by (simp add: fetchTotalSupply_def daoEnv_def getAndRetryTotalSupply_def)

text \<open>
  Claim C7, as stated, fails: for the DAO token on Ethereum whose token basic has Ethereum
  as its home chain, \<^verbatim>\<open>specialBasic\<close> returns the override \<open>1000 * 10 ^ 18\<close>, but the
  home-chain rule that follows it sets the total supply to zero, and the flow is computed
  from zero.
\<close>

theorem C7_override_lost_on_home_chain:
  "specialBasic (MATIC_CROSSCHAIN_ID daoEnv) daoToken (Some 5) = Some (1000 * 10 ^ 18) \<and>
   checkToken daoEnv daoHome daoToken ([], [], 0) =
     Inr ([], [\<lparr>dca_ChainId = ETHEREUM_CROSSCHAIN_ID, dca_Hash = ''dao'', dca_TotalSupply = Some 0,
                 dca_Balance = Some 0, dca_Flow = Some 0\<rparr>], 0)"
proof -
  have p: "presion daoToken = 10 ^ 18"
    using presion_small[of daoToken] by (simp add: daoToken_def)
  have a: "specialBasic (MATIC_CROSSCHAIN_ID daoEnv) daoToken (Some 5) = Some (1000 * 10 ^ 18)"
    by (simp add: specialBasic_def Let_def p) (simp add: daoToken_def)
  have b: "checkToken daoEnv daoHome daoToken ([], [], 0) =
     Inr ([], [\<lparr>dca_ChainId = ETHEREUM_CROSSCHAIN_ID, dca_Hash = ''dao'', dca_TotalSupply = Some 0,
                 dca_Balance = Some 0, dca_Flow = Some 0\<rparr>], 0)"
    by (simp add: checkToken_def fetchBalance_ok fetchTotalSupply_ok notToken_def inExtraBasic_def extraBasics_def)
       (simp add: daoToken_def daoHome_def)
  show ?thesis using a b by simp
qed

text \<open>
  Claim C7, amended: for a reserve-relevant DAO token on Ethereum (precision below
  \<open>2 ^ 31\<close>, balance read not nil) the total supply fetched from the chain is ignored; the
  total supply used for the flow of its chain entry is the override
  \<open>1000 * 10 ^ precision\<close>, unless Ethereum is the home chain of the token basic, in
  which case it is zero. For every (asset name, chain) pair outside the override table,
  \<^verbatim>\<open>specialBasic\<close> passes the supply it is given through.
\<close>

theorem C7_override_unless_home_chain:
  assumes "t_TokenBasicName token = ''DAO''" and "t_ChainId token = ETHEREUM_CROSSCHAIN_ID"
    and "t_Precision token < 2 ^ 31" and "t_Property token = 1"
    and "fetchBalance env token reason = (Some b, reason1)"
    and "fetchTotalSupply env token reason1 = (fetched, reason2)"
  shows "checkToken env basic token (reason, dstChainAssets, totalFlow) =
      (let totalSupply = (if tb_ChainId basic = ETHEREUM_CROSSCHAIN_ID then 0
                          else 1000 * 10 ^ t_Precision token)
       in Inr (reason2,
               dstChainAssets @
                 [\<lparr>dca_ChainId = t_ChainId token, dca_Hash = t_Hash token,
                   dca_TotalSupply = Some totalSupply, dca_Balance = Some b,
                   dca_Flow = Some (totalSupply - b)\<rparr>],
               totalFlow + (totalSupply - b)))
    \<and> (\<forall>t s. (t_TokenBasicName t, t_ChainId t) \<notin> set (overridePairs (MATIC_CROSSCHAIN_ID env))
          \<longrightarrow> specialBasic (MATIC_CROSSCHAIN_ID env) t s = s)"
proof -
  have sb: "specialBasic (MATIC_CROSSCHAIN_ID env) token fetched = Some (1000 * 10 ^ t_Precision token)"
    using assms(1,2) presion_small[OF assms(3)]
    by (simp add: specialBasic_def Let_def ETHEREUM_CROSSCHAIN_ID_def HECO_CROSSCHAIN_ID_def)
  have nt: "\<not> notToken token" "\<not> inExtraBasic (t_TokenBasicName token)"
    using assms(1) by (simp_all add: notToken_def inExtraBasic_def extraBasics_def)
  have "checkToken env basic token (reason, dstChainAssets, totalFlow) =
      (let totalSupply = (if tb_ChainId basic = ETHEREUM_CROSSCHAIN_ID then 0
                          else 1000 * 10 ^ t_Precision token)
       in Inr (reason2,
               dstChainAssets @
                 [\<lparr>dca_ChainId = t_ChainId token, dca_Hash = t_Hash token,
                   dca_TotalSupply = Some totalSupply, dca_Balance = Some b,
                   dca_Flow = Some (totalSupply - b)\<rparr>],
               totalFlow + (totalSupply - b)))"
    using nt assms(2,4,5,6) sb by (simp add: checkToken_def Let_def)
  then show ?thesis using specialBasic_not_in_table by blast
qed

text \<open>The amended claim C7 at the DAO token with home chain Heco, and at a pair outside the table.\<close>

theorem C7_override_unless_home_chain_witness:
  "checkToken daoEnv daoAway daoToken ([], [], 0) =
     Inr ([], [\<lparr>dca_ChainId = ETHEREUM_CROSSCHAIN_ID, dca_Hash = ''dao'',
                 dca_TotalSupply = Some (1000 * 10 ^ 18), dca_Balance = Some 0,
                 dca_Flow = Some (1000 * 10 ^ 18)\<rparr>], 1000 * 10 ^ 18)
   \<and> specialBasic (MATIC_CROSSCHAIN_ID daoEnv) (daoToken\<lparr>t_TokenBasicName := ''FOO''\<rparr>) (Some 5) = Some 5"
proof -
  have h: "t_TokenBasicName daoToken = ''DAO''" "t_ChainId daoToken = ETHEREUM_CROSSCHAIN_ID"
     "t_Precision daoToken < 2 ^ 31" "t_Property daoToken = 1"
    by (simp_all add: daoToken_def)
  have n: "(t_TokenBasicName (daoToken\<lparr>t_TokenBasicName := ''FOO''\<rparr>), t_ChainId (daoToken\<lparr>t_TokenBasicName := ''FOO''\<rparr>))
        \<notin> set (overridePairs (MATIC_CROSSCHAIN_ID daoEnv))"
    by (simp add: overridePairs_def)
  from C7_override_unless_home_chain[OF h fetchBalance_ok[of "[]"] fetchTotalSupply_ok[of "[]"],
      where basic = daoAway and dstChainAssets = "[]" and totalFlow = 0] n
  show ?thesis
    by (simp add: Let_def daoAway_def daoToken_def ETHEREUM_CROSSCHAIN_ID_def HECO_CROSSCHAIN_ID_def)
qed


subsection \<open>The reconciler pass\<close>

lemma specialBasic_Some: "\<exists>y. specialBasic M token (Some x) = Some y"
  by (simp add: specialBasic_def Let_def)

lemma sumFlows_append: "sumFlows (xs @ ys) = sumFlows xs + sumFlows ys"
  by (simp add: sumFlows_def)


lemma amountUsd_update [simp]: "amountUsd (ad\<lparr>ad_Amount_usd := x\<rparr>) = amountUsd ad"
  by (simp add: amountUsd_def)

lemma reported_update [simp]: "reported (ad\<lparr>ad_Amount_usd := x\<rparr>) = reported ad"
  by (simp add: reported_def)


lemma sendDingLoop_ok:
  "list_all okRes ads \<Longrightarrow>
   sendDingLoop ads (ss, flag) =
     Inr (ss @ map ad_BasicName (filter reported ads), flag \<or> (\<exists>ad\<in>set ads. reported ad))"
proof (induction ads arbitrary: ss flag)
  case Nil
  then show ?case by simp
next
  case (Cons ad ads)
  then have ok: "okRes ad" and oks: "list_all okRes ads" by simp_all
  show ?case
  proof (cases "reported ad")
    case True
    then have "sendDingLoop (ad # ads) (ss, flag) = sendDingLoop ads (ss @ [ad_BasicName ad], True)"
      using ok by (simp add: reported_def okRes_def)
    then show ?thesis using True Cons.IH[OF oks] by simp
  next
    case False
    then have "sendDingLoop (ad # ads) (ss, flag) = sendDingLoop ads (ss, flag)"
      using ok by (auto simp: reported_def okRes_def)
    then show ?thesis using False Cons.IH[OF oks] by simp
  qed
qed


lemma fetchBalance_used:
  "fetchBalance env token r =
     (usedBalance env token,
      case snd (fst (getAndRetryBalance (GetBalance env) (t_ChainId token) (t_Hash token))) of
        None \<Rightarrow> r | Some e \<Rightarrow> e)"
  by (simp add: fetchBalance_def usedBalance_def split: prod.splits option.splits)

lemma fetchTotalSupply_used:
  "fetchTotalSupply env token r =
     (fetchedTotalSupply env token,
      case snd (fst (getAndRetryTotalSupply (GetTotalSupply env) (t_ChainId token) (t_Hash token))) of
        None \<Rightarrow> r | Some e \<Rightarrow> e)"
  by (simp add: fetchTotalSupply_def fetchedTotalSupply_def split: prod.splits option.splits)

lemma checkToken_untracked:
  "\<not> tracked token \<Longrightarrow> checkToken env basic token st = Inr st"
  by (cases st) (auto simp: checkToken_def tracked_def)

lemma checkToken_tracked:
  assumes "tracked token"
  shows "checkToken env basic token (r, as, tf) =
    (case (usedTotalSupply env basic token, usedBalance env token) of
       (Some ts, Some b) \<Rightarrow>
          Inr (reasonStep env r token,
               as @ [\<lparr>dca_ChainId = t_ChainId token, dca_Hash = t_Hash token,
                      dca_TotalSupply = Some ts, dca_Balance = Some b, dca_Flow = Some (ts - b)\<rparr>],
               tf + (ts - b))
     | _ \<Rightarrow> Inl NilPointerDereference)"
  using assms
  by (simp add: checkToken_def tracked_def fetchBalance_used fetchTotalSupply_used
        usedTotalSupply_def reasonStep_def fetchErrors_def
      split: option.splits)

lemma reasonStep_foldl:
  "foldl (reasonStep env) r tokens =
     (if concat (map (fetchErrors env) tokens) = [] then r
      else last (concat (map (fetchErrors env) tokens)))"
proof (induction tokens rule: rev_induct)
  case Nil
  then show ?case by simp
next
  case (snoc token tokens)
  then show ?case by (simp add: reasonStep_def)
qed

lemma sumFlows_snoc:
  "sumFlows (xs @ [\<lparr>dca_ChainId = c, dca_Hash = h, dca_TotalSupply = ts, dca_Balance = b,
                     dca_Flow = Some f\<rparr>]) = sumFlows xs + f"
  by (simp add: sumFlows_def)

lemma checkTokens_Inr:
  "checkTokens env basic tokens (r, as, tf) = Inr (r', as', tf') \<Longrightarrow>
   \<exists>new. as' = as @ new \<and> list_all2 (entryOf env basic) (filter tracked tokens) new \<and>
         tf' = tf + sumFlows new \<and> r' = foldl (reasonStep env) r (filter tracked tokens)"
proof (induction tokens arbitrary: r as tf)
  case Nil
  then show ?case by (simp add: sumFlows_def)
next
  case (Cons token tokens)
  show ?case
  proof (cases "tracked token")
    case False
    with Cons.prems have "checkTokens env basic tokens (r, as, tf) = Inr (r', as', tf')"
      by (simp add: checkToken_untracked)
    from Cons.IH[OF this] False show ?thesis by simp
  next
    case True
    from Cons.prems obtain st1 where
      s1: "checkToken env basic token (r, as, tf) = Inr st1" and
      s2: "checkTokens env basic tokens st1 = Inr (r', as', tf')"
      by (auto split: sum.splits)
    from s1 True obtain ts b where
      u: "usedTotalSupply env basic token = Some ts" "usedBalance env token = Some b" and
      st1: "st1 = (reasonStep env r token,
                   as @ [\<lparr>dca_ChainId = t_ChainId token, dca_Hash = t_Hash token,
                          dca_TotalSupply = Some ts, dca_Balance = Some b, dca_Flow = Some (ts - b)\<rparr>],
                   tf + (ts - b))"
      by (auto simp: checkToken_tracked split: option.splits)
    let ?x = "\<lparr>dca_ChainId = t_ChainId token, dca_Hash = t_Hash token,
               dca_TotalSupply = Some ts, dca_Balance = Some b, dca_Flow = Some (ts - b)\<rparr>"
    from Cons.IH[OF s2[unfolded st1]] obtain new where
      n: "as' = (as @ [?x]) @ new" "list_all2 (entryOf env basic) (filter tracked tokens) new"
         "tf' = tf + (ts - b) + sumFlows new"
         "r' = foldl (reasonStep env) (reasonStep env r token) (filter tracked tokens)"
      by blast
    have e: "entryOf env basic token ?x"
      by (simp add: entryOf_def u flowEntry_def)
    have sf: "sumFlows (?x # new) = (ts - b) + sumFlows new"
      by (simp add: sumFlows_def)
    show ?thesis
      using True n e sf by (intro exI[of _ "?x # new"]) simp
  qed
qed

lemma checkTokens_total:
  "(\<exists>st'. checkTokens env basic tokens st = Inr st') \<longleftrightarrow>
   list_all (\<lambda>token. usedBalance env token \<noteq> None \<and> usedTotalSupply env basic token \<noteq> None)
     (filter tracked tokens)"
proof (induction tokens arbitrary: st)
  case Nil
  then show ?case by (cases st) simp
next
  case (Cons token tokens)
  obtain r as tf where st: "st = (r, as, tf)" by (cases st) auto
  show ?case
  proof (cases "tracked token")
    case False
    then show ?thesis using Cons.IH[of st] by (simp add: checkToken_untracked)
  next
    case True
    show ?thesis
    proof (cases "usedBalance env token \<noteq> None \<and> usedTotalSupply env basic token \<noteq> None")
      case False
      then have "checkToken env basic token st = Inl NilPointerDereference"
        unfolding st using True by (auto simp: checkToken_tracked split: option.splits)
      then show ?thesis using True False by auto
    next
      case ok: True
      then obtain st1 where "checkToken env basic token st = Inr st1"
        unfolding st using True by (auto simp: checkToken_tracked split: option.splits)
      then show ?thesis using True ok Cons.IH[of st1] by auto
    qed
  qed
qed

lemma getO3Data_Inr:
  assumes "getO3Data env ad = Inr ad'"
  shows "\<exists>o3. o3Entries env (ad_BasicName ad) o3 \<and>
          ad' = ad\<lparr>ad_TokenAsset := ad_TokenAsset ad @ o3,
                   ad_Difference := ad_Difference ad + sumFlows o3\<rparr>"
  using assms
  by (auto simp: getO3Data_def o3Entries_def sumFlows_def
      split: if_splits http_response.splits option.splits)

lemma getO3Data_total:
  "(\<exists>ad'. getO3Data env ad = Inr ad') \<longleftrightarrow> o3Answers env (ad_BasicName ad)"
  by (auto simp: getO3Data_def o3Answers_def split: if_splits http_response.splits option.splits)

lemma lastReason_foldl:
  "foldl (reasonStep env) [] (filter tracked tokens) = lastReason env tokens"
  by (simp add: reasonStep_foldl lastReason_def Let_def)

lemma checkBasic_Inr:
  assumes "checkBasic env basic = Inr (d, extra)"
  shows "detailOf env basic d \<and> extra = inExtraBasic (tb_Name basic)"
proof -
  from assms obtain r as tf where
    ct: "checkTokens env basic (tb_Tokens basic) ([], [], 0) = Inr (r, as, tf)"
    by (auto simp: checkBasic_def split: sum.splits)
  let ?ad0 = "\<lparr>ad_BasicName = tb_Name basic, ad_TokenAsset = as, ad_Difference = tf,
               ad_Precision = tb_Precision basic, ad_Price = tb_Price basic,
               ad_Amount_usd = None, ad_Reason = r\<rparr>"
  from assms ct obtain ad1 where
    o3: "getO3Data env ?ad0 = Inr ad1" and
    res: "(d, extra) = (if inExtraBasic (ad_BasicName ad1) then (ad1, True)
             else if 0 < ad_Difference ad1 then (ad1\<lparr>ad_Amount_usd := Some (amountUsd ad1)\<rparr>, False)
             else (ad1, False))"
    by (auto simp: checkBasic_def split: sum.splits if_splits)
  from checkTokens_Inr[OF ct] have
    as: "list_all2 (entryOf env basic) (filter tracked (tb_Tokens basic)) as"
    and tf: "tf = sumFlows as" and r: "r = lastReason env (tb_Tokens basic)"
    by (simp_all add: lastReason_foldl)
  from getO3Data_Inr[OF o3] obtain o3 where
    o: "o3Entries env (tb_Name basic) o3" and
    ad1: "ad1 = ?ad0\<lparr>ad_TokenAsset := as @ o3, ad_Difference := tf + sumFlows o3\<rparr>"
    by auto
  have len: "length as = length (filter tracked (tb_Tokens basic))"
    using as by (simp add: list_all2_lengthD)
  have d1: "detailOf env basic (ad1\<lparr>ad_Amount_usd := u\<rparr>) \<longleftrightarrow>
      u = (if \<not> inExtraBasic (tb_Name basic) \<and> 0 < ad_Difference ad1 then Some (amountUsd ad1) else None)"
    for u
    unfolding ad1 detailOf_def amountUsdOf_def Let_def
    using as o len tf r by (auto simp: sumFlows_append amountUsd_def)
  have n1: "ad_BasicName ad1 = tb_Name basic" "ad_Amount_usd ad1 = None"
    by (simp_all add: ad1)
  have same: "ad1\<lparr>ad_Amount_usd := None\<rparr> = ad1"
    by (simp add: ad1)
  show ?thesis
  proof (cases "inExtraBasic (tb_Name basic)")
    case True
    then have "d = ad1" "extra" using res n1 by simp_all
    then show ?thesis using d1[of None] True same by simp
  next
    case False
    show ?thesis
    proof (cases "0 < ad_Difference ad1")
      case True
      then have "d = ad1\<lparr>ad_Amount_usd := Some (amountUsd ad1)\<rparr>" "\<not> extra"
        using res n1 False by simp_all
      then show ?thesis using d1[of "Some (amountUsd ad1)"] True False by simp
    next
      case nd: False
      then have "d = ad1" "\<not> extra" using res n1 False by simp_all
      then show ?thesis using d1[of None] nd False same by simp
    qed
  qed
qed

lemma checkBasic_total:
  "(\<exists>res. checkBasic env basic = Inr res) \<longleftrightarrow> answers env basic"
proof
  assume "\<exists>res. checkBasic env basic = Inr res"
  then obtain res where res: "checkBasic env basic = Inr res" by blast
  then obtain st where ct: "checkTokens env basic (tb_Tokens basic) ([], [], 0) = Inr st"
    by (auto simp: checkBasic_def split: sum.splits)
  obtain r as tf where st: "st = (r, as, tf)" by (cases st) auto
  from res ct st obtain ad1 where
    "getO3Data env \<lparr>ad_BasicName = tb_Name basic, ad_TokenAsset = as, ad_Difference = tf,
               ad_Precision = tb_Precision basic, ad_Price = tb_Price basic,
               ad_Amount_usd = None, ad_Reason = r\<rparr> = Inr ad1"
    by (auto simp: checkBasic_def split: sum.splits)
  then have "o3Answers env (tb_Name basic)"
    using getO3Data_total[of env "\<lparr>ad_BasicName = tb_Name basic, ad_TokenAsset = as, ad_Difference = tf,
               ad_Precision = tb_Precision basic, ad_Price = tb_Price basic,
               ad_Amount_usd = None, ad_Reason = r\<rparr>"] by auto
  moreover have "list_all (\<lambda>token. usedBalance env token \<noteq> None \<and> usedTotalSupply env basic token \<noteq> None)
     (filter tracked (tb_Tokens basic))"
    using checkTokens_total[of env basic "tb_Tokens basic" "([], [], 0)"] ct by blast
  ultimately show "answers env basic" by (simp add: answers_def)
next
  assume a: "answers env basic"
  then obtain st where ct: "checkTokens env basic (tb_Tokens basic) ([], [], 0) = Inr st"
    using checkTokens_total[of env basic "tb_Tokens basic" "([], [], 0)"] by (auto simp: answers_def)
  obtain r as tf where st: "st = (r, as, tf)" by (cases st) auto
  from a obtain ad1 where
    "getO3Data env \<lparr>ad_BasicName = tb_Name basic, ad_TokenAsset = as, ad_Difference = tf,
               ad_Precision = tb_Precision basic, ad_Price = tb_Price basic,
               ad_Amount_usd = None, ad_Reason = r\<rparr> = Inr ad1"
    using getO3Data_total[of env "\<lparr>ad_BasicName = tb_Name basic, ad_TokenAsset = as, ad_Difference = tf,
               ad_Precision = tb_Precision basic, ad_Price = tb_Price basic,
               ad_Amount_usd = None, ad_Reason = r\<rparr>"] by (auto simp: answers_def)
  then show "\<exists>res. checkBasic env basic = Inr res"
    using ct st by (auto simp: checkBasic_def)
qed

lemma checkBasics_Inr:
  "checkBasics env basics (res, ext) = Inr (res', ext') \<Longrightarrow>
   \<exists>nr ne. res' = res @ nr \<and> ext' = ext @ ne \<and>
     list_all2 (detailOf env) (filter (\<lambda>b. \<not> inExtraBasic (tb_Name b)) basics) nr \<and>
     list_all2 (detailOf env) (filter (\<lambda>b. inExtraBasic (tb_Name b)) basics) ne"
proof (induction basics arbitrary: res ext)
  case Nil
  then show ?case by simp
next
  case (Cons basic basics)
  from Cons.prems obtain de where de: "checkBasic env basic = Inr de"
    by (cases "checkBasic env basic") auto
  obtain d e where cb: "checkBasic env basic = Inr (d, e)"
    using de by (cases de) auto
  from Cons.prems cb have
    rest: "checkBasics env basics
             (if e then (res, ext @ [d]) else (res @ [d], ext)) = Inr (res', ext')"
    by (cases e) simp_all
  from checkBasic_Inr[OF cb] have d: "detailOf env basic d" and e: "e = inExtraBasic (tb_Name basic)"
    by simp_all
  show ?case
  proof (cases e)
    case True
    with rest have "checkBasics env basics (res, ext @ [d]) = Inr (res', ext')" by simp
    from Cons.IH[OF this] obtain nr ne where
      "res' = res @ nr" "ext' = (ext @ [d]) @ ne"
      "list_all2 (detailOf env) (filter (\<lambda>b. \<not> inExtraBasic (tb_Name b)) basics) nr"
      "list_all2 (detailOf env) (filter (\<lambda>b. inExtraBasic (tb_Name b)) basics) ne"
      by blast
    then show ?thesis using True d e
      by (intro exI[of _ nr] exI[of _ "d # ne"]) simp
  next
    case False
    with rest have "checkBasics env basics (res @ [d], ext) = Inr (res', ext')" by simp
    from Cons.IH[OF this] obtain nr ne where
      "res' = (res @ [d]) @ nr" "ext' = ext @ ne"
      "list_all2 (detailOf env) (filter (\<lambda>b. \<not> inExtraBasic (tb_Name b)) basics) nr"
      "list_all2 (detailOf env) (filter (\<lambda>b. inExtraBasic (tb_Name b)) basics) ne"
      by blast
    then show ?thesis using False d e
      by (intro exI[of _ "d # nr"] exI[of _ ne]) simp
  qed
qed

lemma checkBasics_total:
  "(\<exists>acc'. checkBasics env basics acc = Inr acc') \<longleftrightarrow> list_all (answers env) basics"
proof (induction basics arbitrary: acc)
  case Nil
  then show ?case by (cases acc) simp
next
  case (Cons basic basics)
  show ?case
  proof (cases "answers env basic")
    case False
    then have "\<not> (\<exists>res. checkBasic env basic = Inr res)"
      using checkBasic_total[of env basic] by blast
    then obtain f where "checkBasic env basic = Inl f" by (cases "checkBasic env basic") auto
    then show ?thesis using False by simp
  next
    case True
    then obtain d e where cb: "checkBasic env basic = Inr (d, e)"
      using checkBasic_total[of env basic] by auto
    show ?thesis
      using True cb Cons.IH[of "if e then (fst acc, snd acc @ [d]) else (fst acc @ [d], snd acc)"]
      by simp
  qed
qed

lemma list_all2_right:
  "list_all2 P xs ys \<Longrightarrow> (\<And>x y. x \<in> set xs \<Longrightarrow> P x y \<Longrightarrow> Q y) \<Longrightarrow> list_all Q ys"
  by (induction rule: list_all2_induct) auto

lemma entryOf_printable: "entryOf env basic token x \<Longrightarrow> flowEntry x \<and> printable x"
  by (auto simp: entryOf_def flowEntry_def printable_def split: option.splits)

lemma detailOf_entries:
  assumes d: "detailOf env basic d"
  shows "list_all flowEntry (take (length (filter tracked (tb_Tokens basic))) (ad_TokenAsset d))"
    and "list_all printable (take (length (filter tracked (tb_Tokens basic))) (ad_TokenAsset d))"
proof -
  let ?n = "length (filter tracked (tb_Tokens basic))"
  from d have t: "list_all2 (entryOf env basic) (filter tracked (tb_Tokens basic)) (take ?n (ad_TokenAsset d))"
    by (simp add: detailOf_def Let_def)
  from t show "list_all flowEntry (take ?n (ad_TokenAsset d))"
    by (rule list_all2_right) (simp add: entryOf_printable)
  from t show "list_all printable (take ?n (ad_TokenAsset d))"
    by (rule list_all2_right) (simp add: entryOf_printable)
qed

lemma detailOf_flowEntries:
  assumes d: "detailOf env basic d" and n: "tb_Name basic \<noteq> ''WBTC''" "tb_Name basic \<noteq> ''USDT''"
  shows "list_all flowEntry (ad_TokenAsset d)"
proof -
  let ?n = "length (filter tracked (tb_Tokens basic))"
  from d n have "drop ?n (ad_TokenAsset d) = []"
    by (simp add: detailOf_def Let_def o3Entries_def)
  then have "ad_TokenAsset d = take ?n (ad_TokenAsset d)"
    by (metis append_Nil2 append_take_drop_id)
  then show ?thesis using detailOf_entries(1)[OF d] by simp
qed

lemma detailOf_okRes:
  assumes d: "detailOf env basic d" and n: "\<not> inExtraBasic (tb_Name basic)"
  shows "okRes d"
proof -
  let ?n = "length (filter tracked (tb_Tokens basic))"
  have u: "inExtraBasic ''USDT''"
    by (simp add: inExtraBasic_def extraBasics_def)
  from d have o: "o3Entries env (tb_Name basic) (drop ?n (ad_TokenAsset d))"
    and am: "ad_Amount_usd d = (if 0 < ad_Difference d then Some (amountUsd d) else None)"
    using n by (simp_all add: detailOf_def amountUsdOf_def Let_def)
  from o n u have o1: "list_all printable (drop ?n (ad_TokenAsset d))"
    by (auto simp: o3Entries_def printable_def split: if_splits http_response.splits option.splits)
  have sp: "ad_TokenAsset d = take ?n (ad_TokenAsset d) @ drop ?n (ad_TokenAsset d)" by simp
  have p: "list_all printable (ad_TokenAsset d)"
    using detailOf_entries(2)[OF d] o1 by (subst sp) (simp only: list_all_append)
  show ?thesis
    using am p by (simp add: okRes_def)
qed

lemma res_okRes:
  "list_all2 (detailOf env) (filter (\<lambda>b. \<not> inExtraBasic (tb_Name b)) basics) res \<Longrightarrow>
   list_all okRes res"
  by (erule list_all2_right) (simp add: detailOf_okRes)

lemma sendDing_res:
  assumes "list_all okRes res"
  shows "sendDing res =
     Inr (if \<exists>d\<in>set res. reported d then Some (map ad_BasicName (filter reported res)) else None)"
  using sendDingLoop_ok[OF assms, of "[]" False]
  by (cases "\<exists>d\<in>set res. reported d") (simp_all add: sendDing_def)

lemma pass_Inr:
  assumes "startCheckAssetAlarm env = Inr r" and "GetPropertytokenBasic env = Inr basics"
  shows "list_all2 (detailOf env) (filter (\<lambda>b. \<not> inExtraBasic (tb_Name b)) basics) (resAssetDetails r)
       \<and> list_all2 (detailOf env) (filter (\<lambda>b. inExtraBasic (tb_Name b)) basics) (extraAssetDetails r)
       \<and> alert r = (if \<exists>d\<in>set (resAssetDetails r). reported d
                     then Some (map ad_BasicName (filter reported (resAssetDetails r))) else None)"
proof -
  from assms obtain res extra posted where
    cb: "checkBasics env basics ([], []) = Inr (res, extra)" and
    sd: "sendDing res = Inr posted" and
    r: "r = \<lparr>resAssetDetails = res, extraAssetDetails = extra, alert = posted\<rparr>"
    by (auto simp: startCheckAssetAlarm_def split: sum.splits)
  from checkBasics_Inr[OF cb] have
    a: "list_all2 (detailOf env) (filter (\<lambda>b. \<not> inExtraBasic (tb_Name b)) basics) res"
       "list_all2 (detailOf env) (filter (\<lambda>b. inExtraBasic (tb_Name b)) basics) extra"
    by simp_all
  from sendDing_res[OF res_okRes[OF a(1)]] sd have
    "posted = (if \<exists>d\<in>set res. reported d then Some (map ad_BasicName (filter reported res)) else None)"
    by simp
  then show ?thesis using a r by simp
qed

lemma pass_total:
  assumes "GetPropertytokenBasic env = Inr basics"
  shows "(\<exists>r. startCheckAssetAlarm env = Inr r) \<longleftrightarrow> list_all (answers env) basics"
proof
  assume "\<exists>r. startCheckAssetAlarm env = Inr r"
  then have "\<exists>acc'. checkBasics env basics ([], []) = Inr acc'"
    using assms by (auto simp: startCheckAssetAlarm_def split: sum.splits)
  then show "list_all (answers env) basics" by (simp only: checkBasics_total)
next
  assume "list_all (answers env) basics"
  then obtain acc' where c: "checkBasics env basics ([], []) = Inr acc'"
    using checkBasics_total[of env basics "([], [])"] by blast
  obtain res extra where acc': "acc' = (res, extra)" by (cases acc') auto
  from checkBasics_Inr[OF c[unfolded acc']] have
    "list_all2 (detailOf env) (filter (\<lambda>b. \<not> inExtraBasic (tb_Name b)) basics) res" by simp
  from sendDing_res[OF res_okRes[OF this]] c acc' assms
  show "\<exists>r. startCheckAssetAlarm env = Inr r"
    by (simp add: startCheckAssetAlarm_def)
qed

lemma usedBalance_all_fail:
  assumes "\<forall>j\<le>4. snd (GetBalance env (t_ChainId token) (t_Hash token) j) \<noteq> None"
  shows "usedBalance env token = Some 0"
  using getAndRetryBalance_all_fail[of "GetBalance env" "t_ChainId token" "t_Hash token", OF assms] assms
  by (auto simp: usedBalance_def split: prod.splits option.splits)

lemma fetchedTotalSupply_all_fail:
  assumes "\<forall>j\<le>2. snd (GetTotalSupply env (t_ChainId token) (t_Hash token) j) \<noteq> None"
  shows "fetchedTotalSupply env token = Some 0"
  using getAndRetryTotalSupply_all_fail[of "GetTotalSupply env" "t_ChainId token" "t_Hash token", OF assms] assms
  by (auto simp: fetchedTotalSupply_def split: prod.splits option.splits)

lemma usedTotalSupply_Some:
  "fetchedTotalSupply env token = Some s \<Longrightarrow> \<exists>ts. usedTotalSupply env basic token = Some ts"
  using specialBasic_Some[of "MATIC_CROSSCHAIN_ID env" token s]
  by (auto simp: usedTotalSupply_def)

lemma client_answers:
  assumes b: "\<forall>c h j. snd (GetBalance env c h j) = None \<longrightarrow> fst (GetBalance env c h j) \<noteq> None"
    and s: "\<forall>c h j. snd (GetTotalSupply env c h j) = None \<longrightarrow> fst (GetTotalSupply env c h j) \<noteq> None"
  shows "usedBalance env token \<noteq> None \<and> usedTotalSupply env basic token \<noteq> None"
proof -
  from getAndRetryBalance_char[of "GetBalance env" "t_ChainId token" "t_Hash token"] obtain k where
    "getAndRetryBalance (GetBalance env) (t_ChainId token) (t_Hash token) =
       (GetBalance env (t_ChainId token) (t_Hash token) k, k)" by blast
  then have 1: "usedBalance env token \<noteq> None"
    using b[rule_format, of "t_ChainId token" "t_Hash token" k]
    by (auto simp: usedBalance_def split: prod.splits option.splits)
  from getAndRetryTotalSupply_char[of "GetTotalSupply env" "t_ChainId token" "t_Hash token"] obtain k where
    "getAndRetryTotalSupply (GetTotalSupply env) (t_ChainId token) (t_Hash token) =
       (GetTotalSupply env (t_ChainId token) (t_Hash token) k, k)" by blast
  then have "fetchedTotalSupply env token \<noteq> None"
    using s[rule_format, of "t_ChainId token" "t_Hash token" k]
    by (auto simp: fetchedTotalSupply_def split: prod.splits option.splits)
  then obtain x where "fetchedTotalSupply env token = Some x" by auto
  from usedTotalSupply_Some[OF this, of basic] 1 show ?thesis by auto
qed

lemma checkToken_balance_fails:
  assumes t: "tracked token"
    and b: "\<forall>j\<le>4. snd (GetBalance env (t_ChainId token) (t_Hash token) j) \<noteq> None"
    and s: "fst (getAndRetryTotalSupply (GetTotalSupply env) (t_ChainId token) (t_Hash token)) = (Some s, None)"
  shows "\<exists>e ts. snd (GetBalance env (t_ChainId token) (t_Hash token) 4) = Some e \<and>
      (if \<not> inExtraBasic (t_TokenBasicName token) \<and> tb_ChainId basic = t_ChainId token then Some 0
       else specialBasic (MATIC_CROSSCHAIN_ID env) token (Some s)) = Some ts \<and>
      checkToken env basic token (reason, as, tf) =
        Inr (e, as @ [\<lparr>dca_ChainId = t_ChainId token, dca_Hash = t_Hash token,
                       dca_TotalSupply = Some ts, dca_Balance = Some 0, dca_Flow = Some ts\<rparr>],
             tf + ts)"
proof -
  from b obtain e where e: "snd (GetBalance env (t_ChainId token) (t_Hash token) 4) = Some e" by auto
  have fs: "fetchedTotalSupply env token = Some s"
    using s by (simp add: fetchedTotalSupply_def)
  from usedTotalSupply_Some[OF fs, of basic] obtain ts where ts: "usedTotalSupply env basic token = Some ts"
    by blast
  have fe: "fetchErrors env token = [e]"
    using getAndRetryBalance_all_fail[of "GetBalance env" "t_ChainId token" "t_Hash token", OF b] e s
    by (simp add: fetchErrors_def)
  have eff: "(if \<not> inExtraBasic (t_TokenBasicName token) \<and> tb_ChainId basic = t_ChainId token then Some 0
       else specialBasic (MATIC_CROSSCHAIN_ID env) token (fetchedTotalSupply env token)) = Some ts"
    using ts by (simp only: usedTotalSupply_def)
  show ?thesis
    using e eff[unfolded fs]
    by (intro exI[of _ e] exI[of _ ts])
       (simp add: checkToken_tracked[OF t] reasonStep_def ts fe usedBalance_all_fail[OF b])
qed

lemma checkToken_supply_fails:
  assumes t: "tracked token"
    and b: "fst (getAndRetryBalance (GetBalance env) (t_ChainId token) (t_Hash token)) = (Some b, None)"
    and s: "\<forall>j\<le>2. snd (GetTotalSupply env (t_ChainId token) (t_Hash token) j) \<noteq> None"
  shows "\<exists>e ts. snd (GetTotalSupply env (t_ChainId token) (t_Hash token) 2) = Some e \<and>
      (if \<not> inExtraBasic (t_TokenBasicName token) \<and> tb_ChainId basic = t_ChainId token then Some 0
       else specialBasic (MATIC_CROSSCHAIN_ID env) token (Some 0)) = Some ts \<and>
      checkToken env basic token (reason, as, tf) =
        Inr (e, as @ [\<lparr>dca_ChainId = t_ChainId token, dca_Hash = t_Hash token,
                       dca_TotalSupply = Some ts, dca_Balance = Some b, dca_Flow = Some (ts - b)\<rparr>],
             tf + (ts - b))"
proof -
  from s obtain e where e: "snd (GetTotalSupply env (t_ChainId token) (t_Hash token) 2) = Some e" by auto
  have fs: "fetchedTotalSupply env token = Some 0" by (rule fetchedTotalSupply_all_fail[OF s])
  from usedTotalSupply_Some[OF fs, of basic] obtain ts where ts: "usedTotalSupply env basic token = Some ts"
    by blast
  have ub: "usedBalance env token = Some b" using b by (simp add: usedBalance_def)
  have fe: "fetchErrors env token = [e]"
    using getAndRetryTotalSupply_all_fail[of "GetTotalSupply env" "t_ChainId token" "t_Hash token", OF s] e b
    by (simp add: fetchErrors_def)
  have eff: "(if \<not> inExtraBasic (t_TokenBasicName token) \<and> tb_ChainId basic = t_ChainId token then Some 0
       else specialBasic (MATIC_CROSSCHAIN_ID env) token (fetchedTotalSupply env token)) = Some ts"
    using ts by (simp only: usedTotalSupply_def)
  show ?thesis
    using e eff[unfolded fs]
    by (intro exI[of _ e] exI[of _ ts])
       (simp add: checkToken_tracked[OF t] reasonStep_def ts fe ub)
qed

lemma checkToken_both_fail:
  assumes t: "tracked token"
    and b: "\<forall>j\<le>4. snd (GetBalance env (t_ChainId token) (t_Hash token) j) \<noteq> None"
    and s: "\<forall>j\<le>2. snd (GetTotalSupply env (t_ChainId token) (t_Hash token) j) \<noteq> None"
  shows "\<exists>e ts. snd (GetTotalSupply env (t_ChainId token) (t_Hash token) 2) = Some e \<and>
      (if \<not> inExtraBasic (t_TokenBasicName token) \<and> tb_ChainId basic = t_ChainId token then Some 0
       else specialBasic (MATIC_CROSSCHAIN_ID env) token (Some 0)) = Some ts \<and>
      checkToken env basic token (reason, as, tf) =
        Inr (e, as @ [\<lparr>dca_ChainId = t_ChainId token, dca_Hash = t_Hash token,
                       dca_TotalSupply = Some ts, dca_Balance = Some 0, dca_Flow = Some ts\<rparr>],
             tf + ts)"
proof -
  from s obtain e where e: "snd (GetTotalSupply env (t_ChainId token) (t_Hash token) 2) = Some e" by auto
  from b obtain e0 where e0: "snd (GetBalance env (t_ChainId token) (t_Hash token) 4) = Some e0" by auto
  have fs: "fetchedTotalSupply env token = Some 0" by (rule fetchedTotalSupply_all_fail[OF s])
  from usedTotalSupply_Some[OF fs, of basic] obtain ts where ts: "usedTotalSupply env basic token = Some ts"
    by blast
  have fe: "fetchErrors env token = [e0, e]"
    using getAndRetryTotalSupply_all_fail[of "GetTotalSupply env" "t_ChainId token" "t_Hash token", OF s]
      getAndRetryBalance_all_fail[of "GetBalance env" "t_ChainId token" "t_Hash token", OF b] e e0
    by (simp add: fetchErrors_def)
  have eff: "(if \<not> inExtraBasic (t_TokenBasicName token) \<and> tb_ChainId basic = t_ChainId token then Some 0
       else specialBasic (MATIC_CROSSCHAIN_ID env) token (fetchedTotalSupply env token)) = Some ts"
    using ts by (simp only: usedTotalSupply_def)
  show ?thesis
    using e eff[unfolded fs]
    by (intro exI[of _ e] exI[of _ ts])
       (simp add: checkToken_tracked[OF t] reasonStep_def ts fe usedBalance_all_fail[OF b])
qed

subsection \<open>Degradation of failed chain queries\<close>

lemma fetchBalance_all_fail:
  assumes "\<forall>j\<le>4. snd (GetBalance env (t_ChainId token) (t_Hash token) j) \<noteq> None"
  shows "\<exists>e. snd (GetBalance env (t_ChainId token) (t_Hash token) 4) = Some e \<and>
             fetchBalance env token reason = (Some 0, e)"
proof -
  from assms obtain e where e: "snd (GetBalance env (t_ChainId token) (t_Hash token) 4) = Some e"
    by auto
  then show ?thesis
    using getAndRetryBalance_all_fail[of "GetBalance env" "t_ChainId token" "t_Hash token", OF assms]
    by (cases "GetBalance env (t_ChainId token) (t_Hash token) 4") (simp add: fetchBalance_def)
qed

lemma fetchTotalSupply_all_fail:
  assumes "\<forall>j\<le>2. snd (GetTotalSupply env (t_ChainId token) (t_Hash token) j) \<noteq> None"
  shows "\<exists>e. snd (GetTotalSupply env (t_ChainId token) (t_Hash token) 2) = Some e \<and>
             fetchTotalSupply env token reason = (Some 0, e)"
proof -
  from assms obtain e where e: "snd (GetTotalSupply env (t_ChainId token) (t_Hash token) 2) = Some e"
    by auto
  then show ?thesis
    using getAndRetryTotalSupply_all_fail[of "GetTotalSupply env" "t_ChainId token" "t_Hash token", OF assms]
    by (cases "GetTotalSupply env (t_ChainId token) (t_Hash token) 2") (simp add: fetchTotalSupply_def)
qed

lemma checkToken_all_fail:
  assumes b: "\<forall>j\<le>4. snd (GetBalance env (t_ChainId token) (t_Hash token) j) \<noteq> None"
      and s: "\<forall>j\<le>2. snd (GetTotalSupply env (t_ChainId token) (t_Hash token) j) \<noteq> None"
  shows "\<exists>st'. checkToken env basic token st = Inr st'"
proof -
  obtain reason dstChainAssets totalFlow where st: "st = (reason, dstChainAssets, totalFlow)"
    by (cases st) auto
  from fetchBalance_all_fail[OF b, of reason] obtain e1 where
    e1: "fetchBalance env token reason = (Some 0, e1)" by blast
  from fetchTotalSupply_all_fail[OF s, of e1] obtain e2 where
    e2: "fetchTotalSupply env token e1 = (Some 0, e2)" by blast
  from specialBasic_Some[of "MATIC_CROSSCHAIN_ID env" token 0] obtain y where
    y: "specialBasic (MATIC_CROSSCHAIN_ID env) token (Some 0) = Some y" by blast
  show ?thesis
    unfolding st by (simp add: checkToken_def e1 e2 y)
qed

text \<open>
  Claim C9. A balance fetch makes a first attempt and at most 4 retries, a total-supply
  fetch a first attempt and at most 2 retries, with one \<^verbatim>\<open>time.Sleep(time.Second)\<close> before
  each retry (the second component of the result counts them), stopping at the first
  attempt that succeeds. When every attempt of a fetch fails, the figure the pass uses is
  zero and the error message of the last attempt becomes the reason of the asset detail.
  For a tracked token this is spelled out for a failing balance fetch alone, a failing
  total-supply fetch alone, and both: the token gets its chain entry, with a balance of
  zero in place of a failed balance and with the total supply that the override table and
  the home-chain rule make of the fetched figure (zero after a failed fetch); the reason
  is the message of the fetch that failed last; the loop goes on with the next token.
  For the whole pass: when the chain client returns a figure whenever it returns no
  error and the O3 lookups answer, then whichever fetches fail, the pass ends normally
  with one asset detail for every token basic of the catalog, in the order of the catalog,
  each with one chain entry for every tracked token and with the last fetch error as its
  reason.
\<close>

theorem C9_bounded_retry_then_zero:
  "(\<exists>k\<le>4. getAndRetryBalance (GetBalance env) c h = (GetBalance env c h k, k) \<and>
       (\<forall>j<k. snd (GetBalance env c h j) \<noteq> None) \<and> (k < 4 \<longrightarrow> snd (GetBalance env c h k) = None))
   \<and> (\<exists>k\<le>2. getAndRetryTotalSupply (GetTotalSupply env) c h = (GetTotalSupply env c h k, k) \<and>
       (\<forall>j<k. snd (GetTotalSupply env c h j) \<noteq> None) \<and>
       (k < 2 \<longrightarrow> snd (GetTotalSupply env c h k) = None))
   \<and> ((\<forall>j\<le>4. snd (GetBalance env (t_ChainId token) (t_Hash token) j) \<noteq> None) \<longrightarrow>
        (\<exists>e. snd (GetBalance env (t_ChainId token) (t_Hash token) 4) = Some e \<and>
             fetchBalance env token reason = (Some 0, e)) \<and>
        usedBalance env token = Some 0)
   \<and> ((\<forall>j\<le>2. snd (GetTotalSupply env (t_ChainId token) (t_Hash token) j) \<noteq> None) \<longrightarrow>
        (\<exists>e. snd (GetTotalSupply env (t_ChainId token) (t_Hash token) 2) = Some e \<and>
             fetchTotalSupply env token reason = (Some 0, e)) \<and>
        fetchedTotalSupply env token = Some 0)
   \<and> ((\<forall>j\<le>4. snd (GetBalance env (t_ChainId token) (t_Hash token) j) \<noteq> None) \<and>
       (\<forall>j\<le>2. snd (GetTotalSupply env (t_ChainId token) (t_Hash token) j) \<noteq> None) \<longrightarrow>
        (\<exists>st'. checkToken env basic token st = Inr st' \<and>
               checkTokens env basic (token # tokens) st = checkTokens env basic tokens st'))
   \<and> (tracked token \<and>
       (\<forall>j\<le>4. snd (GetBalance env (t_ChainId token) (t_Hash token) j) \<noteq> None) \<and>
       fst (getAndRetryTotalSupply (GetTotalSupply env) (t_ChainId token) (t_Hash token)) = (Some s, None) \<longrightarrow>
        (\<exists>e ts. snd (GetBalance env (t_ChainId token) (t_Hash token) 4) = Some e \<and>
           (if \<not> inExtraBasic (t_TokenBasicName token) \<and> tb_ChainId basic = t_ChainId token then Some 0
            else specialBasic (MATIC_CROSSCHAIN_ID env) token (Some s)) = Some ts \<and>
           checkToken env basic token (reason, entries, totalFlow) =
             Inr (e, entries @ [\<lparr>dca_ChainId = t_ChainId token, dca_Hash = t_Hash token,
                                 dca_TotalSupply = Some ts, dca_Balance = Some 0, dca_Flow = Some ts\<rparr>],
                  totalFlow + ts)))
   \<and> (tracked token \<and>
       fst (getAndRetryBalance (GetBalance env) (t_ChainId token) (t_Hash token)) = (Some b, None) \<and>
       (\<forall>j\<le>2. snd (GetTotalSupply env (t_ChainId token) (t_Hash token) j) \<noteq> None) \<longrightarrow>
        (\<exists>e ts. snd (GetTotalSupply env (t_ChainId token) (t_Hash token) 2) = Some e \<and>
           (if \<not> inExtraBasic (t_TokenBasicName token) \<and> tb_ChainId basic = t_ChainId token then Some 0
            else specialBasic (MATIC_CROSSCHAIN_ID env) token (Some 0)) = Some ts \<and>
           checkToken env basic token (reason, entries, totalFlow) =
             Inr (e, entries @ [\<lparr>dca_ChainId = t_ChainId token, dca_Hash = t_Hash token,
                                 dca_TotalSupply = Some ts, dca_Balance = Some b, dca_Flow = Some (ts - b)\<rparr>],
                  totalFlow + (ts - b))))
   \<and> (tracked token \<and>
       (\<forall>j\<le>4. snd (GetBalance env (t_ChainId token) (t_Hash token) j) \<noteq> None) \<and>
       (\<forall>j\<le>2. snd (GetTotalSupply env (t_ChainId token) (t_Hash token) j) \<noteq> None) \<longrightarrow>
        (\<exists>e ts. snd (GetTotalSupply env (t_ChainId token) (t_Hash token) 2) = Some e \<and>
           (if \<not> inExtraBasic (t_TokenBasicName token) \<and> tb_ChainId basic = t_ChainId token then Some 0
            else specialBasic (MATIC_CROSSCHAIN_ID env) token (Some 0)) = Some ts \<and>
           checkToken env basic token (reason, entries, totalFlow) =
             Inr (e, entries @ [\<lparr>dca_ChainId = t_ChainId token, dca_Hash = t_Hash token,
                                 dca_TotalSupply = Some ts, dca_Balance = Some 0, dca_Flow = Some ts\<rparr>],
                  totalFlow + ts)))
   \<and> (GetPropertytokenBasic env = Inr basics \<and>
       (\<forall>c h j. snd (GetBalance env c h j) = None \<longrightarrow> fst (GetBalance env c h j) \<noteq> None) \<and>
       (\<forall>c h j. snd (GetTotalSupply env c h j) = None \<longrightarrow> fst (GetTotalSupply env c h j) \<noteq> None) \<and>
       list_all (\<lambda>basic. o3Answers env (tb_Name basic)) basics \<longrightarrow>
        (\<exists>r. startCheckAssetAlarm env = Inr r \<and>
           list_all2 (detailOf env) (filter (\<lambda>basic. \<not> inExtraBasic (tb_Name basic)) basics)
             (resAssetDetails r) \<and>
           list_all2 (detailOf env) (filter (\<lambda>basic. inExtraBasic (tb_Name basic)) basics)
             (extraAssetDetails r)))"
proof -
  have c3: "(\<forall>j\<le>4. snd (GetBalance env (t_ChainId token) (t_Hash token) j) \<noteq> None) \<longrightarrow>
        (\<exists>e. snd (GetBalance env (t_ChainId token) (t_Hash token) 4) = Some e \<and>
             fetchBalance env token reason = (Some 0, e)) \<and>
        usedBalance env token = Some 0"
    using fetchBalance_all_fail[of env token reason] usedBalance_all_fail[of env token] by blast
  have c4: "(\<forall>j\<le>2. snd (GetTotalSupply env (t_ChainId token) (t_Hash token) j) \<noteq> None) \<longrightarrow>
        (\<exists>e. snd (GetTotalSupply env (t_ChainId token) (t_Hash token) 2) = Some e \<and>
             fetchTotalSupply env token reason = (Some 0, e)) \<and>
        fetchedTotalSupply env token = Some 0"
    using fetchTotalSupply_all_fail[of env token reason] fetchedTotalSupply_all_fail[of env token] by blast
  have c5: "(\<forall>j\<le>4. snd (GetBalance env (t_ChainId token) (t_Hash token) j) \<noteq> None) \<and>
       (\<forall>j\<le>2. snd (GetTotalSupply env (t_ChainId token) (t_Hash token) j) \<noteq> None) \<longrightarrow>
        (\<exists>st'. checkToken env basic token st = Inr st' \<and>
               checkTokens env basic (token # tokens) st = checkTokens env basic tokens st')"
  proof
    assume a: "(\<forall>j\<le>4. snd (GetBalance env (t_ChainId token) (t_Hash token) j) \<noteq> None) \<and>
       (\<forall>j\<le>2. snd (GetTotalSupply env (t_ChainId token) (t_Hash token) j) \<noteq> None)"
    from checkToken_all_fail[of env token basic st] a obtain st' where
      "checkToken env basic token st = Inr st'" by blast
    then show "\<exists>st'. checkToken env basic token st = Inr st' \<and>
               checkTokens env basic (token # tokens) st = checkTokens env basic tokens st'"
      by simp
  qed
  have c9: "GetPropertytokenBasic env = Inr basics \<and>
       (\<forall>c h j. snd (GetBalance env c h j) = None \<longrightarrow> fst (GetBalance env c h j) \<noteq> None) \<and>
       (\<forall>c h j. snd (GetTotalSupply env c h j) = None \<longrightarrow> fst (GetTotalSupply env c h j) \<noteq> None) \<and>
       list_all (\<lambda>basic. o3Answers env (tb_Name basic)) basics \<longrightarrow>
        (\<exists>r. startCheckAssetAlarm env = Inr r \<and>
           list_all2 (detailOf env) (filter (\<lambda>basic. \<not> inExtraBasic (tb_Name basic)) basics)
             (resAssetDetails r) \<and>
           list_all2 (detailOf env) (filter (\<lambda>basic. inExtraBasic (tb_Name basic)) basics)
             (extraAssetDetails r))"
  proof
    assume a: "GetPropertytokenBasic env = Inr basics \<and>
       (\<forall>c h j. snd (GetBalance env c h j) = None \<longrightarrow> fst (GetBalance env c h j) \<noteq> None) \<and>
       (\<forall>c h j. snd (GetTotalSupply env c h j) = None \<longrightarrow> fst (GetTotalSupply env c h j) \<noteq> None) \<and>
       list_all (\<lambda>basic. o3Answers env (tb_Name basic)) basics"
    then have cat: "GetPropertytokenBasic env = Inr basics" by simp
    have "answers env basic" if "basic \<in> set basics" for basic
      using a that client_answers[of env _ basic]
      by (simp add: answers_def list_all_iff)
    then have "list_all (answers env) basics" by (simp add: list_all_iff)
    with pass_total[OF cat] obtain r where r: "startCheckAssetAlarm env = Inr r" by blast
    from pass_Inr[OF r cat] r
    show "\<exists>r. startCheckAssetAlarm env = Inr r \<and>
           list_all2 (detailOf env) (filter (\<lambda>basic. \<not> inExtraBasic (tb_Name basic)) basics)
             (resAssetDetails r) \<and>
           list_all2 (detailOf env) (filter (\<lambda>basic. inExtraBasic (tb_Name basic)) basics)
             (extraAssetDetails r)"
      by blast
  qed
  show ?thesis
    apply (intro conjI)
            apply (rule getAndRetryBalance_char)
           apply (rule getAndRetryTotalSupply_char)
          apply (rule c3)
         apply (rule c4)
        apply (rule c5)
       apply (intro impI, elim conjE, erule (2) checkToken_balance_fails)
      apply (intro impI, elim conjE, erule (2) checkToken_supply_fails)
     apply (intro impI, elim conjE, erule (2) checkToken_both_fail)
    apply (rule c9)
    done
qed

lemma downEnv_sel:
  "GetBalance downEnv = (\<lambda>chainId hash attempt. (None, Some ''no balance''))"
  "GetTotalSupply downEnv = (\<lambda>chainId hash attempt. (None, Some ''no supply''))"
  "MATIC_CROSSCHAIN_ID downEnv = 17"
  by (simp_all add: downEnv_def)

lemma mixedEnv_sel:
  "GetBalance mixedEnv =
     (\<lambda>chainId hash attempt.
          if hash = ''b'' then (None, Some ''timeout'')
          else if hash = ''a'' \<and> attempt < 2 then (None, Some ''busy'')
          else (Some 3, None))"
  "GetTotalSupply mixedEnv =
     (\<lambda>chainId hash attempt. if hash = ''c'' then (None, Some ''no supply'') else (Some 5, None))"
  "MATIC_CROSSCHAIN_ID mixedEnv = 17"
  "GetPropertytokenBasic mixedEnv = Inr [fooBasic, barBasic]"
  by (simp_all add: mixedEnv_def)

lemma foo_bar_plain:
  "tracked fooEth" "tracked fooBsc" "tracked barEth"
  "\<not> inExtraBasic ''FOO''" "\<not> inExtraBasic ''BAR''"
  "specialBasic 17 fooEth s = s" "specialBasic 17 fooBsc s = s" "specialBasic 17 barEth s = s"
  "o3Answers env ''FOO''" "o3Answers env ''BAR''"
  "tb_Name fooBasic = ''FOO''" "tb_Name barBasic = ''BAR''"
  "tb_ChainId fooBasic = 3" "tb_ChainId barBasic = 3"
  "t_ChainId fooEth = ETHEREUM_CROSSCHAIN_ID" "t_ChainId fooBsc = BSC_CROSSCHAIN_ID"
  "t_ChainId barEth = ETHEREUM_CROSSCHAIN_ID"
  "t_Hash fooEth = ''a''" "t_Hash fooBsc = ''b''" "t_Hash barEth = ''c''"
  "t_TokenBasicName fooEth = ''FOO''" "t_TokenBasicName fooBsc = ''FOO''"
  "t_TokenBasicName barEth = ''BAR''"
  by (simp_all add: tracked_def notToken_def inExtraBasic_def extraBasics_def specialBasic_def
        o3Answers_def fooEth_def fooBsc_def barEth_def fooBasic_def barBasic_def)

lemma chain_ids3: "3 \<noteq> ETHEREUM_CROSSCHAIN_ID" "3 \<noteq> BSC_CROSSCHAIN_ID"
  by (simp_all add: ETHEREUM_CROSSCHAIN_ID_def BSC_CROSSCHAIN_ID_def)

text \<open>
  Claim C9 on concrete chain states. In \<open>mixedEnv\<close> the balance of \<open>a\<close> is read at the
  second retry; the balance fetch of \<open>b\<close> fails alone and the total-supply fetch of \<open>c\<close>
  fails alone: both tokens get their entry, FOO and BAR both get their asset detail, with
  the reasons \<open>timeout\<close> and \<open>no supply\<close>. In \<open>downEnv\<close> every fetch fails at every attempt:
  both tokens of FOO get an entry with zero figures and the pass ends normally.
\<close>

theorem C9_bounded_retry_then_zero_witness:
  "getAndRetryBalance (GetBalance mixedEnv) ETHEREUM_CROSSCHAIN_ID ''a'' = ((Some 3, None), 2)
   \<and> getAndRetryBalance (GetBalance downEnv) ETHEREUM_CROSSCHAIN_ID ''a'' = ((None, Some ''no balance''), 4)
   \<and> getAndRetryTotalSupply (GetTotalSupply downEnv) ETHEREUM_CROSSCHAIN_ID ''a'' = ((None, Some ''no supply''), 2)
   \<and> fetchBalance downEnv fooEth [] = (Some 0, ''no balance'') \<and> usedBalance downEnv fooEth = Some 0
   \<and> fetchTotalSupply downEnv fooEth [] = (Some 0, ''no supply'')
   \<and> fetchedTotalSupply downEnv fooEth = Some 0
   \<and> checkToken mixedEnv fooBasic fooBsc ([], [], 0) =
       Inr (''timeout'',
            [\<lparr>dca_ChainId = BSC_CROSSCHAIN_ID, dca_Hash = ''b'', dca_TotalSupply = Some 5,
              dca_Balance = Some 0, dca_Flow = Some 5\<rparr>], 5)
   \<and> checkToken mixedEnv barBasic barEth ([], [], 0) =
       Inr (''no supply'',
            [\<lparr>dca_ChainId = ETHEREUM_CROSSCHAIN_ID, dca_Hash = ''c'', dca_TotalSupply = Some 0,
              dca_Balance = Some 3, dca_Flow = Some (- 3)\<rparr>], - 3)
   \<and> checkToken downEnv fooBasic fooEth ([], [], 0) =
       Inr (''no supply'',
            [\<lparr>dca_ChainId = ETHEREUM_CROSSCHAIN_ID, dca_Hash = ''a'', dca_TotalSupply = Some 0,
              dca_Balance = Some 0, dca_Flow = Some 0\<rparr>], 0)
   \<and> startCheckAssetAlarm mixedEnv =
       Inr \<lparr>resAssetDetails =
              [\<lparr>ad_BasicName = ''FOO'',
                ad_TokenAsset =
                  [\<lparr>dca_ChainId = ETHEREUM_CROSSCHAIN_ID, dca_Hash = ''a'', dca_TotalSupply = Some 5,
                    dca_Balance = Some 3, dca_Flow = Some 2\<rparr>,
                   \<lparr>dca_ChainId = BSC_CROSSCHAIN_ID, dca_Hash = ''b'', dca_TotalSupply = Some 5,
                    dca_Balance = Some 0, dca_Flow = Some 5\<rparr>],
                ad_Difference = 7, ad_Precision = 8, ad_Price = 100000000,
                ad_Amount_usd = Some 0, ad_Reason = ''timeout''\<rparr>,
               \<lparr>ad_BasicName = ''BAR'',
                ad_TokenAsset =
                  [\<lparr>dca_ChainId = ETHEREUM_CROSSCHAIN_ID, dca_Hash = ''c'', dca_TotalSupply = Some 0,
                    dca_Balance = Some 3, dca_Flow = Some (- 3)\<rparr>],
                ad_Difference = - 3, ad_Precision = 8, ad_Price = 100000000,
                ad_Amount_usd = None, ad_Reason = ''no supply''\<rparr>],
            extraAssetDetails = [], alert = None\<rparr>
   \<and> list_all2 (detailOf mixedEnv) [fooBasic, barBasic]
        [\<lparr>ad_BasicName = ''FOO'',
                ad_TokenAsset =
                  [\<lparr>dca_ChainId = ETHEREUM_CROSSCHAIN_ID, dca_Hash = ''a'', dca_TotalSupply = Some 5,
                    dca_Balance = Some 3, dca_Flow = Some 2\<rparr>,
                   \<lparr>dca_ChainId = BSC_CROSSCHAIN_ID, dca_Hash = ''b'', dca_TotalSupply = Some 5,
                    dca_Balance = Some 0, dca_Flow = Some 5\<rparr>],
                ad_Difference = 7, ad_Precision = 8, ad_Price = 100000000,
                ad_Amount_usd = Some 0, ad_Reason = ''timeout''\<rparr>,
               \<lparr>ad_BasicName = ''BAR'',
                ad_TokenAsset =
                  [\<lparr>dca_ChainId = ETHEREUM_CROSSCHAIN_ID, dca_Hash = ''c'', dca_TotalSupply = Some 0,
                    dca_Balance = Some 3, dca_Flow = Some (- 3)\<rparr>],
                ad_Difference = - 3, ad_Precision = 8, ad_Price = 100000000,
                ad_Amount_usd = None, ad_Reason = ''no supply''\<rparr>]
   \<and> startCheckAssetAlarm downEnv =
     Inr \<lparr>resAssetDetails =
            [\<lparr>ad_BasicName = ''FOO'',
              ad_TokenAsset =
                [\<lparr>dca_ChainId = ETHEREUM_CROSSCHAIN_ID, dca_Hash = ''a'', dca_TotalSupply = Some 0,
                  dca_Balance = Some 0, dca_Flow = Some 0\<rparr>,
                 \<lparr>dca_ChainId = BSC_CROSSCHAIN_ID, dca_Hash = ''b'', dca_TotalSupply = Some 0,
                  dca_Balance = Some 0, dca_Flow = Some 0\<rparr>],
              ad_Difference = 0, ad_Precision = 8, ad_Price = 100000000,
              ad_Amount_usd = None, ad_Reason = ''no supply''\<rparr>],
          extraAssetDetails = [], alert = None\<rparr>"
proof -
  let ?foo = "\<lparr>ad_BasicName = ''FOO'',
                ad_TokenAsset =
                  [\<lparr>dca_ChainId = ETHEREUM_CROSSCHAIN_ID, dca_Hash = ''a'', dca_TotalSupply = Some 5,
                    dca_Balance = Some 3, dca_Flow = Some 2\<rparr>,
                   \<lparr>dca_ChainId = BSC_CROSSCHAIN_ID, dca_Hash = ''b'', dca_TotalSupply = Some 5,
                    dca_Balance = Some 0, dca_Flow = Some 5\<rparr>],
                ad_Difference = 7, ad_Precision = 8, ad_Price = 100000000,
                ad_Amount_usd = Some 0, ad_Reason = ''timeout''\<rparr>"
  let ?bar = "\<lparr>ad_BasicName = ''BAR'',
                ad_TokenAsset =
                  [\<lparr>dca_ChainId = ETHEREUM_CROSSCHAIN_ID, dca_Hash = ''c'', dca_TotalSupply = Some 0,
                    dca_Balance = Some 3, dca_Flow = Some (- 3)\<rparr>],
                ad_Difference = - 3, ad_Precision = 8, ad_Price = 100000000,
                ad_Amount_usd = None, ad_Reason = ''no supply''\<rparr>"
  have fb: "\<forall>j\<le>4. snd (GetBalance downEnv c h j) \<noteq> None" for c h
    by (simp add: downEnv_sel)
  have fs: "\<forall>j\<le>2. snd (GetTotalSupply downEnv c h j) \<noteq> None" for c h
    by (simp add: downEnv_sel)
  have mb: "\<forall>j\<le>4. snd (GetBalance mixedEnv (t_ChainId fooBsc) (t_Hash fooBsc) j) \<noteq> None"
    by (simp add: mixedEnv_sel foo_bar_plain)
  have ms: "\<forall>j\<le>2. snd (GetTotalSupply mixedEnv (t_ChainId barEth) (t_Hash barEth) j) \<noteq> None"
    by (simp add: mixedEnv_sel foo_bar_plain)
  have g1: "getAndRetryBalance (GetBalance mixedEnv) ETHEREUM_CROSSCHAIN_ID ''a'' = ((Some 3, None), 2)"
    by code_simp
  have g2: "getAndRetryBalance (GetBalance downEnv) ETHEREUM_CROSSCHAIN_ID ''a'' = ((None, Some ''no balance''), 4)"
    by code_simp
  have g3: "getAndRetryTotalSupply (GetTotalSupply downEnv) ETHEREUM_CROSSCHAIN_ID ''a'' = ((None, Some ''no supply''), 2)"
    by code_simp
  note down = C9_bounded_retry_then_zero[where env = downEnv and token = fooEth and reason = "[]"
      and basic = fooBasic and entries = "[]" and totalFlow = 0]
  have g4: "fetchBalance downEnv fooEth [] = (Some 0, ''no balance'') \<and> usedBalance downEnv fooEth = Some 0"
    using down[THEN conjunct2, THEN conjunct2, THEN conjunct1] fb by (simp add: downEnv_sel)
  have g5: "fetchTotalSupply downEnv fooEth [] = (Some 0, ''no supply'') \<and>
            fetchedTotalSupply downEnv fooEth = Some 0"
    using down[THEN conjunct2, THEN conjunct2, THEN conjunct2, THEN conjunct1] fs
    by (simp add: downEnv_sel)
  have s5: "fst (getAndRetryTotalSupply (GetTotalSupply mixedEnv) (t_ChainId fooBsc) (t_Hash fooBsc)) = (Some 5, None)"
    by code_simp
  have b3: "fst (getAndRetryBalance (GetBalance mixedEnv) (t_ChainId barEth) (t_Hash barEth)) = (Some 3, None)"
    by code_simp
  have g6: "checkToken mixedEnv fooBasic fooBsc ([], [], 0) =
       Inr (''timeout'',
            [\<lparr>dca_ChainId = BSC_CROSSCHAIN_ID, dca_Hash = ''b'', dca_TotalSupply = Some 5,
              dca_Balance = Some 0, dca_Flow = Some 5\<rparr>], 5)"
    using C9_bounded_retry_then_zero[where env = mixedEnv and token = fooBsc and s = 5
        and basic = fooBasic and reason = "[]" and entries = "[]" and totalFlow = 0,
        THEN conjunct2, THEN conjunct2, THEN conjunct2, THEN conjunct2, THEN conjunct2, THEN conjunct1]
      mb s5
    by (auto simp: foo_bar_plain mixedEnv_sel chain_ids3)
  have g7: "checkToken mixedEnv barBasic barEth ([], [], 0) =
       Inr (''no supply'',
            [\<lparr>dca_ChainId = ETHEREUM_CROSSCHAIN_ID, dca_Hash = ''c'', dca_TotalSupply = Some 0,
              dca_Balance = Some 3, dca_Flow = Some (- 3)\<rparr>], - 3)"
    using C9_bounded_retry_then_zero[where env = mixedEnv and token = barEth and b = 3
        and basic = barBasic and reason = "[]" and entries = "[]" and totalFlow = 0,
        THEN conjunct2, THEN conjunct2, THEN conjunct2, THEN conjunct2, THEN conjunct2, THEN conjunct2,
        THEN conjunct1]
      ms b3
    by (auto simp: foo_bar_plain mixedEnv_sel chain_ids3)
  have g8: "checkToken downEnv fooBasic fooEth ([], [], 0) =
       Inr (''no supply'',
            [\<lparr>dca_ChainId = ETHEREUM_CROSSCHAIN_ID, dca_Hash = ''a'', dca_TotalSupply = Some 0,
              dca_Balance = Some 0, dca_Flow = Some 0\<rparr>], 0)"
    using down[THEN conjunct2, THEN conjunct2, THEN conjunct2, THEN conjunct2, THEN conjunct2,
        THEN conjunct2, THEN conjunct2, THEN conjunct1] fb fs
    by (auto simp: foo_bar_plain downEnv_sel chain_ids3)
  have g9: "startCheckAssetAlarm mixedEnv =
       Inr \<lparr>resAssetDetails = [?foo, ?bar], extraAssetDetails = [], alert = None\<rparr>"
    by code_simp
  have wb: "(\<forall>c h j. snd (GetBalance mixedEnv c h j) = None \<longrightarrow> fst (GetBalance mixedEnv c h j) \<noteq> None) \<and>
       (\<forall>c h j. snd (GetTotalSupply mixedEnv c h j) = None \<longrightarrow> fst (GetTotalSupply mixedEnv c h j) \<noteq> None)"
    by (simp add: mixedEnv_sel)
  have g10: "list_all2 (detailOf mixedEnv) [fooBasic, barBasic] [?foo, ?bar]"
    using C9_bounded_retry_then_zero[where env = mixedEnv and basics = "[fooBasic, barBasic]",
        THEN conjunct2, THEN conjunct2, THEN conjunct2, THEN conjunct2, THEN conjunct2, THEN conjunct2,
        THEN conjunct2, THEN conjunct2] wb
    by (simp add: mixedEnv_sel foo_bar_plain g9)
  have g11: "startCheckAssetAlarm downEnv =
     Inr \<lparr>resAssetDetails =
            [\<lparr>ad_BasicName = ''FOO'',
              ad_TokenAsset =
                [\<lparr>dca_ChainId = ETHEREUM_CROSSCHAIN_ID, dca_Hash = ''a'', dca_TotalSupply = Some 0,
                  dca_Balance = Some 0, dca_Flow = Some 0\<rparr>,
                 \<lparr>dca_ChainId = BSC_CROSSCHAIN_ID, dca_Hash = ''b'', dca_TotalSupply = Some 0,
                  dca_Balance = Some 0, dca_Flow = Some 0\<rparr>],
              ad_Difference = 0, ad_Precision = 8, ad_Price = 100000000,
              ad_Amount_usd = None, ad_Reason = ''no supply''\<rparr>],
          extraAssetDetails = [], alert = None\<rparr>"
    by code_simp
  show ?thesis
    using g1 g2 g3 g4 g5 g6 g7 g8 g9 g10 g11 by simp
qed

subsection \<open>Flows, aggregate difference and the alert\<close>

lemma sumFlows_balanced:
  "list_all flowEntry xs \<Longrightarrow> \<forall>x\<in>set xs. dca_TotalSupply x = dca_Balance x \<Longrightarrow> sumFlows xs = 0"
  by (induction xs) (auto simp: sumFlows_def flowEntry_def split: option.splits)


lemma res_details:
  assumes "list_all2 (detailOf env) (filter (\<lambda>b. \<not> inExtraBasic (tb_Name b)) basics) res"
  shows "list_all (\<lambda>d. ad_BasicName d \<noteq> ''WBTC'' \<longrightarrow>
            list_all flowEntry (ad_TokenAsset d) \<and> ad_Difference d = sumFlows (ad_TokenAsset d)) res"
proof (rule list_all2_right[OF assms])
  fix basic d
  assume m: "basic \<in> set (filter (\<lambda>b. \<not> inExtraBasic (tb_Name b)) basics)" and d: "detailOf env basic d"
  have u: "inExtraBasic ''USDT''" by (simp add: inExtraBasic_def extraBasics_def)
  from m u have nu: "tb_Name basic \<noteq> ''USDT''" by auto
  from d have nm: "ad_BasicName d = tb_Name basic" and df: "ad_Difference d = sumFlows (ad_TokenAsset d)"
    by (simp_all add: detailOf_def Let_def)
  show "ad_BasicName d \<noteq> ''WBTC'' \<longrightarrow>
            list_all flowEntry (ad_TokenAsset d) \<and> ad_Difference d = sumFlows (ad_TokenAsset d)"
    using detailOf_flowEntries[OF d _ nu] nm df by simp
qed

text \<open>
  Claim C8, amended. Let the catalog be loaded. When every token basic is answered (no
  figure that comes without an error is nil, and the O3 lookup of a WBTC or USDT asset
  answers), the pass ends normally and its result is tied to the catalog: the details on
  \<^verbatim>\<open>resAssetDetails\<close> are those of the token basics outside the exclusion list, the
  details on \<^verbatim>\<open>extraAssetDetails\<close> those of the excluded ones, in the order of the
  catalog. Every detail has one chain entry for every tracked token, with the figures the
  pass uses for that token and with flow = total supply - balance, followed by the O3
  entry of WBTC (its flow is the balance that the lookup reports) or of USDT (flow zero);
  the aggregate difference is the sum of the flows of all entries of the detail. A message
  is handed to the alert sink if and only if some detail on \<^verbatim>\<open>resAssetDetails\<close> is
  reported, that is, its reason is not \<open>all node is not working\<close>, its difference is
  positive and its USD valuation rounded to a whole number exceeds 10000; the message
  lists the reported assets. A non-excluded asset other than WBTC whose chain entries all
  have total supply = balance has difference zero and is not reported. When some token
  basic is not answered, the pass ends in a panic and hands over no message; when the
  catalog cannot be loaded, the pass returns that error.
\<close>

theorem C8_alert_criterion:
  "(GetPropertytokenBasic env = Inr basics \<and> list_all (answers env) basics \<longrightarrow>
      (\<exists>r. startCheckAssetAlarm env = Inr r \<and>
         list_all2 (detailOf env) (filter (\<lambda>basic. \<not> inExtraBasic (tb_Name basic)) basics)
           (resAssetDetails r) \<and>
         list_all2 (detailOf env) (filter (\<lambda>basic. inExtraBasic (tb_Name basic)) basics)
           (extraAssetDetails r) \<and>
         alert r = (if \<exists>d\<in>set (resAssetDetails r). reported d
                    then Some (map ad_BasicName (filter reported (resAssetDetails r))) else None) \<and>
         (\<forall>d\<in>set (resAssetDetails r).
            ad_BasicName d \<noteq> ''WBTC'' \<and>
            (\<forall>x\<in>set (ad_TokenAsset d). dca_TotalSupply x = dca_Balance x) \<longrightarrow>
               ad_Difference d = 0 \<and> \<not> reported d)))
   \<and> (GetPropertytokenBasic env = Inr basics \<and> \<not> list_all (answers env) basics \<longrightarrow>
        (\<exists>f. startCheckAssetAlarm env = Inl f))
   \<and> (GetPropertytokenBasic env = Inl err \<longrightarrow> startCheckAssetAlarm env = Inl (Error err))"
proof (intro conjI impI)
  assume a: "GetPropertytokenBasic env = Inr basics \<and> list_all (answers env) basics"
  then have cat: "GetPropertytokenBasic env = Inr basics" by simp
  from a pass_total[OF cat] obtain r where r: "startCheckAssetAlarm env = Inr r" by blast
  note p = pass_Inr[OF r cat]
  from res_details[OF p[THEN conjunct1]] have
    fl: "\<forall>d\<in>set (resAssetDetails r). ad_BasicName d \<noteq> ''WBTC'' \<longrightarrow>
            list_all flowEntry (ad_TokenAsset d) \<and> ad_Difference d = sumFlows (ad_TokenAsset d)"
    by (simp add: list_all_iff)
  have bal: "\<forall>d\<in>set (resAssetDetails r).
            ad_BasicName d \<noteq> ''WBTC'' \<and>
            (\<forall>x\<in>set (ad_TokenAsset d). dca_TotalSupply x = dca_Balance x) \<longrightarrow>
               ad_Difference d = 0 \<and> \<not> reported d"
  proof (intro ballI impI)
    fix d assume m: "d \<in> set (resAssetDetails r)" and
      h: "ad_BasicName d \<noteq> ''WBTC'' \<and> (\<forall>x\<in>set (ad_TokenAsset d). dca_TotalSupply x = dca_Balance x)"
    from fl m h have "list_all flowEntry (ad_TokenAsset d)" "ad_Difference d = sumFlows (ad_TokenAsset d)"
      by auto
    with h have "ad_Difference d = 0"
      using sumFlows_balanced[of "ad_TokenAsset d"] by simp
    then show "ad_Difference d = 0 \<and> \<not> reported d" by (simp add: reported_def)
  qed
  show "\<exists>r. startCheckAssetAlarm env = Inr r \<and>
         list_all2 (detailOf env) (filter (\<lambda>basic. \<not> inExtraBasic (tb_Name basic)) basics)
           (resAssetDetails r) \<and>
         list_all2 (detailOf env) (filter (\<lambda>basic. inExtraBasic (tb_Name basic)) basics)
           (extraAssetDetails r) \<and>
         alert r = (if \<exists>d\<in>set (resAssetDetails r). reported d
                    then Some (map ad_BasicName (filter reported (resAssetDetails r))) else None) \<and>
         (\<forall>d\<in>set (resAssetDetails r).
            ad_BasicName d \<noteq> ''WBTC'' \<and>
            (\<forall>x\<in>set (ad_TokenAsset d). dca_TotalSupply x = dca_Balance x) \<longrightarrow>
               ad_Difference d = 0 \<and> \<not> reported d)"
    using r p bal by (intro exI[of _ r]) simp
next
  assume a: "GetPropertytokenBasic env = Inr basics \<and> \<not> list_all (answers env) basics"
  then have cat: "GetPropertytokenBasic env = Inr basics" by simp
  from a pass_total[OF cat] have "\<not> (\<exists>r. startCheckAssetAlarm env = Inr r)" by blast
  then show "\<exists>f. startCheckAssetAlarm env = Inl f"
    by (cases "startCheckAssetAlarm env") auto
next
  assume "GetPropertytokenBasic env = Inl err"
  then show "startCheckAssetAlarm env = Inl (Error err)"
    by (simp add: startCheckAssetAlarm_def)
qed

text \<open>Evaluation of the pass on concrete catalogs.\<close>

lemma amountUsd_foo:
  "amountUsd \<lparr>ad_BasicName = n, ad_TokenAsset = xs, ad_Difference = 2000000000000,
              ad_Precision = 8, ad_Price = 100000000, ad_Amount_usd = u, ad_Reason = r\<rparr> = 20000"
  unfolding amountUsd_def AssetDetail.simps
  by code_simp

lemma amountUsd_wbtc:
  "amountUsd \<lparr>ad_BasicName = n, ad_TokenAsset = xs, ad_Difference = 200000000,
              ad_Precision = 8, ad_Price = 3000000000000, ad_Amount_usd = u, ad_Reason = r\<rparr> = 60000"
  unfolding amountUsd_def AssetDetail.simps
  by code_simp

lemma foo_plain:
  "\<not> notToken fooEth" "\<not> notToken fooBsc" "\<not> inExtraBasic ''FOO''"
  "specialBasic 17 fooEth s = s" "specialBasic 17 fooBsc s = s"
  by (simp_all add: notToken_def inExtraBasic_def extraBasics_def specialBasic_def
        fooEth_def fooBsc_def)

lemma partEnv_fetch:
  "fetchBalance partEnv fooEth r = (Some 0, r)"
  "fetchBalance partEnv fooBsc r = (Some 0, ''all node is not working'')"
  "fetchTotalSupply partEnv fooEth r = (Some 2000000000000, r)"
  "fetchTotalSupply partEnv fooBsc r = (Some 0, r)"
proof -
  show "fetchBalance partEnv fooEth r = (Some 0, r)"
    by (simp add: fetchBalance_def getAndRetryBalance_def partEnv_def fooEth_def)
  have "\<forall>j\<le>4. snd (GetBalance partEnv (t_ChainId fooBsc) (t_Hash fooBsc) j) \<noteq> None"
    by (simp add: partEnv_def fooBsc_def)
  from fetchBalance_all_fail[OF this, of r]
  show "fetchBalance partEnv fooBsc r = (Some 0, ''all node is not working'')"
    by (simp add: partEnv_def fooBsc_def)
  show "fetchTotalSupply partEnv fooEth r = (Some 2000000000000, r)"
    by (simp add: fetchTotalSupply_def getAndRetryTotalSupply_def partEnv_def fooEth_def)
  show "fetchTotalSupply partEnv fooBsc r = (Some 0, r)"
    by (simp add: fetchTotalSupply_def getAndRetryTotalSupply_def partEnv_def fooBsc_def)
qed

lemma flowEnv_fetch:
  "fetchBalance flowEnv fooEth r = (Some 0, r)"
  "fetchBalance flowEnv fooBsc r = (Some 0, r)"
  "fetchTotalSupply flowEnv fooEth r = (Some 2000000000000, r)"
  "fetchTotalSupply flowEnv fooBsc r = (Some 0, r)"
  by (simp_all add: fetchBalance_def getAndRetryBalance_def fetchTotalSupply_def
        getAndRetryTotalSupply_def flowEnv_def fooEth_def fooBsc_def)

lemma wbtcEnv_fetch:
  "fetchBalance wbtcEnv wbtcEth r = (Some 5, r)"
  "fetchTotalSupply wbtcEnv wbtcEth r = (Some 5, r)"
  by (simp_all add: fetchBalance_def getAndRetryBalance_def fetchTotalSupply_def
        getAndRetryTotalSupply_def wbtcEnv_def)

lemma env_sel:
  "MATIC_CROSSCHAIN_ID partEnv = 17" "MATIC_CROSSCHAIN_ID flowEnv = 17" "MATIC_CROSSCHAIN_ID wbtcEnv = 17"
  "GetPropertytokenBasic partEnv = Inr [fooBasic]" "GetPropertytokenBasic flowEnv = Inr [fooBasic]"
  "GetPropertytokenBasic wbtcEnv = Inr [wbtcBasic]"
  "WBTCIP wbtcEnv = HttpStatus 200 (Some 200000000)"
  by (simp_all add: partEnv_def flowEnv_def wbtcEnv_def)

lemma fooBasic_sel:
  "tb_Tokens fooBasic = [fooEth, fooBsc]" "tb_Name fooBasic = ''FOO''" "tb_ChainId fooBasic = 3"
  "tb_Precision fooBasic = 8" "tb_Price fooBasic = 100000000"
  "t_ChainId fooEth = ETHEREUM_CROSSCHAIN_ID" "t_ChainId fooBsc = BSC_CROSSCHAIN_ID"
  "t_Hash fooEth = ''a''" "t_Hash fooBsc = ''b''" "t_Property fooEth = 1" "t_Property fooBsc = 1"
  "t_TokenBasicName fooEth = ''FOO''" "t_TokenBasicName fooBsc = ''FOO''"
  by (simp_all add: fooBasic_def fooEth_def fooBsc_def)

lemma chain_ids: "ETHEREUM_CROSSCHAIN_ID \<noteq> 3" "BSC_CROSSCHAIN_ID \<noteq> 3" "Suc 0 \<noteq> ETHEREUM_CROSSCHAIN_ID"
  "3 \<noteq> ETHEREUM_CROSSCHAIN_ID" "3 \<noteq> BSC_CROSSCHAIN_ID"
  by (simp_all add: ETHEREUM_CROSSCHAIN_ID_def BSC_CROSSCHAIN_ID_def)

lemma partEnv_tokens:
  "checkTokens partEnv fooBasic [fooEth, fooBsc] ([], [], 0) =
     Inr (''all node is not working'',
          [\<lparr>dca_ChainId = ETHEREUM_CROSSCHAIN_ID, dca_Hash = ''a'', dca_TotalSupply = Some 2000000000000,
            dca_Balance = Some 0, dca_Flow = Some 2000000000000\<rparr>,
           \<lparr>dca_ChainId = BSC_CROSSCHAIN_ID, dca_Hash = ''b'', dca_TotalSupply = Some 0,
            dca_Balance = Some 0, dca_Flow = Some 0\<rparr>], 2000000000000)"
  by (simp add: checkToken_def partEnv_fetch foo_plain env_sel fooBasic_sel chain_ids)

lemma partEnv_basic:
  "checkBasic partEnv fooBasic =
     Inr (\<lparr>ad_BasicName = ''FOO'',
           ad_TokenAsset =
             [\<lparr>dca_ChainId = ETHEREUM_CROSSCHAIN_ID, dca_Hash = ''a'', dca_TotalSupply = Some 2000000000000,
               dca_Balance = Some 0, dca_Flow = Some 2000000000000\<rparr>,
              \<lparr>dca_ChainId = BSC_CROSSCHAIN_ID, dca_Hash = ''b'', dca_TotalSupply = Some 0,
               dca_Balance = Some 0, dca_Flow = Some 0\<rparr>],
           ad_Difference = 2000000000000, ad_Precision = 8, ad_Price = 100000000,
           ad_Amount_usd = Some 20000, ad_Reason = ''all node is not working''\<rparr>, False)"
  unfolding checkBasic_def fooBasic_sel partEnv_tokens
  by (simp add: getO3Data_def foo_plain amountUsd_foo)

lemma partEnv_result:
  "startCheckAssetAlarm partEnv =
     Inr \<lparr>resAssetDetails =
            [\<lparr>ad_BasicName = ''FOO'',
              ad_TokenAsset =
                [\<lparr>dca_ChainId = ETHEREUM_CROSSCHAIN_ID, dca_Hash = ''a'', dca_TotalSupply = Some 2000000000000,
                  dca_Balance = Some 0, dca_Flow = Some 2000000000000\<rparr>,
                 \<lparr>dca_ChainId = BSC_CROSSCHAIN_ID, dca_Hash = ''b'', dca_TotalSupply = Some 0,
                  dca_Balance = Some 0, dca_Flow = Some 0\<rparr>],
              ad_Difference = 2000000000000, ad_Precision = 8, ad_Price = 100000000,
              ad_Amount_usd = Some 20000, ad_Reason = ''all node is not working''\<rparr>],
          extraAssetDetails = [], alert = None\<rparr>"
  unfolding startCheckAssetAlarm_def env_sel
  by (simp add: partEnv_basic sendDing_def)

lemma wbtc_plain:
  "\<not> notToken wbtcEth" "\<not> inExtraBasic ''WBTC''" "specialBasic 17 wbtcEth s = s"
  "tb_Tokens wbtcBasic = [wbtcEth]" "tb_Name wbtcBasic = ''WBTC''" "tb_ChainId wbtcBasic = 1"
  "tb_Precision wbtcBasic = 8" "tb_Price wbtcBasic = 3000000000000"
  "t_ChainId wbtcEth = ETHEREUM_CROSSCHAIN_ID" "t_Hash wbtcEth = ''w''" "t_Property wbtcEth = 1"
  "t_TokenBasicName wbtcEth = ''WBTC''"
  by (simp_all add: notToken_def inExtraBasic_def extraBasics_def specialBasic_def
        wbtcEth_def wbtcBasic_def)

lemma wbtcEnv_tokens:
  "checkTokens wbtcEnv wbtcBasic [wbtcEth] ([], [], 0) =
     Inr ([], [\<lparr>dca_ChainId = ETHEREUM_CROSSCHAIN_ID, dca_Hash = ''w'', dca_TotalSupply = Some 5,
                 dca_Balance = Some 5, dca_Flow = Some 0\<rparr>], 0)"
  by (simp add: checkToken_def wbtcEnv_fetch wbtc_plain env_sel chain_ids)

lemma wbtcEnv_basic:
  "checkBasic wbtcEnv wbtcBasic =
     Inr (\<lparr>ad_BasicName = ''WBTC'',
           ad_TokenAsset =
             [\<lparr>dca_ChainId = ETHEREUM_CROSSCHAIN_ID, dca_Hash = ''w'', dca_TotalSupply = Some 5,
               dca_Balance = Some 5, dca_Flow = Some 0\<rparr>,
              \<lparr>dca_ChainId = O3_CROSSCHAIN_ID, dca_Hash = [], dca_TotalSupply = Some 0,
               dca_Balance = Some 0, dca_Flow = Some 200000000\<rparr>],
           ad_Difference = 200000000, ad_Precision = 8, ad_Price = 3000000000000,
           ad_Amount_usd = Some 60000, ad_Reason = []\<rparr>, False)"
  unfolding checkBasic_def wbtc_plain wbtcEnv_tokens
  by (simp add: getO3Data_def env_sel wbtc_plain amountUsd_wbtc)

lemma wbtcEnv_result:
  "startCheckAssetAlarm wbtcEnv =
     Inr \<lparr>resAssetDetails =
            [\<lparr>ad_BasicName = ''WBTC'',
              ad_TokenAsset =
                [\<lparr>dca_ChainId = ETHEREUM_CROSSCHAIN_ID, dca_Hash = ''w'', dca_TotalSupply = Some 5,
                  dca_Balance = Some 5, dca_Flow = Some 0\<rparr>,
                 \<lparr>dca_ChainId = O3_CROSSCHAIN_ID, dca_Hash = [], dca_TotalSupply = Some 0,
                  dca_Balance = Some 0, dca_Flow = Some 200000000\<rparr>],
              ad_Difference = 200000000, ad_Precision = 8, ad_Price = 3000000000000,
              ad_Amount_usd = Some 60000, ad_Reason = []\<rparr>],
          extraAssetDetails = [], alert = Some [''WBTC'']\<rparr>"
  unfolding startCheckAssetAlarm_def env_sel
  by (simp add: wbtcEnv_basic sendDing_def printable_def)

text \<open>
  Claim C8, as stated, fails. With \<open>partEnv\<close> the asset FOO is not excluded, its
  aggregate difference is positive and worth 20000 USD, and no message is handed to the
  alert sink, because its reason is \<open>all node is not working\<close>. With \<open>wbtcEnv\<close> every
  chain entry of WBTC has total supply = balance, yet the O3 entry has a flow of 2 WBTC,
  the aggregate difference is not zero and WBTC is reported.
\<close>

theorem C8_alert_counterexample:
  "startCheckAssetAlarm partEnv =
     Inr \<lparr>resAssetDetails =
            [\<lparr>ad_BasicName = ''FOO'',
              ad_TokenAsset =
                [\<lparr>dca_ChainId = ETHEREUM_CROSSCHAIN_ID, dca_Hash = ''a'', dca_TotalSupply = Some 2000000000000,
                  dca_Balance = Some 0, dca_Flow = Some 2000000000000\<rparr>,
                 \<lparr>dca_ChainId = BSC_CROSSCHAIN_ID, dca_Hash = ''b'', dca_TotalSupply = Some 0,
                  dca_Balance = Some 0, dca_Flow = Some 0\<rparr>],
              ad_Difference = 2000000000000, ad_Precision = 8, ad_Price = 100000000,
              ad_Amount_usd = Some 20000, ad_Reason = ''all node is not working''\<rparr>],
          extraAssetDetails = [], alert = None\<rparr>
   \<and> \<not> inExtraBasic ''FOO''
   \<and> startCheckAssetAlarm wbtcEnv =
     Inr \<lparr>resAssetDetails =
            [\<lparr>ad_BasicName = ''WBTC'',
              ad_TokenAsset =
                [\<lparr>dca_ChainId = ETHEREUM_CROSSCHAIN_ID, dca_Hash = ''w'', dca_TotalSupply = Some 5,
                  dca_Balance = Some 5, dca_Flow = Some 0\<rparr>,
                 \<lparr>dca_ChainId = O3_CROSSCHAIN_ID, dca_Hash = [], dca_TotalSupply = Some 0,
                  dca_Balance = Some 0, dca_Flow = Some 200000000\<rparr>],
              ad_Difference = 200000000, ad_Precision = 8, ad_Price = 3000000000000,
              ad_Amount_usd = Some 60000, ad_Reason = []\<rparr>],
          extraAssetDetails = [], alert = Some [''WBTC'']\<rparr>"
  using partEnv_result wbtcEnv_result foo_plain(3) by simp

lemma flowEnv_tokens:
  "checkTokens flowEnv fooBasic [fooEth, fooBsc] ([], [], 0) =
     Inr ([],
          [\<lparr>dca_ChainId = ETHEREUM_CROSSCHAIN_ID, dca_Hash = ''a'', dca_TotalSupply = Some 2000000000000,
            dca_Balance = Some 0, dca_Flow = Some 2000000000000\<rparr>,
           \<lparr>dca_ChainId = BSC_CROSSCHAIN_ID, dca_Hash = ''b'', dca_TotalSupply = Some 0,
            dca_Balance = Some 0, dca_Flow = Some 0\<rparr>], 2000000000000)"
  by (simp add: checkToken_def flowEnv_fetch foo_plain env_sel fooBasic_sel chain_ids)

lemma flowEnv_basic:
  "checkBasic flowEnv fooBasic =
     Inr (\<lparr>ad_BasicName = ''FOO'',
           ad_TokenAsset =
             [\<lparr>dca_ChainId = ETHEREUM_CROSSCHAIN_ID, dca_Hash = ''a'', dca_TotalSupply = Some 2000000000000,
               dca_Balance = Some 0, dca_Flow = Some 2000000000000\<rparr>,
              \<lparr>dca_ChainId = BSC_CROSSCHAIN_ID, dca_Hash = ''b'', dca_TotalSupply = Some 0,
               dca_Balance = Some 0, dca_Flow = Some 0\<rparr>],
           ad_Difference = 2000000000000, ad_Precision = 8, ad_Price = 100000000,
           ad_Amount_usd = Some 20000, ad_Reason = []\<rparr>, False)"
  unfolding checkBasic_def fooBasic_sel flowEnv_tokens
  by (simp add: getO3Data_def foo_plain amountUsd_foo)

lemma flowEnv_pass:
  "\<exists>posted. startCheckAssetAlarm flowEnv =
     Inr \<lparr>resAssetDetails =
            [\<lparr>ad_BasicName = ''FOO'',
              ad_TokenAsset =
                [\<lparr>dca_ChainId = ETHEREUM_CROSSCHAIN_ID, dca_Hash = ''a'', dca_TotalSupply = Some 2000000000000,
                  dca_Balance = Some 0, dca_Flow = Some 2000000000000\<rparr>,
                 \<lparr>dca_ChainId = BSC_CROSSCHAIN_ID, dca_Hash = ''b'', dca_TotalSupply = Some 0,
                  dca_Balance = Some 0, dca_Flow = Some 0\<rparr>],
              ad_Difference = 2000000000000, ad_Precision = 8, ad_Price = 100000000,
              ad_Amount_usd = Some 20000, ad_Reason = []\<rparr>],
          extraAssetDetails = [], alert = posted\<rparr>"
  unfolding startCheckAssetAlarm_def env_sel
  by (simp add: flowEnv_basic sendDing_def printable_def)

lemma flowEnv_answers: "list_all (answers flowEnv) [fooBasic]"
  by code_simp

lemma o3DownEnv_facts:
  "GetPropertytokenBasic o3DownEnv = Inr [fooBasic, wbtcBasic]"
  "\<not> list_all (answers o3DownEnv) [fooBasic, wbtcBasic]"
  "startCheckAssetAlarm o3DownEnv = Inl NilPointerDereference"
  "checkBasic o3DownEnv fooBasic =
     Inr (\<lparr>ad_BasicName = ''FOO'',
           ad_TokenAsset =
             [\<lparr>dca_ChainId = ETHEREUM_CROSSCHAIN_ID, dca_Hash = ''a'', dca_TotalSupply = Some 2000000000000,
               dca_Balance = Some 0, dca_Flow = Some 2000000000000\<rparr>,
              \<lparr>dca_ChainId = BSC_CROSSCHAIN_ID, dca_Hash = ''b'', dca_TotalSupply = Some 0,
               dca_Balance = Some 0, dca_Flow = Some 0\<rparr>],
           ad_Difference = 2000000000000, ad_Precision = 8, ad_Price = 100000000,
           ad_Amount_usd = Some 20000, ad_Reason = []\<rparr>, False)"
  by code_simp+

lemma evenEnv_facts:
  "GetPropertytokenBasic evenEnv = Inr [fooBasic]"
  "list_all (answers evenEnv) [fooBasic]"
  "startCheckAssetAlarm evenEnv =
     Inr \<lparr>resAssetDetails =
            [\<lparr>ad_BasicName = ''FOO'',
              ad_TokenAsset =
                [\<lparr>dca_ChainId = ETHEREUM_CROSSCHAIN_ID, dca_Hash = ''a'', dca_TotalSupply = Some 5,
                  dca_Balance = Some 5, dca_Flow = Some 0\<rparr>,
                 \<lparr>dca_ChainId = BSC_CROSSCHAIN_ID, dca_Hash = ''b'', dca_TotalSupply = Some 5,
                  dca_Balance = Some 5, dca_Flow = Some 0\<rparr>],
              ad_Difference = 0, ad_Precision = 8, ad_Price = 100000000,
              ad_Amount_usd = None, ad_Reason = []\<rparr>],
          extraAssetDetails = [], alert = None\<rparr>"
  by code_simp+

text \<open>
  The amended claim C8 on concrete chain states. With \<open>flowEnv\<close> FOO is answered, its detail
  is the detail of the catalog entry, FOO is reported and the message names it. With
  \<open>evenEnv\<close> every chain entry of FOO has total supply = balance: the difference is zero,
  FOO is not reported and no message is handed over. With
  \<open>o3DownEnv\<close> the O3 lookup of WBTC gets no answer: FOO alone would be reported, and the
  pass ends in a panic without a message. Without a catalog the pass returns the error.
\<close>

theorem C8_alert_criterion_witness:
  "startCheckAssetAlarm flowEnv =
     Inr \<lparr>resAssetDetails =
            [\<lparr>ad_BasicName = ''FOO'',
              ad_TokenAsset =
                [\<lparr>dca_ChainId = ETHEREUM_CROSSCHAIN_ID, dca_Hash = ''a'', dca_TotalSupply = Some 2000000000000,
                  dca_Balance = Some 0, dca_Flow = Some 2000000000000\<rparr>,
                 \<lparr>dca_ChainId = BSC_CROSSCHAIN_ID, dca_Hash = ''b'', dca_TotalSupply = Some 0,
                  dca_Balance = Some 0, dca_Flow = Some 0\<rparr>],
              ad_Difference = 2000000000000, ad_Precision = 8, ad_Price = 100000000,
              ad_Amount_usd = Some 20000, ad_Reason = []\<rparr>],
          extraAssetDetails = [], alert = Some [''FOO'']\<rparr>
   \<and> detailOf flowEnv fooBasic
        \<lparr>ad_BasicName = ''FOO'',
              ad_TokenAsset =
                [\<lparr>dca_ChainId = ETHEREUM_CROSSCHAIN_ID, dca_Hash = ''a'', dca_TotalSupply = Some 2000000000000,
                  dca_Balance = Some 0, dca_Flow = Some 2000000000000\<rparr>,
                 \<lparr>dca_ChainId = BSC_CROSSCHAIN_ID, dca_Hash = ''b'', dca_TotalSupply = Some 0,
                  dca_Balance = Some 0, dca_Flow = Some 0\<rparr>],
              ad_Difference = 2000000000000, ad_Precision = 8, ad_Price = 100000000,
              ad_Amount_usd = Some 20000, ad_Reason = []\<rparr>
   \<and> startCheckAssetAlarm evenEnv =
     Inr \<lparr>resAssetDetails = [\<lparr>ad_BasicName = ''FOO'',
              ad_TokenAsset =
                [\<lparr>dca_ChainId = ETHEREUM_CROSSCHAIN_ID, dca_Hash = ''a'', dca_TotalSupply = Some 5,
                  dca_Balance = Some 5, dca_Flow = Some 0\<rparr>,
                 \<lparr>dca_ChainId = BSC_CROSSCHAIN_ID, dca_Hash = ''b'', dca_TotalSupply = Some 5,
                  dca_Balance = Some 5, dca_Flow = Some 0\<rparr>],
              ad_Difference = 0, ad_Precision = 8, ad_Price = 100000000,
              ad_Amount_usd = None, ad_Reason = []\<rparr>], extraAssetDetails = [], alert = None\<rparr>
   \<and> \<not> reported
        \<lparr>ad_BasicName = ''FOO'',
              ad_TokenAsset =
                [\<lparr>dca_ChainId = ETHEREUM_CROSSCHAIN_ID, dca_Hash = ''a'', dca_TotalSupply = Some 5,
                  dca_Balance = Some 5, dca_Flow = Some 0\<rparr>,
                 \<lparr>dca_ChainId = BSC_CROSSCHAIN_ID, dca_Hash = ''b'', dca_TotalSupply = Some 5,
                  dca_Balance = Some 5, dca_Flow = Some 0\<rparr>],
              ad_Difference = 0, ad_Precision = 8, ad_Price = 100000000,
              ad_Amount_usd = None, ad_Reason = []\<rparr>
   \<and> startCheckAssetAlarm o3DownEnv = Inl NilPointerDereference
   \<and> startCheckAssetAlarm (flowEnv\<lparr>GetPropertytokenBasic := Inl ''no catalog''\<rparr>) =
       Inl (Error ''no catalog'')"
proof -
  let ?ad = "\<lparr>ad_BasicName = ''FOO'',
              ad_TokenAsset =
                [\<lparr>dca_ChainId = ETHEREUM_CROSSCHAIN_ID, dca_Hash = ''a'', dca_TotalSupply = Some 2000000000000,
                  dca_Balance = Some 0, dca_Flow = Some 2000000000000\<rparr>,
                 \<lparr>dca_ChainId = BSC_CROSSCHAIN_ID, dca_Hash = ''b'', dca_TotalSupply = Some 0,
                  dca_Balance = Some 0, dca_Flow = Some 0\<rparr>],
              ad_Difference = 2000000000000, ad_Precision = 8, ad_Price = 100000000,
              ad_Amount_usd = Some 20000, ad_Reason = []\<rparr>"
  from flowEnv_pass obtain posted where
    r: "startCheckAssetAlarm flowEnv =
          Inr \<lparr>resAssetDetails = [?ad], extraAssetDetails = [], alert = posted\<rparr>"
    by blast
  have rep: "reported ?ad"
    by (simp add: reported_def amountUsd_foo)
  from C8_alert_criterion[where env = flowEnv and basics = "[fooBasic]", THEN conjunct1]
    env_sel(5) flowEnv_answers
  have c: "detailOf flowEnv fooBasic ?ad \<and> posted = Some [''FOO'']"
    by (simp add: r rep fooBasic_sel foo_plain)
  then have p: "posted = Some [''FOO'']" and d: "detailOf flowEnv fooBasic ?ad"
    by simp_all
  from C8_alert_criterion[where env = o3DownEnv and basics = "[fooBasic, wbtcBasic]",
      THEN conjunct2, THEN conjunct1] o3DownEnv_facts(1,2)
  have "\<exists>f. startCheckAssetAlarm o3DownEnv = Inl f" by blast
  then have o: "startCheckAssetAlarm o3DownEnv = Inl NilPointerDereference"
    by (simp add: o3DownEnv_facts(3))
  have e: "startCheckAssetAlarm (flowEnv\<lparr>GetPropertytokenBasic := Inl ''no catalog''\<rparr>) =
       Inl (Error ''no catalog'')"
    using C8_alert_criterion[where env = "flowEnv\<lparr>GetPropertytokenBasic := Inl ''no catalog''\<rparr>"
        and err = "''no catalog''", THEN conjunct2, THEN conjunct2]
    by simp
  from C8_alert_criterion[where env = evenEnv and basics = "[fooBasic]", THEN conjunct1]
    evenEnv_facts(1,2)
  have b: "\<not> reported
        \<lparr>ad_BasicName = ''FOO'',
              ad_TokenAsset =
                [\<lparr>dca_ChainId = ETHEREUM_CROSSCHAIN_ID, dca_Hash = ''a'', dca_TotalSupply = Some 5,
                  dca_Balance = Some 5, dca_Flow = Some 0\<rparr>,
                 \<lparr>dca_ChainId = BSC_CROSSCHAIN_ID, dca_Hash = ''b'', dca_TotalSupply = Some 5,
                  dca_Balance = Some 5, dca_Flow = Some 0\<rparr>],
              ad_Difference = 0, ad_Precision = 8, ad_Price = 100000000,
              ad_Amount_usd = None, ad_Reason = []\<rparr>"
    by (simp add: evenEnv_facts(3))
  show ?thesis using r p d o e b evenEnv_facts(3) by simp
qed

subsection \<open>The token pass\<close>

lemma dec_New_0: "dec_New v 0 = of_int v"
  by (simp add: dec_New_def)

lemma addDecimalBigInt_add: "addDecimalBigInt a b = a + b"
proof -
  have "dec_New a 0 + dec_New b 0 = of_int (a + b)" by (simp add: dec_New_0)
  then show ?thesis unfolding addDecimalBigInt_def by (simp only: dec_BigInt_of_int)
qed

lemma addDecimalInt64_add: "addDecimalInt64 a b = a + b"
proof -
  have "dec_New (sint a) 0 + dec_New (sint b) 0 = of_int (sint a + sint b)" by (simp add: dec_New_0)
  then have "dec_IntPart (dec_New (sint a) 0 + dec_New (sint b) 0) = Int64 (sint a + sint b)"
    unfolding dec_IntPart_def by (simp only: dec_BigInt_of_int)
  then have "addDecimalInt64 a b = word_of_int (sint (word_of_int (sint a + sint b) :: 64 word))"
    by (simp add: addDecimalInt64_def Int64_def)
  then show ?thesis by simp
qed

lemma round_half_away_0: "round_half_away 0 = 0"
  by code_simp

lemma scaleAmount_0: "scaleAmount 0 p = 0"
  by (simp add: scaleAmount_def dec_New_0 dec_Div_def round_half_away_0 dec_BigInt_def)

text \<open>
  Claim C3: in the loop of the token pass, a row whose catalog lookup returns no error is
  skipped (nothing is saved for it and the loop goes on with the next row); a row whose
  lookup returns an error and a nil token ends the pass with a nil pointer dereference.
  When every lookup succeeds the pass saves no row at all.
\<close>

theorem C3_lookup_check_inverted:
  "(snd (GetTokenBasicByHash dao (ts_ChainId statistic) (ts_Hash statistic)) = None \<longrightarrow>
      tokenLoop dao BTCPrice nowInId nowOutId (statistic # rest) saved =
      tokenLoop dao BTCPrice nowInId nowOutId rest saved)
   \<and> (GetTokenBasicByHash dao (ts_ChainId statistic) (ts_Hash statistic) = (None, Some err) \<longrightarrow>
      tokenLoop dao BTCPrice nowInId nowOutId (statistic # rest) saved =
      (saved, Some NilPointerDereference))
   \<and> ((\<forall>s\<in>set rows. snd (GetTokenBasicByHash dao (ts_ChainId s) (ts_Hash s)) = None) \<longrightarrow>
      tokenLoop dao BTCPrice nowInId nowOutId rows saved = (saved, None))"
proof -
  have a: "snd (GetTokenBasicByHash dao (ts_ChainId s) (ts_Hash s)) = None \<Longrightarrow>
      tokenLoop dao BTCPrice nowInId nowOutId (s # rest) saved =
      tokenLoop dao BTCPrice nowInId nowOutId rest saved" for s rest
    by (cases "GetTokenBasicByHash dao (ts_ChainId s) (ts_Hash s)") (simp split: option.splits)
  have c: "(\<forall>s\<in>set rows. snd (GetTokenBasicByHash dao (ts_ChainId s) (ts_Hash s)) = None) \<Longrightarrow>
      tokenLoop dao BTCPrice nowInId nowOutId rows saved = (saved, None)"
    by (induction rows) (simp_all add: a del: tokenLoop.simps(2))
  show ?thesis using a c by simp
qed


lemma lookup_sel:
  "GetTokenBasicByHash foundDao =
     (\<lambda>chainId hash. if hash = ''x'' then (Some tokenX, None) else (Some tokenY, None))"
  "GetTokenBasicByHash notFoundDao = (\<lambda>chainId hash. (None, Some ''record not found''))"
  by (simp_all add: foundDao_def notFoundDao_def)

text \<open>
  Claim C3 on the rows of \<open>x\<close> and \<open>y\<close>: when the catalog finds their tokens the pass saves
  nothing, and when it finds nothing the pass panics at the first row.
\<close>

theorem C3_lookup_check_inverted_witness:
  "tokenLoop foundDao 30000 7 12 [rowX, rowY] [] = ([], None)
   \<and> tokenLoop notFoundDao 30000 7 12 [rowX, rowY] [] = ([], Some NilPointerDereference)
   \<and> computeTokenStatistics foundDao = ([], None)
   \<and> computeTokenStatistics notFoundDao = ([], Some NilPointerDereference)"
proof -
  have h: "\<forall>s\<in>set [rowX, rowY]. snd (GetTokenBasicByHash foundDao (ts_ChainId s) (ts_Hash s)) = None"
    by (simp add: lookup_sel)
  have n: "GetTokenBasicByHash notFoundDao (ts_ChainId rowX) (ts_Hash rowX) = (None, Some ''record not found'')"
    by (simp add: lookup_sel)
  note c3 = C3_lookup_check_inverted[of foundDao rowX 30000 7 12 "[rowY]" "[]" _ "[rowX, rowY]"]
  note c3' = C3_lookup_check_inverted[of notFoundDao rowX 30000 7 12 "[rowY]" "[]" "''record not found''" "[]"]
  have a: "tokenLoop foundDao 30000 7 12 [rowX, rowY] [] = ([], None)"
    using c3 h by blast
  have b: "tokenLoop notFoundDao 30000 7 12 [rowX, rowY] [] = ([], Some NilPointerDereference)"
    using c3' n by blast
  have c: "computeTokenStatistics foundDao = ([], None)"
    by code_simp
  have d: "computeTokenStatistics notFoundDao = ([], Some NilPointerDereference)"
    by code_simp
  show ?thesis using a b c d by simp
qed

subsection \<open>The chain pass\<close>

lemma foldChain_poly:
  "cs_ChainId (foldChain nowInId nowOutId ins outs cs) = cs_ChainId cs"
  "cs_ChainId cs = POLY_CROSSCHAIN_ID \<Longrightarrow> foldChain nowInId nowOutId ins outs cs = cs"
  by (simp_all add: foldChain_def Let_def split: option.splits)

lemma find_foldChain:
  "find (\<lambda>cs. cs_ChainId cs = POLY_CROSSCHAIN_ID) (map (foldChain nowInId nowOutId ins outs) rows) =
   find (\<lambda>cs. cs_ChainId cs = POLY_CROSSCHAIN_ID) rows"
  by (induction rows) (simp_all add: foldChain_poly)

lemma find_foldPoly:
  "find (\<lambda>cs. cs_ChainId cs = POLY_CROSSCHAIN_ID) rows = Some relay \<Longrightarrow>
   find (\<lambda>cs. cs_ChainId cs = POLY_CROSSCHAIN_ID) (foldPoly calc polyCheckId rows) =
     Some (case calc (cs_LastInCheckId relay) polyCheckId of
             (counter, None) \<Rightarrow>
               relay\<lparr>cs_In := counter + cs_In relay, cs_Out := counter + cs_Out relay,
                     cs_LastInCheckId := polyCheckId, cs_LastOutCheckId := polyCheckId\<rparr>
           | (counter, Some err) \<Rightarrow> relay)"
proof (induction rows)
  case Nil
  then show ?case by simp
next
  case (Cons cs rows)
  show ?case
  proof (cases "cs_ChainId cs = POLY_CROSSCHAIN_ID")
    case True
    with Cons.prems have "relay = cs" by simp
    then show ?thesis using True
      by (simp add: addDecimalInt64_add split: prod.splits option.splits)
  next
    case False
    with Cons show ?thesis by simp
  qed
qed

text \<open>
  Claim C6: when the chain pass saves, the relay chain's row (the first row of the relay
  chain among the loaded and the newly created rows) is saved with the counter of the
  relay counter query added to both its \<open>In\<close> and its \<open>Out\<close> total and with both
  checkpoints at the relay stream's high-water mark; the query is bounded by the row's
  \<open>LastInCheckId\<close> and that high-water mark, and the deltas of the source and destination
  streams are not added to the row. The row is saved as it was when the query returns an
  error (and the pass saves nothing when it does not reach the save). In particular, when the relay stream's high-water mark equals the
  row's \<open>LastInCheckId\<close> and the counter of the empty range is zero, \<open>In\<close>, \<open>Out\<close> and
  \<open>LastInCheckId\<close> are unchanged.
\<close>

theorem C6_relay_row_from_relay_counter:
  assumes "computeChainStatistics dao = Inr (Some saved)"
    and "GetNewDstTransaction dao = Inr nowInId" and "GetNewSrcTransaction dao = Inr nowOutId"
    and "GetPolyTransaction dao = Inr polyCheckId"
    and "GetChainStatistic dao = Inr chainStatistics" and "GetChains dao = Inr chainIds"
    and "find (\<lambda>cs. cs_ChainId cs = POLY_CROSSCHAIN_ID)
           (chainStatistics @
              map (newChainStatistic nowInId nowOutId) (missingChains chainIds chainStatistics)) =
         Some relay"
  shows "find (\<lambda>cs. cs_ChainId cs = POLY_CROSSCHAIN_ID) saved =
     Some (case CalculatePolyChainStatistic dao (cs_LastInCheckId relay) polyCheckId of
             (counter, None) \<Rightarrow>
               relay\<lparr>cs_In := counter + cs_In relay, cs_Out := counter + cs_Out relay,
                     cs_LastInCheckId := polyCheckId, cs_LastOutCheckId := polyCheckId\<rparr>
           | (counter, Some err) \<Rightarrow> relay)
    \<and> (polyCheckId = cs_LastInCheckId relay \<and>
         (snd (CalculatePolyChainStatistic dao (cs_LastInCheckId relay) polyCheckId) = None \<longrightarrow>
          fst (CalculatePolyChainStatistic dao (cs_LastInCheckId relay) polyCheckId) = 0) \<longrightarrow>
        (\<exists>relay'. find (\<lambda>cs. cs_ChainId cs = POLY_CROSSCHAIN_ID) saved = Some relay' \<and>
           cs_In relay' = cs_In relay \<and> cs_Out relay' = cs_Out relay \<and>
           cs_LastInCheckId relay' = cs_LastInCheckId relay))"
proof -
  from assms(1-6) obtain ins outs where
    saved: "saved = foldPoly (CalculatePolyChainStatistic dao) polyCheckId
       (map (foldChain nowInId nowOutId ins outs)
          (chainStatistics @
             map (newChainStatistic nowInId nowOutId) (missingChains chainIds chainStatistics)))"
    by (auto simp: computeChainStatistics_def Let_def split: sum.splits if_splits)
  have f: "find (\<lambda>cs. cs_ChainId cs = POLY_CROSSCHAIN_ID) saved =
     Some (case CalculatePolyChainStatistic dao (cs_LastInCheckId relay) polyCheckId of
             (counter, None) \<Rightarrow>
               relay\<lparr>cs_In := counter + cs_In relay, cs_Out := counter + cs_Out relay,
                     cs_LastInCheckId := polyCheckId, cs_LastOutCheckId := polyCheckId\<rparr>
           | (counter, Some err) \<Rightarrow> relay)"
    unfolding saved
    by (rule find_foldPoly) (simp only: find_foldChain assms(7))
  then show ?thesis
    by (auto split: prod.splits option.splits)
qed


lemma chainRelayDao_sel:
  "GetNewDstTransaction chainRelayDao = Inr 7" "GetNewSrcTransaction chainRelayDao = Inr 12"
  "GetPolyTransaction chainRelayDao = Inr 103"
  "GetChainStatistic chainRelayDao = Inr [polyRow, ethRow]"
  "GetChains chainRelayDao = Inr [POLY_CROSSCHAIN_ID, ETHEREUM_CROSSCHAIN_ID, BSC_CROSSCHAIN_ID]"
  "CalculatePolyChainStatistic chainRelayDao =
     (\<lambda>fromId toId. (of_nat (countInRange [98, 99, 100, 101, 102, 103] fromId toId), None))"
  by (simp_all add: chainRelayDao_def chainDao_def emptyDao_def)

lemma chainDao_sel:
  "GetNewDstTransaction chainDao = Inr 7" "GetNewSrcTransaction chainDao = Inr 12"
  "GetPolyTransaction chainDao = Inr 100"
  "GetChainStatistic chainDao = Inr [polyRow, ethRow]"
  "GetChains chainDao = Inr [POLY_CROSSCHAIN_ID, ETHEREUM_CROSSCHAIN_ID, BSC_CROSSCHAIN_ID]"
  "CalculatePolyChainStatistic chainDao =
     (\<lambda>fromId toId. (of_nat (countInRange [98, 99, 100, 101, 102, 103] fromId toId), None))"
  by (simp_all add: chainDao_def emptyDao_def)

lemma chainDao_result:
  "computeChainStatistics chainDao =
     Inr (Some [polyRow,
                ethRow\<lparr>cs_In := 3, cs_Out := 5, cs_LastInCheckId := 7, cs_LastOutCheckId := 12\<rparr>,
                newChainStatistic 7 12 BSC_CROSSCHAIN_ID])"
  by code_simp

lemma chainRelayDao_result:
  "computeChainStatistics chainRelayDao =
     Inr (Some [polyRow\<lparr>cs_In := 43, cs_Out := 43, cs_LastInCheckId := 103, cs_LastOutCheckId := 103\<rparr>,
                ethRow\<lparr>cs_In := 3, cs_Out := 5, cs_LastInCheckId := 7, cs_LastOutCheckId := 12\<rparr>,
                newChainStatistic 7 12 BSC_CROSSCHAIN_ID])"
  by code_simp

lemma relay_of_rows:
  "find (\<lambda>cs. cs_ChainId cs = POLY_CROSSCHAIN_ID)
     ([polyRow, ethRow] @
        map (newChainStatistic 7 12)
          (missingChains [POLY_CROSSCHAIN_ID, ETHEREUM_CROSSCHAIN_ID, BSC_CROSSCHAIN_ID] [polyRow, ethRow])) =
   Some polyRow"
  by (simp add: polyRow_def)

lemma relay_counts:
  "countInRange [98, 99, 100, 101, 102, 103] 100 100 = 0"
  "countInRange [98, 99, 100, 101, 102, 103] 100 103 = 3"
  by (simp_all add: countInRange_def)

text \<open>
  Claim C6 on the rows of the relay chain and of Ethereum: with the relay stream at 100,
  the checkpoint of the relay row, the row is saved as it was; with the relay stream at
  103 the three new relay records are added to both totals and the checkpoints become 103.
\<close>

theorem C6_relay_row_from_relay_counter_witness:
  "find (\<lambda>cs. cs_ChainId cs = POLY_CROSSCHAIN_ID)
     [polyRow,
      ethRow\<lparr>cs_In := 3, cs_Out := 5, cs_LastInCheckId := 7, cs_LastOutCheckId := 12\<rparr>,
      newChainStatistic 7 12 BSC_CROSSCHAIN_ID] = Some polyRow
   \<and> find (\<lambda>cs. cs_ChainId cs = POLY_CROSSCHAIN_ID)
     [polyRow\<lparr>cs_In := 43, cs_Out := 43, cs_LastInCheckId := 103, cs_LastOutCheckId := 103\<rparr>,
      ethRow\<lparr>cs_In := 3, cs_Out := 5, cs_LastInCheckId := 7, cs_LastOutCheckId := 12\<rparr>,
      newChainStatistic 7 12 BSC_CROSSCHAIN_ID] =
     Some (polyRow\<lparr>cs_In := 3 + cs_In polyRow, cs_Out := 3 + cs_Out polyRow,
                    cs_LastInCheckId := 103, cs_LastOutCheckId := 103\<rparr>)
   \<and> computeChainStatistics chainDao =
     Inr (Some [polyRow,
                ethRow\<lparr>cs_In := 3, cs_Out := 5, cs_LastInCheckId := 7, cs_LastOutCheckId := 12\<rparr>,
                newChainStatistic 7 12 BSC_CROSSCHAIN_ID])
   \<and> computeChainStatistics chainRelayDao =
     Inr (Some [polyRow\<lparr>cs_In := 43, cs_Out := 43, cs_LastInCheckId := 103, cs_LastOutCheckId := 103\<rparr>,
                ethRow\<lparr>cs_In := 3, cs_Out := 5, cs_LastInCheckId := 7, cs_LastOutCheckId := 12\<rparr>,
                newChainStatistic 7 12 BSC_CROSSCHAIN_ID])"
proof -
  have l: "cs_LastInCheckId polyRow = 100" "polyRow\<lparr>cs_In := cs_In polyRow, cs_Out := cs_Out polyRow,
             cs_LastInCheckId := 100, cs_LastOutCheckId := 100\<rparr> = polyRow"
    by (simp_all add: polyRow_def)
  note a = C6_relay_row_from_relay_counter[OF chainDao_result chainDao_sel(1-5) relay_of_rows,
      THEN conjunct1]
  note b = C6_relay_row_from_relay_counter[OF chainRelayDao_result chainRelayDao_sel(1-5) relay_of_rows,
      THEN conjunct1]
  have a': "find (\<lambda>cs. cs_ChainId cs = POLY_CROSSCHAIN_ID)
     [polyRow,
      ethRow\<lparr>cs_In := 3, cs_Out := 5, cs_LastInCheckId := 7, cs_LastOutCheckId := 12\<rparr>,
      newChainStatistic 7 12 BSC_CROSSCHAIN_ID] = Some polyRow"
    using a by (simp add: chainDao_sel(6) l relay_counts) (simp add: polyRow_def)
  have b': "find (\<lambda>cs. cs_ChainId cs = POLY_CROSSCHAIN_ID)
     [polyRow\<lparr>cs_In := 43, cs_Out := 43, cs_LastInCheckId := 103, cs_LastOutCheckId := 103\<rparr>,
      ethRow\<lparr>cs_In := 3, cs_Out := 5, cs_LastInCheckId := 7, cs_LastOutCheckId := 12\<rparr>,
      newChainStatistic 7 12 BSC_CROSSCHAIN_ID] =
     Some (polyRow\<lparr>cs_In := 3 + cs_In polyRow, cs_Out := 3 + cs_Out polyRow,
                    cs_LastInCheckId := 103, cs_LastOutCheckId := 103\<rparr>)"
    using b by (simp add: chainRelayDao_sel(6) l relay_counts)
  show ?thesis using a' b' chainDao_result chainRelayDao_result by simp
qed

subsection \<open>What the loops save\<close>

lemma tokenLoop_saved:
  "tokenLoop dao B nowInId nowOutId rows saved = (saved', f) \<Longrightarrow>
   \<exists>new. saved' = saved @ new \<and>
     (\<forall>s'\<in>set new. \<exists>s\<in>set rows. \<exists>token err.
        GetTokenBasicByHash dao (ts_ChainId s) (ts_Hash s) = (Some token, Some err) \<and>
        foldTokenStatistic dao B nowInId nowOutId token s = Inr s')"
proof (induction rows arbitrary: saved)
  case Nil
  then show ?case by simp
next
  case (Cons s rows)
  obtain tok e where lk: "GetTokenBasicByHash dao (ts_ChainId s) (ts_Hash s) = (tok, e)"
    by (cases "GetTokenBasicByHash dao (ts_ChainId s) (ts_Hash s)") auto
  show ?case
  proof (cases "e = None \<or> tok = None")
    case True
    then consider "e = None" | "tok = None" "e \<noteq> None" by auto
    then show ?thesis
    proof cases
      case 1
      with Cons.prems lk have "tokenLoop dao B nowInId nowOutId rows saved = (saved', f)"
        by (simp split: option.splits)
      from Cons.IH[OF this] show ?thesis by auto
    next
      case 2
      with Cons.prems lk have "saved' = saved" by (auto split: option.splits)
      then show ?thesis by simp
    qed
  next
    case False
    then obtain token err where te: "tok = Some token" "e = Some err" by auto
    show ?thesis
    proof (cases "foldTokenStatistic dao B nowInId nowOutId token s")
      case (Inl a)
      with Cons.prems lk te have "saved' = saved" by simp
      then show ?thesis by simp
    next
      case (Inr s1)
      show ?thesis
      proof (cases "SaveTokenStatistic dao s1")
        case (Some a)
        with Cons.prems lk te Inr have "saved' = saved" by simp
        then show ?thesis by simp
      next
        case None
        with Cons.prems lk te Inr
        have "tokenLoop dao B nowInId nowOutId rows (saved @ [s1]) = (saved', f)" by simp
        from Cons.IH[OF this] obtain new where
          n: "saved' = (saved @ [s1]) @ new"
             "\<forall>s'\<in>set new. \<exists>s\<in>set rows. \<exists>token err.
                GetTokenBasicByHash dao (ts_ChainId s) (ts_Hash s) = (Some token, Some err) \<and>
                foldTokenStatistic dao B nowInId nowOutId token s = Inr s'"
          by blast
        have "\<forall>s'\<in>set (s1 # new). \<exists>sa\<in>set (s # rows). \<exists>token err.
                GetTokenBasicByHash dao (ts_ChainId sa) (ts_Hash sa) = (Some token, Some err) \<and>
                foldTokenStatistic dao B nowInId nowOutId token sa = Inr s'"
          using n(2) lk te Inr by auto
        then show ?thesis using n(1) by (intro exI[of _ "s1 # new"]) simp
      qed
    qed
  qed
qed

lemma assetLoop_saved:
  "assetLoop dao B nowId rows saved = (saved', f) \<Longrightarrow>
   \<exists>n. saved' = saved @ map (\<lambda>old. (foldl (foldAssetInfo B) old
                  (fst (CalculateAssets dao (as_TokenBasicName old) (as_LastCheckId old) nowId)))
                  \<lparr>as_LastCheckId := nowId\<rparr>) (take n rows)"
proof (induction rows arbitrary: saved)
  case Nil
  then show ?case by simp
next
  case (Cons old rows)
  show ?case
  proof (cases "foldAssetStatistic dao B nowId old")
    case (Inl a)
    with Cons.prems have "saved' = saved" by simp
    then show ?thesis by (intro exI[of _ 0]) simp
  next
    case (Inr old')
    then have old': "old' = (foldl (foldAssetInfo B) old
                  (fst (CalculateAssets dao (as_TokenBasicName old) (as_LastCheckId old) nowId)))
                  \<lparr>as_LastCheckId := nowId\<rparr>"
      by (auto simp: foldAssetStatistic_def Let_def split: if_splits)
    show ?thesis
    proof (cases "SaveAssetStatistic dao old'")
      case (Some a)
      with Cons.prems Inr have "saved' = saved" by simp
      then show ?thesis by (intro exI[of _ 0]) simp
    next
      case None
      with Cons.prems Inr have "assetLoop dao B nowId rows (saved @ [old']) = (saved', f)" by simp
      from Cons.IH[OF this] obtain n where
        "saved' = (saved @ [old']) @ map (\<lambda>old. (foldl (foldAssetInfo B) old
                  (fst (CalculateAssets dao (as_TokenBasicName old) (as_LastCheckId old) nowId)))
                  \<lparr>as_LastCheckId := nowId\<rparr>) (take n rows)"
        by blast
      then show ?thesis using old' by (intro exI[of _ "Suc n"]) simp
    qed
  qed
qed


subsection \<open>The inbound amount of a token row\<close>

text \<open>
  What the fold of the inbound side does with a row once the pass reaches it: on the home
  chain of the token the inbound amount becomes the scaled live balance when the read
  succeeds; on another chain the scaled inbound delta is added.
\<close>

lemma foldIn_home:
  assumes "foldIn dao nowInId token tb s = Inr s1" and "tb_ChainId tb = ts_ChainId s"
  shows "ts_InCounter s1 = ts_InCounter s \<and>
         ts_InAmount s1 =
           (case fst (getAndRetryBalance (GetBalance dao) (ts_ChainId s) (ts_Hash s)) of
              (Some balance, None) \<Rightarrow> scaleAmount balance (dec_New 1 (int32 (t_Precision token)))
            | _ \<Rightarrow> ts_InAmount s)"
  using assms
  by (auto simp: foldIn_def Let_def split: if_splits prod.splits option.splits)

lemma foldIn_away:
  assumes "foldIn dao nowInId token tb s = Inr s1" and "tb_ChainId tb \<noteq> ts_ChainId s"
  shows "(case fst (CalculateInTokenStatistics dao (ts_ChainId s) (ts_Hash s) (ts_LastInCheckId s) nowInId) of
            Some inSta \<Rightarrow>
              if deltaBasic (Some inSta) = None
              then ts_InAmount s1 = ts_InAmount s \<and> ts_InCounter s1 = ts_InCounter s
              else ts_InAmount s1 =
                     ts_InAmount s + scaleAmount (ts_InAmount inSta) (dec_New 1 (int32 (t_Precision token))) \<and>
                   ts_InCounter s1 = ts_InCounter s + ts_InCounter inSta
          | None \<Rightarrow> ts_InAmount s1 = ts_InAmount s \<and> ts_InCounter s1 = ts_InCounter s)"
  using assms
  by (auto simp: foldIn_def Let_def addDecimalBigInt_add addDecimalInt64_add deltaBasic_def
           split: if_splits prod.splits option.splits)

text \<open>
  Claim C5 says that the pass stores the live balance as the inbound amount of a row on
  the home chain of its token, and adds the ledger delta for a row on another chain. The
  pass reaches the code that does so (lines 258 to 268) only after a lookup error, because
  the test of line 251 is inverted. With \<open>foundDao\<close> the catalog lookup succeeds for both
  rows: the row of \<open>x\<close> is on the home chain of its token, its stored inbound amount is 7
  XTK and the live balance is 5 XTK; the row of \<open>y\<close> is on another chain and two inbound
  transfers lie in its range from 5 to 7. Both rows are skipped: the pass saves nothing,
  so the stored inbound amounts stay 700 and 0 where the claim gives 500 and 200.
\<close>

theorem C5_rows_skipped_after_lookup:
  "computeTokenStatistics foundDao = ([], None)
   \<and> GetTokenStatistics foundDao = Inr [rowX, rowY]
   \<and> GetNewDstTransfer foundDao = Inr 7
   \<and> GetTokenBasicByHash foundDao (ts_ChainId rowX) (ts_Hash rowX) = (Some tokenX, None)
   \<and> GetTokenBasicByHash foundDao (ts_ChainId rowY) (ts_Hash rowY) = (Some tokenY, None)
   \<and> t_TokenBasic tokenX = Some xtk \<and> t_TokenBasic tokenY = Some xtk
   \<and> tb_ChainId xtk = ts_ChainId rowX \<and> tb_ChainId xtk \<noteq> ts_ChainId rowY
   \<and> getAndRetryBalance (GetBalance foundDao) (ts_ChainId rowX) (ts_Hash rowX) =
       ((Some 500000000, None), 0)
   \<and> scaleAmount 500000000 (dec_New 1 (int32 (t_Precision tokenX))) = 500
   \<and> ts_InAmount rowX = 700
   \<and> sumAndCountInRange dstStream (ts_ChainId rowY) (ts_Hash rowY) (ts_LastInCheckId rowY) 7 =
       (200000000, 2)
   \<and> scaleAmount 200000000 (dec_New 1 (int32 (t_Precision tokenY))) = 200
   \<and> ts_InAmount rowY = 0"
  by code_simp

text \<open>
  Claim C2 says that the outbound delta of a row is taken over the range from the row's
  \<open>LastOutCheckId\<close> to the source stream's high-water mark. The code asks
  \<^verbatim>\<open>CalculateOutTokenStatistics\<close> for the range from \<open>LastInCheckId\<close> to the destination
  stream's high-water mark. The row of \<open>y\<close> has the checkpoints 5 and 9, the streams end at
  7 and 12: three source transfers (9 XTK) lie in the range from 9 to 12, none in the
  range from 5 to 7; the pass saves the row with an outbound amount and counter of zero
  and the outbound checkpoint 12.
\<close>

theorem C2_outbound_delta_over_inbound_range:
  "computeTokenStatistics tokenDao =
     ([rowX\<lparr>ts_InAmount := 500, ts_InAmountUsd := 50000, ts_InAmountBtc := 1\<rparr>,
       rowY\<lparr>ts_InAmount := 200, ts_InAmountUsd := 20000, ts_InCounter := 2, ts_OutAmount := 0,
               ts_OutCounter := 0, ts_LastInCheckId := 7, ts_LastOutCheckId := 12\<rparr>], None)
   \<and> ts_LastInCheckId rowY = 5 \<and> ts_LastOutCheckId rowY = 9
   \<and> GetNewDstTransfer tokenDao = Inr 7 \<and> GetNewSrcTransfer tokenDao = Inr 12
   \<and> sumAndCountInRange srcStream BSC_CROSSCHAIN_ID ''y'' 9 12 = (900000000, 3)
   \<and> sumAndCountInRange srcStream BSC_CROSSCHAIN_ID ''y'' 5 7 = (0, 0)
   \<and> sumAndCountInRange dstStream BSC_CROSSCHAIN_ID ''y'' 5 7 = (200000000, 2)"
  by code_simp

subsection \<open>A failing save ends the pass\<close>

lemma tokenLoop_prefix: "\<exists>new. fst (tokenLoop dao B nowInId nowOutId rows saved) = saved @ new"
  using tokenLoop_saved[of dao B nowInId nowOutId rows saved]
  by (cases "tokenLoop dao B nowInId nowOutId rows saved") auto

lemma assetLoop_prefix: "\<exists>new. fst (assetLoop dao B nowId rows saved) = saved @ new"
  using assetLoop_saved[of dao B nowId rows saved]
  by (cases "assetLoop dao B nowId rows saved") auto

text \<open>
  Claim C4, as stated, fails: when the save of the row of XTK fails, the asset pass returns
  the error at once and the row of BTC, whose save would succeed, is not saved; likewise
  the token pass returns at the failing save of the row of \<open>x\<close> and does not save the row
  of \<open>y\<close>.
\<close>

theorem C4_save_error_counterexample:
  "computeAssetStatistics assetFailDao = ([], Some (Error ''db down''))
   \<and> SaveAssetStatistic assetFailDao assetBtc = None
   \<and> computeAssetStatistics assetDao =
       ([assetXtk\<lparr>as_Amount := 900, as_Txnum := 3, as_AmountUsd := 90000, as_AmountBtc := 3,
                   as_LastCheckId := 12\<rparr>, assetBtc], None)
   \<and> computeTokenStatistics failDao = ([], Some (Error ''db down''))
   \<and> computeTokenStatistics tokenDao =
     ([rowX\<lparr>ts_InAmount := 500, ts_InAmountUsd := 50000, ts_InAmountBtc := 1\<rparr>,
       rowY\<lparr>ts_InAmount := 200, ts_InAmountUsd := 20000, ts_InCounter := 2,
               ts_LastInCheckId := 7, ts_LastOutCheckId := 12\<rparr>], None)"
  by code_simp

text \<open>
  Claim C4, amended: in the asset pass and in the token pass a persistence error while
  saving one row ends the pass at that row. The error is returned (the scheduler logs
  it), the rows saved before stay saved, and the remaining rows are not processed in this
  pass. After a save without error the loop goes on with the next row.
\<close>

theorem C4_save_error_ends_pass:
  "(foldAssetStatistic dao BTCPrice nowId old = Inr old' \<and> SaveAssetStatistic dao old' = Some e \<longrightarrow>
      assetLoop dao BTCPrice nowId (old # rest) saved = (saved, Some (Error e)))
   \<and> (foldAssetStatistic dao BTCPrice nowId old = Inr old' \<and> SaveAssetStatistic dao old' = None \<longrightarrow>
      assetLoop dao BTCPrice nowId (old # rest) saved =
      assetLoop dao BTCPrice nowId rest (saved @ [old']))
   \<and> (GetTokenBasicByHash dao (ts_ChainId statistic) (ts_Hash statistic) = (Some token, Some err) \<and>
      foldTokenStatistic dao BTCPrice nowInId nowOutId token statistic = Inr statistic' \<and>
      SaveTokenStatistic dao statistic' = Some e \<longrightarrow>
      tokenLoop dao BTCPrice nowInId nowOutId (statistic # rows) tsaved = (tsaved, Some (Error e)))
   \<and> (GetTokenBasicByHash dao (ts_ChainId statistic) (ts_Hash statistic) = (Some token, Some err) \<and>
      foldTokenStatistic dao BTCPrice nowInId nowOutId token statistic = Inr statistic' \<and>
      SaveTokenStatistic dao statistic' = None \<longrightarrow>
      tokenLoop dao BTCPrice nowInId nowOutId (statistic # rows) tsaved =
      tokenLoop dao BTCPrice nowInId nowOutId rows (tsaved @ [statistic']))
   \<and> (\<exists>new. fst (assetLoop dao BTCPrice nowId rest saved) = saved @ new)
   \<and> (\<exists>new. fst (tokenLoop dao BTCPrice nowInId nowOutId rows tsaved) = tsaved @ new)"
  using assetLoop_prefix[of dao BTCPrice nowId rest saved]
    tokenLoop_prefix[of dao BTCPrice nowInId nowOutId rows tsaved]
  by simp

lemma assetFailDao_facts:
  "foldAssetStatistic assetFailDao 30000 12 assetXtk =
     Inr (assetXtk\<lparr>as_Amount := 900, as_Txnum := 3, as_AmountUsd := 90000, as_AmountBtc := 3,
                   as_LastCheckId := 12\<rparr>)"
  "SaveAssetStatistic assetFailDao
     (assetXtk\<lparr>as_Amount := 900, as_Txnum := 3, as_AmountUsd := 90000, as_AmountBtc := 3,
                   as_LastCheckId := 12\<rparr>) = Some ''db down''"
  by code_simp+

lemma assetDao_facts:
  "foldAssetStatistic assetDao 30000 12 assetXtk =
     Inr (assetXtk\<lparr>as_Amount := 900, as_Txnum := 3, as_AmountUsd := 90000, as_AmountBtc := 3,
                   as_LastCheckId := 12\<rparr>)"
  "SaveAssetStatistic assetDao
     (assetXtk\<lparr>as_Amount := 900, as_Txnum := 3, as_AmountUsd := 90000, as_AmountBtc := 3,
                   as_LastCheckId := 12\<rparr>) = None"
  by code_simp+

lemma failDao_facts:
  "GetTokenBasicByHash failDao (ts_ChainId rowX) (ts_Hash rowX) = (Some tokenX, Some ''warning'')"
  "foldTokenStatistic failDao 30000 7 12 tokenX rowX =
     Inr (rowX\<lparr>ts_InAmount := 500, ts_InAmountUsd := 50000, ts_InAmountBtc := 1\<rparr>)"
  "SaveTokenStatistic failDao (rowX\<lparr>ts_InAmount := 500, ts_InAmountUsd := 50000, ts_InAmountBtc := 1\<rparr>) =
     Some ''db down''"
  by code_simp+

lemma tokenDao_folds:
  "foldTokenStatistic tokenDao 30000 7 12 tokenX rowX =
     Inr (rowX\<lparr>ts_InAmount := 500, ts_InAmountUsd := 50000, ts_InAmountBtc := 1\<rparr>)"
  by code_simp

lemma tokenDao_facts:
  "GetTokenBasicByHash tokenDao (ts_ChainId rowX) (ts_Hash rowX) = (Some tokenX, Some ''warning'')"
  "SaveTokenStatistic tokenDao (rowX\<lparr>ts_InAmount := 500, ts_InAmountUsd := 50000, ts_InAmountBtc := 1\<rparr>) =
     None"
  by code_simp+

text \<open>
  The amended claim C4 on the asset rows of XTK and BTC and on the token rows of \<open>x\<close> and
  \<open>y\<close>, when the save of the first row fails and when it succeeds.
\<close>

theorem C4_save_error_ends_pass_witness:
  "assetLoop assetFailDao 30000 12 [assetXtk, assetBtc] [] = ([], Some (Error ''db down''))
   \<and> assetLoop assetDao 30000 12 [assetXtk, assetBtc] [] =
       assetLoop assetDao 30000 12 [assetBtc]
         [assetXtk\<lparr>as_Amount := 900, as_Txnum := 3, as_AmountUsd := 90000, as_AmountBtc := 3,
                    as_LastCheckId := 12\<rparr>]
   \<and> tokenLoop failDao 30000 7 12 [rowX, rowY] [] = ([], Some (Error ''db down''))
   \<and> tokenLoop tokenDao 30000 7 12 [rowX, rowY] [] =
       tokenLoop tokenDao 30000 7 12 [rowY]
         [rowX\<lparr>ts_InAmount := 500, ts_InAmountUsd := 50000, ts_InAmountBtc := 1\<rparr>]"
proof -
  note t = C4_save_error_ends_pass
  have a: "assetLoop assetFailDao 30000 12 [assetXtk, assetBtc] [] = ([], Some (Error ''db down''))"
    using t[of assetFailDao 30000 12 assetXtk _ "''db down''" "[assetBtc]" "[]", THEN conjunct1]
      assetFailDao_facts by blast
  have b: "assetLoop assetDao 30000 12 [assetXtk, assetBtc] [] =
       assetLoop assetDao 30000 12 [assetBtc]
         [assetXtk\<lparr>as_Amount := 900, as_Txnum := 3, as_AmountUsd := 90000, as_AmountBtc := 3,
                    as_LastCheckId := 12\<rparr>]"
    using t[of assetDao 30000 12 assetXtk _ _ "[assetBtc]" "[]", THEN conjunct2, THEN conjunct1]
      assetDao_facts by simp
  have c: "tokenLoop failDao 30000 7 12 [rowX, rowY] [] = ([], Some (Error ''db down''))"
    using t[of failDao 30000 12 _ _ "''db down''" _ _ rowX tokenX "''warning''" 7 12 _ "[rowY]" "[]",
            THEN conjunct2, THEN conjunct2, THEN conjunct1]
      failDao_facts by blast
  have d: "tokenLoop tokenDao 30000 7 12 [rowX, rowY] [] =
       tokenLoop tokenDao 30000 7 12 [rowY]
         [rowX\<lparr>ts_InAmount := 500, ts_InAmountUsd := 50000, ts_InAmountBtc := 1\<rparr>]"
    using t[of tokenDao 30000 12 _ _ _ _ _ rowX tokenX "''warning''" 7 12 _ "[rowY]" "[]",
            THEN conjunct2, THEN conjunct2, THEN conjunct2, THEN conjunct1]
      tokenDao_facts tokenDao_folds by simp
  show ?thesis using a b c d by simp
qed

subsection \<open>Passes without new ledger data\<close>










subsection \<open>The scheduler loop never ends\<close>

lemma runLoop_no_result: "runLoop sel i passes = Some y \<Longrightarrow> False"
  by (rule runLoop.raw_induct[where P = "\<lambda>_ _ _ _. False"]) (auto split: select_case.splits)

lemma runLoop_never_returns: "runLoop sel i passes = None"
  using runLoop_no_result[of sel i passes] by (cases "runLoop sel i passes") auto

text \<open>
  Claim C10 says that after the shutdown signal every timer loop terminates, that no
  further pass starts, and that \<^verbatim>\<open>Stop\<close> returns once all goroutines have exited. The
  code does otherwise: the \<^verbatim>\<open>break\<close> of the \<^verbatim>\<open>Done\<close> case only leaves the \<^verbatim>\<open>select\<close>, so
  the loop of \<^verbatim>\<open>run\<close> returns for no schedule at all, \<^verbatim>\<open>wg.Done()\<close> is never reached and
  \<^verbatim>\<open>Stop\<close> never returns as soon as one goroutine has added itself to the wait group; on
  the schedule that takes the \<^verbatim>\<open>Done\<close> case and then the ticker case, a pass starts after
  the cancellation.
\<close>

theorem C10_run_never_returns:
  "run sel wg = None \<and> Stop (sel # goroutines) = None \<and> runIter cancelledThenTick 0 0 2 = 1"
  by (simp add: run_def Stop_def runLoop_never_returns cancelledThenTick_def numeral_2_eq_2)

end
